(* ===== verification/Prelude.thy ===== *)
theory Prelude
  imports Complex_Main "HOL-Library.AList"
begin

text \<open>
  Shared vocabulary of the alert-hub model: the error values the TypeScript code throws,
  JavaScript's \<open>undefined\<close>/\<open>NaN\<close> number values, JavaScript truthiness of optional
  strings, the lodash helpers the code calls (\<open>uniqBy\<close>, \<open>groupBy\<close>), and the generic
  list lemmas the component theories share.  The named collection \<open>js_simps\<close> holds
  the evaluation rules of these helpers, so that component proofs say \<open>simp add: js_simps\<close>.
\<close>

named_theorems js_simps "evaluation rules of the JavaScript and lodash helpers"

section \<open>Errors\<close>

text \<open>
  Every \<open>throw\<close> of the core is one constructor.  \<open>UnknownError\<close> is the message
  \<open>An unknown error occurred.\<close> with which \<open>getTransferEvents\<close> replaces every error but
  the insufficient-history one (src/plugins/eth-data/transfer-events.ts, lines 308-314).
\<close>

datatype error =
    ProviderUnavailable
  | InsufficientHistory string
  | InvalidTimeRange string
  | InvalidHex string
  | UnmatchedWebhook
  | MissingField string
  | UnknownError
  | InvalidUrl string
  | TriggerRejected string

type_synonym 'a result = "error + 'a"

text \<open>An HTTP response: status code and body.\<close>

datatype response = Response nat string

text \<open>
  The \<open>message\<close> of each error.  The core's own throws carry the literal texts of the
  source (transfer-events.ts lines 212 and 278, routes/alchemy/index.ts line 98); the
  errors raised by libraries (provider faults, web3's hex parser, property reads of
  \<open>undefined\<close>) carry representative texts.  The only use of a message in the code is the
  substring test of \<open>getTransferEvents\<close>, and no library text contains its phrase.
\<close>

fun error_message :: "error \<Rightarrow> string" where
  "error_message ProviderUnavailable = ''provider request failed''"
| "error_message (InsufficientHistory r) = ''Not enough transfers found in the last '' @ r"
| "error_message (InvalidTimeRange r) = ''Invalid time range: '' @ r"
| "error_message (InvalidHex h) = ''invalid hex value '' @ h"
| "error_message UnmatchedWebhook =
     ''Received address activity from alchemy without matching monitored Contract''"
| "error_message (MissingField f) = ''Cannot read properties of undefined (reading '' @ f @ '')''"
| "error_message UnknownError = ''An unknown error occurred.''"
| "error_message (InvalidUrl u) = ''Invalid URL''"
| "error_message (TriggerRejected m) = m"

text \<open>Sequencing of fallible steps, as \<open>await\<close> of a call that may throw.\<close>

definition bind_r :: "'a result \<Rightarrow> ('a \<Rightarrow> 'b result) \<Rightarrow> 'b result" where
  "bind_r r f = (case r of Inl e \<Rightarrow> Inl e | Inr a \<Rightarrow> f a)"

lemma bind_r_simps [simp, js_simps]:
  "bind_r (Inl e) f = Inl e"
  "bind_r (Inr a) f = f a"
  by (simp_all add: bind_r_def)

lemma bind_r_eq_Inr [simp]:
  "bind_r r f = Inr b \<longleftrightarrow> (\<exists>a. r = Inr a \<and> f a = Inr b)"
  by (cases r) auto

text \<open>An \<open>await\<close> of a provider call: \<open>None\<close> is a provider fault.\<close>

definition from_provider :: "'a option \<Rightarrow> 'a result" where
  "from_provider x = (case x of None \<Rightarrow> Inl ProviderUnavailable | Some a \<Rightarrow> Inr a)"

lemma from_provider_simps [simp, js_simps]:
  "from_provider None = Inl ProviderUnavailable"
  "from_provider (Some a) = Inr a"
  by (simp_all add: from_provider_def)

text \<open>Fallible steps over a list, stopping at the first error, as \<open>arr.map\<close> of a throwing
  callback does.\<close>

fun map_r :: "('a \<Rightarrow> 'b result) \<Rightarrow> 'a list \<Rightarrow> 'b list result" where
  "map_r f [] = Inr []"
| "map_r f (x # xs) = bind_r (f x) (\<lambda>y. bind_r (map_r f xs) (\<lambda>ys. Inr (y # ys)))"

lemma map_r_Inr_length:
  "map_r f xs = Inr ys \<Longrightarrow> length ys = length xs"
  by (induction xs arbitrary: ys) auto

lemma map_r_Inr_nth:
  "map_r f xs = Inr ys \<Longrightarrow> i < length xs \<Longrightarrow> f (xs ! i) = Inr (ys ! i)"
proof (induction xs arbitrary: ys i)
  case Nil
  then show ?case by simp
next
  case (Cons x xs)
  then obtain y ys' where "f x = Inr y" "map_r f xs = Inr ys'" "ys = y # ys'"
    by auto
  with Cons show ?case by (cases i) auto
qed

lemma map_r_map:
  "(\<And>x. x \<in> set xs \<Longrightarrow> f x = Inr (g x)) \<Longrightarrow> map_r f xs = Inr (map g xs)"
  by (induction xs) auto

section \<open>JavaScript values\<close>

text \<open>
  A JavaScript number that the model needs to tell apart from a real value: \<open>NaN\<close>
  arises from \<open>undefined + x\<close>.  Numbers are rationals.  Balances enter as the doubles
  theory \<open>Scaling\<close> computes, but the rounding of the running sums is not modelled (the
  spec's decimal semantics, section 4.3).
\<close>

datatype jsnum = Num rat | NaN

text \<open>\<open>a + b\<close> where \<open>a\<close> may be \<open>undefined\<close> (\<open>None\<close>) or \<open>NaN\<close>.\<close>

fun js_plus :: "jsnum option \<Rightarrow> rat \<Rightarrow> jsnum" where
  "js_plus (Some (Num a)) b = Num (a + b)"
| "js_plus _ b = NaN"

declare js_plus.simps [js_simps]

text \<open>Truthiness of a value of type \<open>string | undefined | null\<close>: \<open>''\<close> is falsy.\<close>

definition js_truthy :: "string option \<Rightarrow> bool" where
  "js_truthy s \<longleftrightarrow> s \<noteq> None \<and> s \<noteq> Some []"

lemma js_truthy_simps [simp, js_simps]:
  "\<not> js_truthy None"
  "\<not> js_truthy (Some [])"
  "js_truthy (Some (c # cs))"
  by (simp_all add: js_truthy_def)

text \<open>\<open>a || b\<close> on an optional string.\<close>

definition js_or :: "string option \<Rightarrow> string \<Rightarrow> string" where
  "js_or s d = (if js_truthy s then the s else d)"

lemma js_or_simps [simp, js_simps]:
  "js_or None d = d"
  "js_or (Some []) d = d"
  "js_or (Some (c # cs)) d = c # cs"
  by (simp_all add: js_or_def)

section \<open>lodash helpers\<close>

text \<open>\<open>_.uniqBy(xs, f)\<close>: the first element of each \<open>f\<close>-class, in order.\<close>

fun uniq_by_aux :: "('a \<Rightarrow> 'k) \<Rightarrow> 'k list \<Rightarrow> 'a list \<Rightarrow> 'a list" where
  "uniq_by_aux f seen [] = []"
| "uniq_by_aux f seen (x # xs) =
     (if f x \<in> set seen then uniq_by_aux f seen xs
      else x # uniq_by_aux f (f x # seen) xs)"

definition uniq_by :: "('a \<Rightarrow> 'k) \<Rightarrow> 'a list \<Rightarrow> 'a list" where
  "uniq_by f xs = uniq_by_aux f [] xs"

lemma set_uniq_by_aux:
  "set (map f (uniq_by_aux f seen xs)) = f ` set xs - set seen"
  by (induction xs arbitrary: seen) auto

lemma distinct_uniq_by_aux:
  "distinct (map f (uniq_by_aux f seen xs)) \<and> set (map f (uniq_by_aux f seen xs)) \<inter> set seen = {}"
proof (induction xs arbitrary: seen)
  case Nil
  then show ?case by simp
next
  case (Cons x xs)
  have "f x \<notin> f ` set (uniq_by_aux f (f x # seen) xs)"
    using set_uniq_by_aux [of f "f x # seen" xs] by auto
  with Cons.IH [of "f x # seen"] Cons.IH [of seen] show ?case
    by auto
qed

lemma uniq_by_keys:
  "set (map f (uniq_by f xs)) = f ` set xs" "distinct (map f (uniq_by f xs))"
  using set_uniq_by_aux [of f "[]" xs] distinct_uniq_by_aux [of f "[]" xs]
  by (simp_all add: uniq_by_def)

text \<open>\<open>_.groupBy(xs, f)\<close> as a map from key to the members in their original order.\<close>

definition group_by :: "('a \<Rightarrow> 'k) \<Rightarrow> 'a list \<Rightarrow> 'k \<Rightarrow> 'a list option" where
  "group_by f xs k = (if k \<in> f ` set xs then Some (filter (\<lambda>x. f x = k) xs) else None)"

lemma group_by_concat_mset:
  "group_by f xs k = Some ys \<Longrightarrow> set ys = {x \<in> set xs. f x = k} \<and> ys \<noteq> []"
  by (auto simp: group_by_def filter_empty_conv split: if_splits)

section \<open>Shared list lemmas\<close>

lemma sum_list_filter_take_Suc:
  "i < length xs \<Longrightarrow>
   sum_list (map g (filter P (take (Suc i) xs))) =
   sum_list (map g (filter P (take i xs))) + (if P (xs ! i) then g (xs ! i) else 0)"
  by (simp add: take_Suc_conv_app_nth)

lemma in_update: "(k, v) \<in> set (AList.update k v st)"
  by (induction st) auto

lemma map_of_update_other: "k \<noteq> k' \<Longrightarrow> map_of (AList.update k v st) k' = map_of st k'"
  by (simp add: update_conv')

lemma set_update_sub: "set (AList.update k v al) \<subseteq> insert (k, v) (set al)"
  by (induction al) auto

lemma set_update_other:
  "distinct (map fst al) \<Longrightarrow> set (AList.update k v al) \<subseteq> insert (k, v) {x \<in> set al. fst x \<noteq> k}"
  by (induction al) (auto simp: image_iff)

end
