(* ===== verification/JsStrings.thy ===== *)
theory JsStrings
  imports Prelude
begin

text \<open>
  The string conversions the code performs on numbers: decimal printing
  (\<open>BigInt.prototype.toString()\<close>, template literals), web3's hex parsing
  (\<open>web3.utils.hexToNumber\<close>, \<open>hexToNumberString\<close>) and printing (\<open>toHex\<close>),
  \<open>String.prototype.padStart\<close> and \<open>String.prototype.split\<close>.  Each printer comes with
  its parser and a round-trip lemma; these carry the proofs of the scaling and
  unique-id theorems.
\<close>

section \<open>Decimal digits\<close>

definition digit_chr :: "nat \<Rightarrow> char" where
  "digit_chr d = char_of (48 + d)"

definition is_digit :: "char \<Rightarrow> bool" where
  "is_digit c \<longleftrightarrow> 48 \<le> (of_char c :: nat) \<and> (of_char c :: nat) \<le> 57"

definition digit_val :: "char \<Rightarrow> nat" where
  "digit_val c = of_char c - 48"

lemma digit_val_chr [simp]: "d < 10 \<Longrightarrow> digit_val (digit_chr d) = d"
  by (simp add: digit_val_def digit_chr_def)

lemma is_digit_chr [simp]: "d < 10 \<Longrightarrow> is_digit (digit_chr d)"
  by (simp add: is_digit_def digit_chr_def)

lemma digit_chr_inj: "d < 10 \<Longrightarrow> e < 10 \<Longrightarrow> digit_chr d = digit_chr e \<longleftrightarrow> d = e"
  by (metis digit_val_chr)

text \<open>The decimal representation of a natural number, without leading zeros.\<close>

fun dec_string :: "nat \<Rightarrow> string" where
  "dec_string n = (if n < 10 then [digit_chr n] else dec_string (n div 10) @ [digit_chr (n mod 10)])"

declare dec_string.simps [simp del]

definition dec_value :: "string \<Rightarrow> nat" where
  "dec_value s = foldl (\<lambda>a c. 10 * a + digit_val c) 0 s"

lemma dec_value_snoc [simp]: "dec_value (s @ [c]) = 10 * dec_value s + digit_val c"
  by (simp add: dec_value_def)

lemma dec_string_small [simp]: "n < 10 \<Longrightarrow> dec_string n = [digit_chr n]"
  by (subst dec_string.simps) simp

lemma dec_string_numeral:
  "10 \<le> (numeral k :: nat) \<Longrightarrow> dec_string (numeral k) = dec_string (numeral k div 10) @ [digit_chr (numeral k mod 10)]"
  by (subst dec_string.simps) simp

lemma dec_value_single [simp]: "dec_value [c] = digit_val c"
  by (simp add: dec_value_def)

lemma dec_value_dec_string [simp]: "dec_value (dec_string n) = n"
proof (induction n rule: dec_string.induct)
  case (1 n)
  then show ?case
    by (subst dec_string.simps) (simp add: dec_value_def)
qed

lemma dec_string_inj [simp]: "dec_string m = dec_string n \<longleftrightarrow> m = n"
  by (metis dec_value_dec_string)

lemma dec_string_ne [simp]: "dec_string n \<noteq> []"
  by (subst dec_string.simps) simp

lemma dec_string_digits: "c \<in> set (dec_string n) \<Longrightarrow> is_digit c"
proof (induction n rule: dec_string.induct)
  case (1 n)
  then show ?case
    by (subst (asm) dec_string.simps) (auto split: if_splits)
qed

lemma length_dec_string_le:
  "n < 10 ^ k \<Longrightarrow> 0 < k \<Longrightarrow> length (dec_string n) \<le> k"
proof (induction n arbitrary: k rule: dec_string.induct)
  case (1 n)
  show ?case
  proof (cases "n < 10")
    case True
    with "1.prems" show ?thesis by (subst dec_string.simps) simp
  next
    case False
    then obtain k' where k: "k = Suc k'"
      using "1.prems" by (cases k) auto
    have "n div 10 < 10 ^ k'"
      using "1.prems" k by (simp add: less_mult_imp_div_less mult.commute)
    moreover have "0 < k'"
      using False "1.prems" k by (cases k') auto
    ultimately have "length (dec_string (n div 10)) \<le> k'"
      using "1.IH" False by blast
    with False k show ?thesis by (subst dec_string.simps) simp
  qed
qed

section \<open>\<open>padStart\<close>\<close>

text \<open>\<open>s.padStart(n, c)\<close>: prefix copies of \<open>c\<close> up to length \<open>n\<close>; a longer string is
  returned unchanged.\<close>

definition pad_start :: "nat \<Rightarrow> char \<Rightarrow> string \<Rightarrow> string" where
  "pad_start n c s = replicate (n - length s) c @ s"

lemma length_pad_start: "length (pad_start n c s) = max n (length s)"
  by (simp add: pad_start_def)

lemma dec_value_zeros [simp]: "dec_value (replicate k (CHR ''0'') @ s) = dec_value s"
proof -
  have "foldl (\<lambda>a c. 10 * a + digit_val c) 0 (replicate k (CHR ''0'')) = 0"
    by (induction k) (simp_all add: digit_val_def replicate_app_Cons_same [symmetric])
  then show ?thesis by (simp add: dec_value_def)
qed

lemma dec_value_pad_start [simp]: "dec_value (pad_start n (CHR ''0'') s) = dec_value s"
  by (simp add: pad_start_def)

section \<open>Hexadecimal\<close>

definition hex_digit_val :: "char \<Rightarrow> nat option" where
  "hex_digit_val c =
     (let k = (of_char c :: nat) in
      if 48 \<le> k \<and> k \<le> 57 then Some (k - 48)
      else if 97 \<le> k \<and> k \<le> 102 then Some (k - 87)
      else if 65 \<le> k \<and> k \<le> 70 then Some (k - 55)
      else None)"

fun hex_digits_value :: "nat \<Rightarrow> string \<Rightarrow> nat option" where
  "hex_digits_value acc [] = Some acc"
| "hex_digits_value acc (c # cs) =
     (case hex_digit_val c of None \<Rightarrow> None | Some d \<Rightarrow> hex_digits_value (16 * acc + d) cs)"

text \<open>
  \<open>hexToNumber\<close> of web3 (v4): the argument must match \<open>/^0x[0-9a-f]+$/i\<close>, else it
  throws; \<open>0x\<close> with no digits is refused by \<open>BigInt\<close>.  Negative hex strings
  (\<open>-0x\<dots>\<close>) do not occur for block numbers, log indices or balances and are refused here.
\<close>

definition parse_hex :: "string \<Rightarrow> nat option" where
  "parse_hex s =
     (if length s > 2 \<and> hd s = CHR ''0'' \<and> (s ! 1 = CHR ''x'' \<or> s ! 1 = CHR ''X'')
      then hex_digits_value 0 (drop 2 s) else None)"

definition hex_chr :: "nat \<Rightarrow> char" where
  "hex_chr d = (if d < 10 then char_of (48 + d) else char_of (87 + d))"

fun hex_string :: "nat \<Rightarrow> string" where
  "hex_string n = (if n < 16 then [hex_chr n] else hex_string (n div 16) @ [hex_chr (n mod 16)])"

declare hex_string.simps [simp del]

text \<open>\<open>web3.utils.toHex\<close> of a number: lower-case digits, no leading zeros.\<close>

definition to_hex :: "int \<Rightarrow> string" where
  "to_hex i = (if i < 0 then ''-0x'' @ hex_string (nat (- i)) else ''0x'' @ hex_string (nat i))"

lemma hex_digit_val_chr [simp]: "d < 16 \<Longrightarrow> hex_digit_val (hex_chr d) = Some d"
  by (auto simp: hex_digit_val_def hex_chr_def Let_def)

lemma hex_digits_value_append:
  "hex_digits_value acc (xs @ ys) =
     (case hex_digits_value acc xs of None \<Rightarrow> None | Some a \<Rightarrow> hex_digits_value a ys)"
  by (induction xs arbitrary: acc) (auto split: option.splits)

lemma hex_digits_value_hex_string:
  "hex_digits_value acc (hex_string n) = Some (acc * 16 ^ length (hex_string n) + n)"
proof (induction n arbitrary: acc rule: hex_string.induct)
  case (1 n)
  show ?case
  proof (cases "n < 16")
    case True
    then show ?thesis by (subst (1 2) hex_string.simps) simp
  next
    case False
    then show ?thesis
      using "1.IH" [OF False]
      by (subst (1 2) hex_string.simps) (simp add: hex_digits_value_append algebra_simps)
  qed
qed

lemma hex_string_ne [simp]: "hex_string n \<noteq> []"
  by (subst hex_string.simps) simp

lemma parse_hex_to_hex [simp]: "0 \<le> i \<Longrightarrow> parse_hex (to_hex i) = Some (nat i)"
  by (simp add: parse_hex_def to_hex_def hex_digits_value_hex_string)

section \<open>\<open>split\<close>\<close>

text \<open>
  \<open>s.split(sep)\<close> for a non-empty separator: the pieces between non-overlapping
  occurrences, scanned left to right.  The piece being read is kept reversed in \<open>cur\<close>.
\<close>

function js_split_aux :: "string \<Rightarrow> string \<Rightarrow> string \<Rightarrow> string list" where
  "js_split_aux sep cur [] = [rev cur]"
| "js_split_aux sep cur (c # cs) =
     (if sep \<noteq> [] \<and> take (length sep) (c # cs) = sep
      then rev cur # js_split_aux sep [] (drop (length sep) (c # cs))
      else js_split_aux sep (c # cur) cs)"
  by pat_completeness auto
termination
  by (relation "measure (\<lambda>(sep, cur, s). length s)") auto

definition js_split :: "string \<Rightarrow> string \<Rightarrow> string list" where
  "js_split sep s = js_split_aux sep [] s"

text \<open>\<open>arr[i]\<close>: \<open>None\<close> is \<open>undefined\<close>.\<close>

definition js_index :: "'a list \<Rightarrow> nat \<Rightarrow> 'a option" where
  "js_index xs i = (if i < length xs then Some (xs ! i) else None)"

text \<open>String interpolation of a value that may be \<open>undefined\<close>.\<close>

definition js_show :: "string option \<Rightarrow> string" where
  "js_show s = (case s of None \<Rightarrow> ''undefined'' | Some x \<Rightarrow> x)"

text \<open>\<open>s.includes(sub)\<close>: \<open>sub\<close> occurs in \<open>s\<close> at some position.\<close>

fun js_includes :: "string \<Rightarrow> string \<Rightarrow> bool" where
  "js_includes [] sub = (sub = [])"
| "js_includes (c # cs) sub = (take (length sub) (c # cs) = sub \<or> js_includes cs sub)"

lemma js_includes_prefix [simp]: "js_includes (sub @ r) sub"
  by (cases sub; cases r) auto

lemma js_includes_append_left: "js_includes b sub \<Longrightarrow> js_includes (a @ b) sub"
  by (induction a) auto

lemma js_includes_append_fresh:
  assumes "sub \<noteq> []" and "hd sub \<notin> set a"
  shows "js_includes (a @ b) sub \<longleftrightarrow> js_includes b sub"
proof
  show "js_includes (a @ b) sub \<Longrightarrow> js_includes b sub"
    using assms(2)
  proof (induction a)
    case (Cons c a)
    have "take (length sub) (c # a @ b) \<noteq> sub"
      using assms(1) Cons.prems(2) by (cases sub) auto
    with Cons show ?case by simp
  qed simp
qed (rule js_includes_append_left)

text \<open>\<open>String.prototype.toLowerCase\<close> on ASCII text (addresses are ASCII).\<close>

definition js_lower :: "string \<Rightarrow> string" where
  "js_lower s = map (\<lambda>c. if 65 \<le> (of_char c :: nat) \<and> (of_char c :: nat) \<le> 90
                         then char_of (of_char c + (32 :: nat)) else c) s"

lemma lower_char_not_colon:
  assumes "65 \<le> (of_char x :: nat)" and "(of_char x :: nat) \<le> 90"
  shows "char_of (of_char x + (32 :: nat)) \<noteq> CHR '':''"
proof
  assume "char_of (of_char x + (32 :: nat)) = CHR '':''"
  then have "(of_char (char_of (of_char x + (32 :: nat))) :: nat) = of_char (CHR '':'')" by simp
  with assms show False by (simp add: of_char_of)
qed

lemma js_lower_no_colon: "CHR '':'' \<notin> set c \<Longrightarrow> CHR '':'' \<notin> set (js_lower c)"
  using lower_char_not_colon by (force simp: js_lower_def)

lemma js_split_aux_no_sep:
  "c0 \<notin> set s \<Longrightarrow> js_split_aux [c0] cur s = [rev cur @ s]"
  by (induction s arbitrary: cur) auto

lemma js_split_aux_one_sep:
  assumes "c0 \<notin> set a" and "c0 \<notin> set b"
  shows "js_split_aux [c0] cur (a @ c0 # b) = [rev cur @ a, b]"
  using assms(1)
proof (induction a arbitrary: cur)
  case Nil
  then show ?case using assms(2) by (simp add: js_split_aux_no_sep)
next
  case (Cons x a)
  then have "x \<noteq> c0" by auto
  with Cons show ?case by simp
qed

lemma js_split_single_sep:
  "c0 \<notin> set a \<Longrightarrow> c0 \<notin> set b \<Longrightarrow> js_split [c0] (a @ c0 # b) = [a, b]"
  by (simp add: js_split_def js_split_aux_one_sep)

end
