(* ===== verification/JsNumber.thy ===== *)
theory JsNumber
  imports Prelude
begin

text \<open>
  JavaScript numbers (IEEE 754 binary64 doubles) as the rationals they denote.  A
  conversion to a double, such as \<open>Number(string)\<close> or the result of \<open>10 ** d\<close>, is
  the value rounded to a 53-bit significand, to nearest with ties to even:
  \<open>round_frac p q\<close> is the double nearest to \<open>p / q\<close>.  The exponent is unbounded.  No
  value that decimal scaling produces comes near the overflow bound \<open>2^1024\<close>: a
  uint256 balance is below \<open>2^256\<close>.  No non-zero value comes near the subnormal
  range either, since a balance is at least one unit and the scale factor is at most
  \<open>10^22\<close>.  The definitions compute on numerals:
  \<^item> \<open>bit_length\<close> is the length of a binary representation;
  \<^item> \<open>flog2_frac p q\<close> is \<open>\<lfloor>log2 (p / q)\<rfloor>\<close>;
  \<^item> \<open>round_half_even n d\<close> is \<open>n / d\<close> rounded to an integer, ties to even.
  The lemmas give the exponent's bounds, the rounding error (half a unit in the last
  place, a relative \<open>2^-53\<close>), exactness on \<open>k * 2^j\<close> with \<open>k < 2^53\<close>, and
  invariance under scaling \<open>p\<close> and \<open>q\<close> together.
\<close>

section \<open>Rounding to a double\<close>

fun bit_length :: "nat \<Rightarrow> nat" where
  "bit_length n = (if n = 0 then 0 else Suc (bit_length (n div 2)))"

declare bit_length.simps [simp del]

definition flog2_frac :: "nat \<Rightarrow> nat \<Rightarrow> int" where
  "flog2_frac p q =
     (let k = int (bit_length p) - int (bit_length q)
      in if q * 2 ^ nat k \<le> p * 2 ^ nat (- k) then k else k - 1)"

definition round_half_even :: "nat \<Rightarrow> nat \<Rightarrow> nat" where
  "round_half_even n d =
     (let f = n div d; r = n mod d
      in if 2 * r < d then f else if d < 2 * r then Suc f else if even f then f else Suc f)"

definition round_frac :: "nat \<Rightarrow> nat \<Rightarrow> rat" where
  "round_frac p q =
     (if p = 0 \<or> q = 0 then 0
      else let e = flog2_frac p q - 52
           in of_nat (round_half_even (p * 2 ^ nat (- e)) (q * 2 ^ nat e)) * 2 powi e)"

section \<open>Lemmas\<close>

lemma bit_length_0 [simp]: "bit_length 0 = 0"
  by (simp add: bit_length.simps)

lemma bit_length_1 [simp]: "bit_length 1 = 1" and bit_length_Suc0 [simp]: "bit_length (Suc 0) = 1"
  by (simp_all add: bit_length.simps)

lemma bit_length_numeral [simp]: "bit_length (numeral k) = Suc (bit_length (numeral k div 2))"
  by (simp add: bit_length.simps)

lemma bit_length_bounds: "0 < n \<Longrightarrow> 2 ^ (bit_length n - 1) \<le> n \<and> n < 2 ^ bit_length n"
proof (induction n rule: bit_length.induct)
  case (1 n)
  show ?case
  proof (cases "n div 2 = 0")
    case True
    with "1.prems" have "n = 1" by auto
    then show ?thesis by (simp add: bit_length.simps)
  next
    case False
    then have ih: "2 ^ (bit_length (n div 2) - 1) \<le> n div 2 \<and> n div 2 < 2 ^ bit_length (n div 2)"
      using "1.IH" "1.prems" by simp
    have b: "bit_length n = Suc (bit_length (n div 2))" using "1.prems" by (simp add: bit_length.simps)
    have pos: "0 < bit_length (n div 2)" using False by (simp add: bit_length.simps)
    show ?thesis using ih b pos by (cases "bit_length (n div 2)") auto
  qed
qed

lemma bit_length_le: "n < 2 ^ b \<Longrightarrow> bit_length n \<le> b"
proof (induction n arbitrary: b rule: bit_length.induct)
  case (1 n)
  show ?case
  proof (cases "n = 0")
    case False
    then obtain b' where b: "b = Suc b'" using "1.prems" by (cases b) auto
    then have "n div 2 < 2 ^ b'" using "1.prems" by auto
    then show ?thesis using "1.IH" False b by (simp add: bit_length.simps)
  qed simp
qed

lemma powi_split: "(2::rat) powi e = 2 ^ nat e / 2 ^ nat (- e)"
  by (cases "0 \<le> e") (simp_all add: power_int_def field_simps)

lemma powi_cmp:
  "(q * 2 ^ nat k \<le> p * 2 ^ nat (- k)) \<longleftrightarrow> (2::rat) powi k \<le> of_nat p / of_nat q" if "0 < q"
proof -
  have "(2::rat) powi k \<le> of_nat p / of_nat q \<longleftrightarrow> 2 ^ nat k / 2 ^ nat (- k) \<le> (of_nat p / of_nat q :: rat)"
    by (simp add: powi_split)
  also have "\<dots> \<longleftrightarrow> of_nat q * 2 ^ nat k \<le> (of_nat p * 2 ^ nat (- k) :: rat)"
    using that by (simp add: field_simps)
  also have "\<dots> \<longleftrightarrow> q * 2 ^ nat k \<le> p * 2 ^ nat (- k)"
    by (metis (mono_tags, lifting) of_nat_le_iff of_nat_mult of_nat_numeral of_nat_power)
  finally show ?thesis by simp
qed

lemma flog2_frac_bounds:
  assumes "0 < p" and "0 < q"
  shows "(2::rat) powi flog2_frac p q \<le> of_nat p / of_nat q \<and> of_nat p / of_nat q < (2::rat) powi (flog2_frac p q + 1)"
proof -
  let ?bp = "bit_length p" and ?bq = "bit_length q"
  let ?k = "int ?bp - int ?bq"
  have bp: "2 ^ (?bp - 1) \<le> p" "p < 2 ^ ?bp" and bq: "2 ^ (?bq - 1) \<le> q" "q < 2 ^ ?bq"
    using bit_length_bounds assms by blast+
  have bp1: "1 \<le> ?bp" and bq1: "1 \<le> ?bq" using assms by (simp_all add: bit_length.simps)
  have two: "\<And>a b. (2::rat) ^ a / 2 ^ b = 2 powi (int a - int b)"
    by (simp add: power_int_diff)
  have lo: "(2::rat) powi (?k - 1) < of_nat p / of_nat q"
  proof -
    have "(2::rat) powi (?k - 1) = 2 ^ (?bp - 1) / 2 ^ ?bq"
      using two [of "?bp - 1" ?bq] bp1 by (simp add: of_nat_diff algebra_simps)
    also have "\<dots> < of_nat p / of_nat q"
    proof -
      have "(2::rat) ^ (?bp - 1) \<le> of_nat p" using bp(1) by (metis of_nat_le_iff of_nat_numeral of_nat_power)
      moreover have "(of_nat q :: rat) < 2 ^ ?bq" using bq(2) by (metis of_nat_less_iff of_nat_numeral of_nat_power)
      ultimately show ?thesis using assms by (simp add: frac_less2)
    qed
    finally show ?thesis .
  qed
  have hi: "of_nat p / of_nat q < (2::rat) powi (?k + 1)"
  proof -
    have "(of_nat p :: rat) / of_nat q < 2 ^ ?bp / 2 ^ (?bq - 1)"
    proof -
      have "(of_nat p :: rat) < 2 ^ ?bp" using bp(2) by (metis of_nat_less_iff of_nat_numeral of_nat_power)
      moreover have "(2::rat) ^ (?bq - 1) \<le> of_nat q" using bq(1) by (metis of_nat_le_iff of_nat_numeral of_nat_power)
      ultimately show ?thesis using assms by (simp add: frac_less)
    qed
    also have "\<dots> = 2 powi (?k + 1)"
      using two [of ?bp "?bq - 1"] bq1 by (simp add: of_nat_diff algebra_simps)
    finally show ?thesis .
  qed
  show ?thesis
  proof (cases "q * 2 ^ nat ?k \<le> p * 2 ^ nat (- ?k)")
    case True
    then have "flog2_frac p q = ?k" by (simp add: flog2_frac_def Let_def)
    moreover have "(2::rat) powi ?k \<le> of_nat p / of_nat q" using True powi_cmp assms(2) by blast
    ultimately show ?thesis using hi by simp
  next
    case False
    then have "flog2_frac p q = ?k - 1" by (simp add: flog2_frac_def Let_def)
    moreover have "of_nat p / of_nat q < (2::rat) powi ?k" using False powi_cmp assms(2) by (meson not_le)
    ultimately show ?thesis using lo by simp
  qed
qed

lemma round_half_even_error:
  assumes "0 < d"
  shows "\<bar>(of_nat (round_half_even n d) :: rat) - of_nat n / of_nat d\<bar> \<le> 1 / 2"
proof -
  let ?f = "n div d" and ?r = "n mod d"
  have "n = ?f * d + ?r" by simp
  then have "(of_nat n :: rat) = of_nat ?f * of_nat d + of_nat ?r" by (metis of_nat_add of_nat_mult)
  then have n: "(of_nat n :: rat) / of_nat d = of_nat ?f + of_nat ?r / of_nat d"
    using assms by (simp add: add_divide_distrib)
  have d: "(0::rat) < of_nat d" using assms by simp
  have r: "(of_nat ?r :: rat) < of_nat d" using assms by simp
  have q: "\<And>x::rat. x / of_nat d = x * (1 / of_nat d)" by simp
  consider "2 * ?r < d" | "d < 2 * ?r" | "2 * ?r = d" by linarith
  then show ?thesis
  proof cases
    case 1
    then have "2 * (of_nat ?r :: rat) < of_nat d" by (metis of_nat_less_iff of_nat_mult of_nat_numeral)
    then have "(of_nat ?r :: rat) / of_nat d < 1 / 2" using d by (simp add: divide_less_eq)
    moreover have "(0::rat) \<le> of_nat ?r / of_nat d" using d by simp
    ultimately show ?thesis using 1 by (simp add: round_half_even_def Let_def n)
  next
    case 2
    then have "(of_nat d :: rat) < 2 * of_nat ?r" by (metis of_nat_less_iff of_nat_mult of_nat_numeral)
    then have "1 / 2 < (of_nat ?r :: rat) / of_nat d" using d by (simp add: less_divide_eq)
    moreover have "(of_nat ?r :: rat) / of_nat d < 1" using r d by simp
    ultimately show ?thesis using 2 by (simp add: round_half_even_def Let_def n)
  next
    case 3
    then have "(of_nat d :: rat) = 2 * of_nat ?r" by (metis of_nat_mult of_nat_numeral)
    then have "(of_nat ?r :: rat) / of_nat d = 1 / 2" using d by simp
    with 3 show ?thesis by (simp add: round_half_even_def Let_def n)
  qed
qed

lemma round_frac_parts:
  assumes "0 < p" and "0 < q"
  defines "e \<equiv> flog2_frac p q - 52"
  shows "round_frac p q = of_nat (round_half_even (p * 2 ^ nat (- e)) (q * 2 ^ nat e)) * 2 powi e"
    and "(of_nat p / of_nat q :: rat) = of_nat (p * 2 ^ nat (- e)) / of_nat (q * 2 ^ nat e) * 2 powi e"
proof -
  show "round_frac p q = of_nat (round_half_even (p * 2 ^ nat (- e)) (q * 2 ^ nat e)) * 2 powi e"
    using assms by (simp add: round_frac_def e_def Let_def)
  show "(of_nat p / of_nat q :: rat) = of_nat (p * 2 ^ nat (- e)) / of_nat (q * 2 ^ nat e) * 2 powi e"
    by (simp add: powi_split field_simps)
qed

lemma round_frac_error:
  assumes "0 < p" and "0 < q"
  shows "\<bar>round_frac p q - of_nat p / of_nat q\<bar> \<le> of_nat p / of_nat q / 2 ^ 53"
proof -
  define fl where "fl = flog2_frac p q"
  define e where "e = fl - 52"
  define N where "N = p * 2 ^ nat (- e)"
  define D where "D = q * 2 ^ nat e"
  have D: "0 < D" using assms by (simp add: D_def)
  have r: "round_frac p q = of_nat (round_half_even N D) * 2 powi e"
    and x: "(of_nat p / of_nat q :: rat) = of_nat N / of_nat D * 2 powi e"
    using round_frac_parts [OF assms] by (simp_all add: N_def D_def e_def fl_def)
  have pos: "(0::rat) < 2 powi e" by simp
  have "round_frac p q - of_nat p / of_nat q = (of_nat (round_half_even N D) - of_nat N / of_nat D) * 2 powi e"
    by (simp add: r x left_diff_distrib)
  then have "\<bar>round_frac p q - of_nat p / of_nat q\<bar> = \<bar>of_nat (round_half_even N D) - of_nat N / of_nat D\<bar> * 2 powi e"
    using pos by (simp add: abs_mult)
  also have "\<dots> \<le> 1 / 2 * 2 powi e"
    using mult_right_mono [OF round_half_even_error [OF D, where n = N] less_imp_le [OF pos]] .
  also have "\<dots> = 2 powi fl / 2 ^ 53"
    by (simp add: e_def power_int_diff)
  also have "\<dots> \<le> of_nat p / of_nat q / 2 ^ 53"
    using flog2_frac_bounds [OF assms] by (simp add: fl_def divide_right_mono)
  finally show ?thesis .
qed

lemma round_frac_exact:
  assumes "0 < p" and "0 < q"
    and "q * 2 ^ nat (flog2_frac p q - 52) dvd p * 2 ^ nat (- (flog2_frac p q - 52))"
  shows "round_frac p q = of_nat p / of_nat q"
proof -
  define e where "e = flog2_frac p q - 52"
  define N where "N = p * 2 ^ nat (- e)"
  define D where "D = q * 2 ^ nat e"
  have dvd: "D dvd N" using assms(3) by (simp add: N_def D_def e_def)
  have D: "0 < D" using assms by (simp add: D_def)
  have "round_half_even N D = N div D"
    using dvd D by (simp add: round_half_even_def Let_def)
  moreover have "(of_nat (N div D) :: rat) = of_nat N / of_nat D"
    using dvd D by (auto elim!: dvdE)
  ultimately show ?thesis
    using round_frac_parts [OF assms(1,2)] by (simp add: N_def D_def e_def)
qed

lemma flog2_frac_int:
  assumes "0 < p"
  shows "flog2_frac p 1 = int (bit_length p) - 1"
proof -
  have b: "0 < bit_length p" using assms by (simp add: bit_length.simps)
  then have "nat (int (bit_length p) - 1) = bit_length p - 1" and "nat (1 - int (bit_length p)) = 0"
    by simp_all
  then show ?thesis
    using bit_length_bounds [OF assms] by (simp add: flog2_frac_def Let_def)
qed

lemma round_frac_int:
  assumes "p = k * 2 ^ j" and "k < 2 ^ 53"
  shows "round_frac p 1 = of_nat p"
proof (cases "p = 0")
  case True
  then show ?thesis by (simp add: round_frac_def)
next
  case False
  then have p: "0 < p" by simp
  have "p < 2 ^ (53 + j)" using assms False by (simp add: power_add)
  then have b: "bit_length p \<le> 53 + j" by (rule bit_length_le)
  have "2 ^ nat (flog2_frac p 1 - 52) dvd p * 2 ^ nat (- (flog2_frac p 1 - 52))"
  proof (cases "flog2_frac p 1 - 52 \<le> 0")
    case True then show ?thesis by simp
  next
    case False
    then have "nat (flog2_frac p 1 - 52) \<le> j" using b flog2_frac_int [OF p] by simp
    then have "2 ^ nat (flog2_frac p 1 - 52) dvd p" using assms(1) by (simp add: le_imp_power_dvd)
    then show ?thesis by simp
  qed
  then show ?thesis using round_frac_exact [OF p, of 1] by simp
qed

lemma powi_exponent_unique:
  assumes "(2::rat) powi a \<le> x" "x < 2 powi (a + 1)" "2 powi b \<le> x" "x < 2 powi (b + 1)"
  shows "a = b"
proof (rule ccontr)
  assume "a \<noteq> b"
  then consider "a + 1 \<le> b" | "b + 1 \<le> a" by linarith
  then show False
  proof cases
    case 1
    then have "(2::rat) powi (a + 1) \<le> 2 powi b" by (rule power_int_increasing) simp
    then show False using assms(2,3) by simp
  next
    case 2
    then have "(2::rat) powi (b + 1) \<le> 2 powi a" by (rule power_int_increasing) simp
    then show False using assms(1,4) by simp
  qed
qed

lemma flog2_frac_mult:
  assumes "0 < p" "0 < q" "0 < k"
  shows "flog2_frac (p * k) (q * k) = flog2_frac p q"
proof -
  have "(of_nat (p * k) / of_nat (q * k) :: rat) = of_nat p / of_nat q"
    using assms(3) by simp
  then show ?thesis
    using flog2_frac_bounds [of "p * k" "q * k"] flog2_frac_bounds [OF assms(1,2)] assms
    by (metis powi_exponent_unique nat_0_less_mult_iff)
qed

lemma round_half_even_mult: "0 < k \<Longrightarrow> round_half_even (n * k) (d * k) = round_half_even n d"
  by (simp add: round_half_even_def Let_def mod_mult_mult2)

lemma round_frac_mult:
  assumes "0 < k"
  shows "round_frac (p * k) (q * k) = round_frac p q"
proof (cases "p = 0 \<or> q = 0")
  case True
  then show ?thesis by (auto simp: round_frac_def)
next
  case False
  then have p: "0 < p" and q: "0 < q" by simp_all
  define e where "e = flog2_frac p q - 52"
  have "round_half_even (p * k * 2 ^ nat (- e)) (q * k * 2 ^ nat e) =
          round_half_even (p * 2 ^ nat (- e)) (q * 2 ^ nat e)"
    using round_half_even_mult [OF assms, of "p * 2 ^ nat (- e)" "q * 2 ^ nat e"] by (simp add: ac_simps)
  then show ?thesis
    using p q assms flog2_frac_mult [OF p q assms] by (simp add: round_frac_def Let_def e_def)
qed

lemma round_frac_pow10: "d \<le> 22 \<Longrightarrow> round_frac (10 ^ d) 1 = 10 ^ d"
proof -
  assume d: "d \<le> 22"
  have "(5::nat) ^ d \<le> 5 ^ 22" using d by (rule power_increasing) simp
  then have "(5::nat) ^ d < 2 ^ 53" by simp
  moreover have "(10::nat) ^ d = 5 ^ d * 2 ^ d" and "(10::rat) ^ d = 5 ^ d * 2 ^ d"
    by (simp_all add: power_mult_distrib [symmetric])
  ultimately show ?thesis using round_frac_int [of "10 ^ d" "5 ^ d" d] by simp
qed

text \<open>Ties go to the even significand: \<open>2^53 + 1\<close> lies halfway between two doubles.\<close>

lemma round_frac_tie_even: "round_frac (2 ^ 53 + 1) 1 = 2 ^ 53"
  by (simp add: round_frac_def flog2_frac_def round_half_even_def)
end
