(* ===== verification/Url.thy ===== *)
theory Url
  imports Prelude JsStrings
begin

text \<open>
  The part of the WHATWG \<open>URL\<close> parser the code relies on.  The \<open>new URL\<close> call in
  \<open>checkIfDomainInAllowlist\<close> (src/routes/easy-trigger/index.ts) is modelled here, and
  so is the reading of the webhook callback URL built from \<open>BASE_URL\<close>
  (src/plugins/alchemy/index.ts).  The parser is a library and is modelled from its
  standard: scheme, authority, user info, host, port and path.  The host of a special
  URL goes through the standard's host parser: it is lower-cased, refused when it holds a
  forbidden domain code point, and read as an IPv4 address when its last label is a
  number.  Not modelled: IPv6 literals, internationalised names (domain to ASCII is
  ASCII lower-casing), percent-decoding, dot segments, and the removal of tabs, newlines
  and surrounding spaces from the input.
\<close>

section \<open>The host parser\<close>

text \<open>Forbidden domain code points: C0 controls, space, \<open>#%/:<>?@[\]^|\<close> and DEL.\<close>

definition forbidden_domain_cp :: "char \<Rightarrow> bool" where
  "forbidden_domain_cp c \<longleftrightarrow>
     (of_char c :: nat) \<le> 32 \<or> (of_char c :: nat) = 127 \<or> c = CHR 0x5C \<or> c \<in> set ''#%/:<>?@[]^|''"

text \<open>The IPv4 number parser: \<open>0x\<close>/\<open>0X\<close> selects radix 16, a leading \<open>0\<close> radix 8; an
  empty rest is 0.\<close>

definition radix_digit_val :: "nat \<Rightarrow> char \<Rightarrow> nat option" where
  "radix_digit_val R c = (case hex_digit_val c of Some d \<Rightarrow> if d < R then Some d else None | None \<Rightarrow> None)"

fun radix_value :: "nat \<Rightarrow> nat \<Rightarrow> string \<Rightarrow> nat option" where
  "radix_value R acc [] = Some acc"
| "radix_value R acc (c # cs) =
     (case radix_digit_val R c of None \<Rightarrow> None | Some d \<Rightarrow> radix_value R (R * acc + d) cs)"

definition ipv4_number :: "string \<Rightarrow> nat option" where
  "ipv4_number s =
     (if s = [] then None
      else let (R, t) = (if 2 \<le> length s \<and> (take 2 s = ''0x'' \<or> take 2 s = ''0X'') then (16, drop 2 s)
                         else if 2 \<le> length s \<and> hd s = CHR ''0'' then (8, tl s) else (10, s))
           in if t = [] then Some 0 else radix_value R 0 t)"

text \<open>The labels of a host, with one trailing empty label dropped.\<close>

definition host_labels :: "string \<Rightarrow> string list" where
  "host_labels s =
     (let parts = js_split ''.'' s in if last parts = [] \<and> 1 < length parts then butlast parts else parts)"

text \<open>The ends-in-a-number checker.\<close>

definition ends_in_number :: "string \<Rightarrow> bool" where
  "ends_in_number s \<longleftrightarrow>
     s \<noteq> [] \<and> (let l = last (host_labels s) in (l \<noteq> [] \<and> list_all is_digit l) \<or> ipv4_number l \<noteq> None)"

text \<open>The IPv4 parser: at most four parts, each an IPv4 number; all but the last below
  256, the last below \<open>256^(5 - n)\<close>.\<close>

definition ipv4_parse :: "string \<Rightarrow> nat option" where
  "ipv4_parse s =
     (let parts = host_labels s
      in if 4 < length parts then None
         else case those (map ipv4_number parts) of
                None \<Rightarrow> None
              | Some numbers \<Rightarrow>
                  if list_ex (\<lambda>n. 255 < n) (butlast numbers) then None
                  else if 256 ^ (5 - length numbers) \<le> last numbers then None
                  else Some (last numbers +
                    sum_list (map (\<lambda>(n, i). n * 256 ^ (3 - i)) (zip (butlast numbers) [0..<length numbers]))))"

text \<open>The IPv4 serializer: four dot-separated decimal octets.\<close>

definition ipv4_serialize :: "nat \<Rightarrow> string" where
  "ipv4_serialize n =
     dec_string (n div 256 ^ 3 mod 256) @ ''.'' @ dec_string (n div 256 ^ 2 mod 256) @ ''.'' @
     dec_string (n div 256 mod 256) @ ''.'' @ dec_string (n mod 256)"

text \<open>The host parser of a special URL, as the host string it serializes to.\<close>

definition host_parse :: "string \<Rightarrow> string option" where
  "host_parse input =
     (let asciiDomain = js_lower input
      in if list_ex forbidden_domain_cp asciiDomain then None
         else if ends_in_number asciiDomain then map_option ipv4_serialize (ipv4_parse asciiDomain)
         else Some asciiDomain)"

section \<open>The parser\<close>

definition special_scheme :: "string \<Rightarrow> bool" where
  "special_scheme s \<longleftrightarrow> s \<in> set [''http'', ''https'', ''ftp'', ''ws'', ''wss'', ''file'']"

definition default_port :: "string \<Rightarrow> nat option" where
  "default_port s =
     (if s = ''http'' \<or> s = ''ws'' then Some 80 else if s = ''https'' \<or> s = ''wss'' then Some 443
      else if s = ''ftp'' then Some 21 else None)"

text \<open>\<open>new URL(s)\<close>, read back as \<open>(hostname, port)\<close>: the scheme up to the first
  \<open>:\<close>, then \<open>//\<close> (any run of \<open>/\<close> and \<open>\\<close> for special schemes) and the authority up to \<open>/\<close>, \<open>?\<close> or \<open>#\<close> (and \<open>\\<close> for
  special schemes); user info up to the last \<open>@\<close> is dropped; the port is the part
  after the first \<open>:\<close>, all digits, at most 65535, printed without leading zeros and
  empty when it is the scheme's default; special schemes refuse an empty host and
  parse it with \<open>host_parse\<close>.\<close>

definition url_host_port :: "string \<Rightarrow> (string \<times> string) result" where
  "url_host_port s =
     (let scheme = takeWhile (\<lambda>c. c \<noteq> CHR '':'') s;
          special = special_scheme scheme;
          rest = drop (Suc (length scheme)) s
      in if length scheme = length s \<or> (\<not> special \<and> take 2 rest \<noteq> ''//'') then Inl (InvalidUrl s)
         else
           let after = (if special then dropWhile (\<lambda>c. c = CHR ''/'' \<or> c = CHR 0x5C) rest else drop 2 rest);
               authority = takeWhile (\<lambda>c. c \<notin> set ''/?#'' \<and> \<not> (special \<and> c = CHR 0x5C)) after;
               hostport = rev (takeWhile (\<lambda>c. c \<noteq> CHR ''@'') (rev authority));
               host = takeWhile (\<lambda>c. c \<noteq> CHR '':'') hostport;
               port = drop (Suc (length host)) hostport
           in if special \<and> host = [] then Inl (InvalidUrl s)
              else if \<not> list_all is_digit port \<or> (port \<noteq> [] \<and> dec_value port > 65535) then Inl (InvalidUrl s)
              else case (if special then host_parse host else Some host) of
                None \<Rightarrow> Inl (InvalidUrl s)
              | Some hostname \<Rightarrow>
                  Inr (hostname, if port = [] \<or> default_port scheme = Some (dec_value port) then []
                                 else dec_string (dec_value port)))"

text \<open>The \<open>pathname\<close> of a URL the parser accepts: what follows the authority up to
  \<open>?\<close> or \<open>#\<close>.  Special schemes turn \<open>\\\<close> into \<open>/\<close> and read an empty path as \<open>/\<close>.\<close>

definition url_path :: "string \<Rightarrow> string" where
  "url_path s =
     (let scheme = takeWhile (\<lambda>c. c \<noteq> CHR '':'') s;
          special = special_scheme scheme;
          rest = drop (Suc (length scheme)) s;
          after = (if special then dropWhile (\<lambda>c. c = CHR ''/'' \<or> c = CHR 0x5C) rest else drop 2 rest);
          authority = takeWhile (\<lambda>c. c \<notin> set ''/?#'' \<and> \<not> (special \<and> c = CHR 0x5C)) after;
          path = takeWhile (\<lambda>c. c \<notin> set ''?#'') (drop (length authority) after)
      in if \<not> special then path
         else if path = [] then ''/''
         else map (\<lambda>c. if c = CHR 0x5C then CHR ''/'' else c) path)"

text \<open>The characters of a bare lower-case host name.\<close>

definition host_chars :: "char list" where
  "host_chars = ''abcdefghijklmnopqrstuvwxyz0123456789.-''"

section \<open>Host names\<close>

text \<open>A host made of lower-case letters, digits, dots and hyphens goes through the host
  parser unchanged unless its last label is a number.\<close>

lemma host_chars_lower: "c \<in> set host_chars \<Longrightarrow> js_lower [c] = [c]"
  by (auto simp: host_chars_def js_lower_def)

lemma js_lower_host: "set h \<subseteq> set host_chars \<Longrightarrow> js_lower h = h"
proof (induction h)
  case (Cons c h)
  then have "js_lower [c] = [c]" using host_chars_lower by auto
  with Cons show ?case by (simp add: js_lower_def)
qed (simp add: js_lower_def)

lemma host_chars_special: "CHR '':'' \<notin> set host_chars" "CHR ''/'' \<notin> set host_chars"
  "CHR ''?'' \<notin> set host_chars" "CHR ''#'' \<notin> set host_chars" "CHR ''@'' \<notin> set host_chars"
  "CHR 0x5C \<notin> set host_chars"
  by (simp_all add: host_chars_def)

lemma host_chars_allowed: "c \<in> set host_chars \<Longrightarrow> \<not> forbidden_domain_cp c"
  by (auto simp: host_chars_def forbidden_domain_cp_def)

lemma host_parse_host_chars:
  assumes "set h \<subseteq> set host_chars"
  shows "host_parse h = (if ends_in_number h then map_option ipv4_serialize (ipv4_parse h) else Some h)"
proof -
  have "\<not> list_ex forbidden_domain_cp h"
    using assms host_chars_allowed by (auto simp: list_ex_iff)
  then show ?thesis using js_lower_host [OF assms] by (simp add: host_parse_def)
qed

lemma host_parse_domain: "set h \<subseteq> set host_chars \<Longrightarrow> \<not> ends_in_number h \<Longrightarrow> host_parse h = Some h"
  by (simp add: host_parse_host_chars)

lemmas host_parse_eval = host_parse_def js_lower_def forbidden_domain_cp_def ends_in_number_def
  host_labels_def js_split_def ipv4_parse_def ipv4_number_def is_digit_def ipv4_serialize_def
  radix_digit_val_def hex_digit_val_def dec_string_numeral digit_chr_def char_of_def bit_simps

text \<open>Hosts that end in a number: \<open>1\<close> is the address \<open>0.0.0.1\<close>, \<open>0x7f.1\<close> is
  \<open>127.0.0.1\<close>, and \<open>a.1\<close> and \<open>256.1.1.1\<close> are refused.\<close>

lemma host_parse_numbers:
  "host_parse ''1'' = Some ''0.0.0.1''" "host_parse ''0x7f.1'' = Some ''127.0.0.1''"
  "host_parse ''a.1'' = None" "host_parse ''256.1.1.1'' = None"
  by (simp_all add: host_parse_eval)

lemma takeWhile_all: "\<forall>c \<in> set h. P c \<Longrightarrow> takeWhile P h = h"
  by (induction h) auto

lemma url_host_port_http:
  assumes "h \<noteq> []" and "set h \<subseteq> set host_chars"
    and "r = [] \<or> hd r \<in> set ''/?#''" and "pre = ''http://'' \<or> pre = ''https://''"
  shows "url_host_port (pre @ h @ r) =
           (case host_parse h of None \<Rightarrow> Inl (InvalidUrl (pre @ h @ r)) | Some h' \<Rightarrow> Inr (h', []))"
proof -
  have nc: "\<forall>c \<in> set h. c \<noteq> CHR '':'' \<and> c \<notin> set ''/?#'' \<and> c \<noteq> CHR 0x5C \<and> c \<noteq> CHR ''@''"
    using assms(2) host_chars_special by auto
  have hd: "hd h \<noteq> CHR ''/'' \<and> hd h \<noteq> CHR 0x5C"
    using nc assms(1) by (cases h) auto
  have tw: "takeWhile (\<lambda>c. c \<noteq> CHR ''/'' \<and> c \<noteq> CHR ''?'' \<and> c \<noteq> CHR ''#'' \<and> c \<noteq> CHR 0x5C) (h @ r) = h"
    using nc assms(3) by (cases r) (auto simp: takeWhile_append2 takeWhile_all)
  have at: "rev (takeWhile (\<lambda>c. c \<noteq> CHR ''@'') (rev h)) = h"
    using nc by (simp add: takeWhile_all)
  have co: "takeWhile (\<lambda>c. c \<noteq> CHR '':'') h = h"
    using nc by (simp add: takeWhile_all)
  have dw: "dropWhile (\<lambda>c. c = CHR ''/'' \<or> c = CHR 0x5C) (h @ r) = h @ r"
    using hd assms(1) by (cases h) auto
  from assms(4) show ?thesis
  proof
    assume p: "pre = ''http://''"
    have sch: "takeWhile (\<lambda>c. c \<noteq> CHR '':'') (pre @ h @ r) = ''http''" by (simp add: p)
    have rest: "drop (Suc (length ''http'')) (pre @ h @ r) = ''//'' @ h @ r" by (simp add: p)
    show ?thesis
      unfolding url_host_port_def Let_def sch rest
      by (simp add: special_scheme_def p dw tw at co assms(1))
  next
    assume p: "pre = ''https://''"
    have sch: "takeWhile (\<lambda>c. c \<noteq> CHR '':'') (pre @ h @ r) = ''https''" by (simp add: p)
    have rest: "drop (Suc (length ''https'')) (pre @ h @ r) = ''//'' @ h @ r" by (simp add: p)
    show ?thesis
      unfolding url_host_port_def Let_def sch rest
      by (simp add: special_scheme_def p dw tw at co assms(1))
  qed
qed

lemma url_path_http:
  assumes "h \<noteq> []" and "set h \<subseteq> set host_chars"
    and "r = [] \<or> hd r = CHR ''/''" and "\<forall>c \<in> set r. c \<notin> set ''?#'' \<and> c \<noteq> CHR 0x5C"
    and "pre = ''http://'' \<or> pre = ''https://''"
  shows "url_path (pre @ h @ r) = (if r = [] then ''/'' else r)"
proof -
  have nc: "\<forall>c \<in> set h. c \<noteq> CHR '':'' \<and> c \<notin> set ''/?#'' \<and> c \<noteq> CHR 0x5C"
    using assms(2) host_chars_special by auto
  have dw: "dropWhile (\<lambda>c. c = CHR ''/'' \<or> c = CHR 0x5C) (h @ r) = h @ r"
    using nc assms(1) by (cases h) auto
  have tw: "takeWhile (\<lambda>c. c \<noteq> CHR ''/'' \<and> c \<noteq> CHR ''?'' \<and> c \<noteq> CHR ''#'' \<and> c \<noteq> CHR 0x5C) (h @ r) = h"
    using nc assms(3) by (cases r) (auto simp: takeWhile_append2 takeWhile_all)
  have tr: "takeWhile (\<lambda>c. c \<noteq> CHR ''?'' \<and> c \<noteq> CHR ''#'') r = r"
    using assms(4) by (simp add: takeWhile_all)
  have mr: "map (\<lambda>c. if c = CHR 0x5C then CHR ''/'' else c) r = r"
    using assms(4) by (induction r) auto
  from assms(5) show ?thesis
  proof
    assume p: "pre = ''http://''"
    have sch: "takeWhile (\<lambda>c. c \<noteq> CHR '':'') (pre @ h @ r) = ''http''" by (simp add: p)
    have rest: "drop (Suc (length ''http'')) (pre @ h @ r) = ''//'' @ h @ r" by (simp add: p)
    show ?thesis
      unfolding url_path_def Let_def sch rest
      by (simp add: special_scheme_def dw tw tr mr)
  next
    assume p: "pre = ''https://''"
    have sch: "takeWhile (\<lambda>c. c \<noteq> CHR '':'') (pre @ h @ r) = ''https''" by (simp add: p)
    have rest: "drop (Suc (length ''https'')) (pre @ h @ r) = ''//'' @ h @ r" by (simp add: p)
    show ?thesis
      unfolding url_path_def Let_def sch rest
      by (simp add: special_scheme_def dw tw tr mr)
  qed
qed

end
