(* ===== verification/Web3.thy ===== *)
theory Web3
  imports Prelude
begin

text \<open>
  The on-chain trigger executor (src/plugins/web3-interactions/index.ts).
  \<open>executeTrigger\<close> checks its two arguments and picks the RPC endpoint of the network.
  It signs with the operator wallet and sends \<open>executeTriggerOf(target)\<close> to the
  TriggerManager contract, with a gas limit of 200000.  The ethers objects are records
  of the values the code gives them (\<open>JsonRpcProvider\<close>, \<open>Wallet\<close>, \<open>Contract\<close>).  The
  sending itself, \<open>executeTriggerOf.send\<close>, is a parameter \<open>send\<close> from the built
  transaction to the hash of its response (\<open>None\<close> when the promise rejects).  Process
  environment variables are read through a map \<open>penv\<close> from names to values.
\<close>

section \<open>Configuration\<close>

text \<open>Line 5.\<close>

definition trigger_manager_addr :: string where
  "trigger_manager_addr = ''0x819e48c248984Cd307603b13Fd20BE6f73339909''"

text \<open>Lines 6-10: each variable, or the empty string when it is unset or empty.\<close>

record web3_config =
  w3_rpcGeorli :: string
  w3_rpcSepolia :: string
  w3_rpcUrl :: string
  w3_operatorKey :: string

definition web3_config_of :: "(string \<Rightarrow> string option) \<Rightarrow> web3_config" where
  "web3_config_of penv =
     \<lparr>w3_rpcGeorli = js_or (penv ''RPC_GEORLI_URL'') [],
      w3_rpcSepolia = js_or (penv ''RPC_SEPOLIA_URL'') [],
      w3_rpcUrl = js_or (penv ''RPC_URL'') [],
      w3_operatorKey = js_or (penv ''GOERLI_TRIGGER_OPERATOR_KEY'') []\<rparr>"

section \<open>The ethers objects\<close>

text \<open>\<open>new Wallet(rawPrivKey, new JsonRpcProvider(rpc))\<close> (lines 65-67).\<close>

record wallet =
  wl_privateKey :: string
  wl_rpc :: string

text \<open>\<open>getTriggerManager\<close> (lines 12-18): the contract at \<open>TRIGGER_MANAGER_ADDR\<close> with a
  one-function ABI, connected to the signer.\<close>

record contract =
  cn_target :: string
  cn_abi :: "string list"
  cn_runner :: wallet

definition get_trigger_manager :: "wallet \<Rightarrow> contract" where
  "get_trigger_manager signer =
     \<lparr>cn_target = trigger_manager_addr,
      cn_abi = [''function executeTriggerOf(address target) external returns ()''],
      cn_runner = signer\<rparr>"

text \<open>Line 20.\<close>

definition trigger_max_gas :: int where
  "trigger_max_gas = 200000"

text \<open>The transaction \<open>contract.executeTriggerOf.send(target, overrides)\<close> builds.\<close>

record tx_call =
  tx_contract :: contract
  tx_method :: string
  tx_args :: "string list"
  tx_gasLimit :: int

text \<open>\<open>createExecuteTrigger\<close> (lines 22-38).  The overrides are
  \<open>{gasLimit: TRIGGER_MAX_GAS, ...options}\<close>: a \<open>gasLimit\<close> in \<open>options\<close> wins.  Only
  that key of \<open>options\<close> is modelled; the code always passes \<open>{}\<close>.\<close>

definition create_execute_trigger ::
  "(tx_call \<Rightarrow> string option) \<Rightarrow> contract \<Rightarrow> string \<Rightarrow> int option \<Rightarrow> string result" where
  "create_execute_trigger send triggerManager target options =
     from_provider (send \<lparr>tx_contract = triggerManager, tx_method = ''executeTriggerOf'',
                          tx_args = [target],
                          tx_gasLimit = (case options of None \<Rightarrow> trigger_max_gas | Some g \<Rightarrow> g)\<rparr>)"

section \<open>executeTrigger\<close>

text \<open>Lines 56-63.\<close>

definition rpc_for :: "web3_config \<Rightarrow> string \<Rightarrow> string" where
  "rpc_for cfg network =
     (if network = ''Goerli'' then w3_rpcGeorli cfg
      else if network = ''Sepolia'' then w3_rpcSepolia cfg
      else w3_rpcUrl cfg)"

text \<open>The transaction \<open>executeTrigger\<close> sends for a target on a network (lines 65-74).\<close>

definition trigger_tx :: "web3_config \<Rightarrow> string \<Rightarrow> string \<Rightarrow> tx_call" where
  "trigger_tx cfg contractAddress network =
     \<lparr>tx_contract = get_trigger_manager \<lparr>wl_privateKey = w3_operatorKey cfg, wl_rpc = rpc_for cfg network\<rparr>,
      tx_method = ''executeTriggerOf'', tx_args = [contractAddress], tx_gasLimit = trigger_max_gas\<rparr>"

text \<open>Lines 40-75.\<close>

definition execute_trigger ::
  "web3_config \<Rightarrow> (tx_call \<Rightarrow> string option) \<Rightarrow> string \<Rightarrow> string \<Rightarrow> string result" where
  "execute_trigger cfg send contractAddress network =
     (if contractAddress = [] then Inl (TriggerRejected ''No contract address provided'')
      else if network = [] \<or> network \<notin> set [''Goerli'', ''Mainnet'', ''Sepolia''] then
        Inl (TriggerRejected ''No network provided, or wrong network provided. Possible opions: Goerli, Mainnet'')
      else
        let rpc = rpc_for cfg network;
            signer = \<lparr>wl_privateKey = w3_operatorKey cfg, wl_rpc = rpc\<rparr>;
            triggerManager = get_trigger_manager signer
        in create_execute_trigger send triggerManager contractAddress None)"

section \<open>Example data\<close>

abbreviation ex_web3 :: web3_config where
  "ex_web3 \<equiv> \<lparr>w3_rpcGeorli = ''https://goerli.rpc'', w3_rpcSepolia = ''https://sepolia.rpc'',
     w3_rpcUrl = ''https://mainnet.rpc'', w3_operatorKey = ''0xkey''\<rparr>"

section \<open>Lemmas\<close>

lemma execute_trigger_eq:
  "execute_trigger cfg send contractAddress network =
     (if contractAddress = [] then Inl (TriggerRejected ''No contract address provided'')
      else if network = [] \<or> network \<notin> set [''Goerli'', ''Mainnet'', ''Sepolia''] then
        Inl (TriggerRejected ''No network provided, or wrong network provided. Possible opions: Goerli, Mainnet'')
      else from_provider (send (trigger_tx cfg contractAddress network)))"
  by (simp add: execute_trigger_def create_execute_trigger_def trigger_tx_def Let_def)

lemma execute_trigger_sends:
  assumes "contractAddress \<noteq> []" and "network \<in> set [''Goerli'', ''Mainnet'', ''Sepolia'']"
  shows "execute_trigger cfg send contractAddress network =
           from_provider (send (trigger_tx cfg contractAddress network))"
  using assms
  by (auto simp: execute_trigger_def create_execute_trigger_def trigger_tx_def Let_def)

lemma execute_trigger_Inr:
  "execute_trigger cfg send contractAddress network = Inr h \<longleftrightarrow>
     contractAddress \<noteq> [] \<and> network \<in> set [''Goerli'', ''Mainnet'', ''Sepolia''] \<and>
     send (trigger_tx cfg contractAddress network) = Some h"
  by (auto simp: execute_trigger_def create_execute_trigger_def trigger_tx_def from_provider_def Let_def
      split: option.splits)

lemma trigger_tx_fields [simp]:
  "cn_target (tx_contract (trigger_tx cfg c n)) = trigger_manager_addr"
  "tx_method (trigger_tx cfg c n) = ''executeTriggerOf''"
  "tx_gasLimit (trigger_tx cfg c n) = trigger_max_gas"
  "tx_args (trigger_tx cfg c n) = [c]"
  by (simp_all add: trigger_tx_def get_trigger_manager_def)

section \<open>Properties\<close>

text \<open>
  C20.  The transaction \<open>executeTrigger\<close> sends: for a non-empty target on a supported
  network, exactly one \<open>executeTriggerOf(target)\<close> to the TriggerManager at
  \<open>0x819e\<dots>9909\<close> with gas limit 200000.  It is signed with the key in
  \<open>GOERLI_TRIGGER_OPERATOR_KEY\<close> on every network, and sent over \<open>RPC_GEORLI_URL\<close>,
  \<open>RPC_SEPOLIA_URL\<close> or \<open>RPC_URL\<close> for Goerli, Sepolia and Mainnet.  The result is the
  hash of the response, or \<open>ProviderUnavailable\<close> when the sending rejects.
\<close>

theorem execute_trigger_transaction:
  assumes "c \<noteq> []" and "network \<in> set [''Goerli'', ''Mainnet'', ''Sepolia'']"
  shows "\<exists>tx. execute_trigger (web3_config_of penv) send c network = from_provider (send tx) \<and>
     cn_target (tx_contract tx) = ''0x819e48c248984Cd307603b13Fd20BE6f73339909'' \<and>
     tx_method tx = ''executeTriggerOf'' \<and> tx_args tx = [c] \<and> tx_gasLimit tx = 200000 \<and>
     wl_privateKey (cn_runner (tx_contract tx)) = js_or (penv ''GOERLI_TRIGGER_OPERATOR_KEY'') [] \<and>
     wl_rpc (cn_runner (tx_contract tx)) =
       js_or (penv (if network = ''Goerli'' then ''RPC_GEORLI_URL''
                    else if network = ''Sepolia'' then ''RPC_SEPOLIA_URL'' else ''RPC_URL'')) []"
  using execute_trigger_sends [OF assms, of "web3_config_of penv" send]
  by (auto simp: trigger_tx_def get_trigger_manager_def trigger_manager_addr_def trigger_max_gas_def
      rpc_for_def web3_config_of_def)

theorem execute_trigger_transaction_witness:
  "\<exists>tx :: tx_call. execute_trigger (web3_config_of (map_of [(''RPC_SEPOLIA_URL'', ''https://sepolia.rpc'')])) (\<lambda>_. Some ''0xtx'')
          ''0xc'' ''Sepolia'' = from_provider (Some ''0xtx'') \<and>
     cn_target (tx_contract tx) = ''0x819e48c248984Cd307603b13Fd20BE6f73339909'' \<and>
     tx_method tx = ''executeTriggerOf'' \<and> tx_args tx = [''0xc''] \<and> tx_gasLimit tx = 200000 \<and>
     wl_privateKey (cn_runner (tx_contract tx)) = [] \<and> wl_rpc (cn_runner (tx_contract tx)) = ''https://sepolia.rpc''"
  using execute_trigger_transaction [of "''0xc''" "''Sepolia''" "map_of [(''RPC_SEPOLIA_URL'', ''https://sepolia.rpc'')]" "\<lambda>_. Some ''0xtx''"]
  by simp

end
