(* ===== verification/Provider.thy ===== *)
theory Provider
  imports Prelude JsStrings
begin

text \<open>
  The data the core exchanges with the blockchain data provider (the Alchemy SDK), and
  the provider itself as an interface: a record of the query functions the code calls,
  each returning \<open>None\<close> where the call rejects.  Every component theory is stated
  over an arbitrary \<open>provider\<close>, so its lemmas hold for any provider behaviour; the
  witnesses instantiate it with concrete tables.
  \<open>clean_transfer\<close> is the TypeScript type \<open>CleanTransfers\<close>
  (src/plugins/eth-data/transfer-events.ts, lines 61-78).  Field names carry a prefix
  because \<open>from\<close> is an Isabelle keyword.  The pass-through NFT fields
  (\<open>erc721TokenId\<close>, \<open>erc1155Metadata\<close>, \<open>tokenId\<close>, \<open>rawContract\<close>) are not
  read by the core and are left out.
\<close>

text \<open>\<open>AssetTransfersCategory\<close> of the SDK.\<close>

datatype asset_category = EXTERNAL | INTERNAL | ERC20 | ERC721 | ERC1155 | SPECIALNFT

text \<open>\<open>AssetTransfersResult\<close>, the fields the core reads.  \<open>rt_value\<close> is non-null for the
  three fungible categories the core requests; \<open>rt_contract_address\<close> is
  \<open>rawContract.address\<close>, \<open>null\<close> for ETH.\<close>

record raw_transfer =
  rt_from :: string
  rt_to :: string
  rt_value :: rat
  rt_asset :: "string option"
  rt_category :: asset_category
  rt_blockNum :: string
  rt_uniqueId :: string
  rt_hash :: string
  rt_contract_address :: "string option"

record clean_transfer =
  ct_from :: string
  ct_to :: string
  ct_value :: rat
  ct_asset :: "string option"
  ct_category :: asset_category
  ct_timestamp :: int
  ct_tokenAddress :: "string option"
  ct_tvl :: "jsnum option"
  ct_flow :: "int option"
  ct_blockNum :: nat
  ct_uniqueId :: string
  ct_hash :: string

text \<open>The latest block: its number and its timestamp in seconds.\<close>

record block =
  blk_number :: int
  blk_timestamp :: int

text \<open>\<open>AddressInfo\<close>: which side of the transfer the watched address is on.\<close>

datatype address_info = FromAddress string | ToAddress string

text \<open>The argument of \<open>getAssetTransfers\<close>: \<open>{...params, pageKey, ...baseRequest}\<close>.\<close>

record asset_request =
  ar_params :: address_info
  ar_pageKey :: "string option"
  ar_excludeZeroValue :: bool
  ar_fromBlock :: string
  ar_toBlock :: string
  ar_category :: "asset_category list"

record provider =
  pv_getBlock :: "block option"
  pv_getAssetTransfers :: "asset_request \<Rightarrow> (raw_transfer list \<times> string option) option"
  pv_getTokenBalances :: "string \<Rightarrow> string list \<Rightarrow> (string \<times> string option) list option"
  pv_getTokenMetadata :: "string \<Rightarrow> (nat \<times> string) option"
  pv_getBalance :: "string \<Rightarrow> int \<Rightarrow> string option"

end
