(* ===== verification/BlockTiming.thy ===== *)
theory BlockTiming
  imports Provider
begin

text \<open>
  The block timing estimator, \<open>getCurrentBlock\<close> (src/plugins/eth-data/transfer-events.ts,
  lines 21-38).  The result pairs the delay the code asks \<open>setTimeout\<close> for (\<open>None\<close>
  when it does not wait) with the block number it returns.  Times are milliseconds;
  \<open>now\<close> is the wall clock read at line 25.  Node's timers replace a delay below 1 ms
  (or above \<open>2^31 - 1\<close>) by 1 ms; \<open>node_timer_delay\<close> is that rule.
\<close>

definition node_timer_delay :: "int \<Rightarrow> int" where
  "node_timer_delay w = (if w < 1 \<or> w > 2147483647 then 1 else w)"

definition block_drift :: "block \<Rightarrow> int \<Rightarrow> int" where
  "block_drift b now = now - blk_timestamp b * 1000"

definition get_current_block :: "provider \<Rightarrow> int \<Rightarrow> (int option \<times> int) result" where
  "get_current_block p now =
     bind_r (from_provider (pv_getBlock p)) (\<lambda>b.
       let diff = block_drift b now in
       if diff > 5000 then Inr (Some (12000 - diff + 1000), blk_number b + 1)
       else Inr (None, blk_number b))"

lemma get_current_block_cases:
  assumes "get_current_block p now = Inr (w, n)"
  obtains b where "pv_getBlock p = Some b" "block_drift b now > 5000"
      "w = Some (13000 - block_drift b now)" "n = blk_number b + 1"
    | b where "pv_getBlock p = Some b" "block_drift b now \<le> 5000" "w = None" "n = blk_number b"
  using assms
  by (cases "pv_getBlock p") (auto simp: get_current_block_def Let_def split: if_splits)

lemma node_timer_delay_bounds: "w < 8000 \<Longrightarrow> 1 \<le> node_timer_delay w \<and> node_timer_delay w < 8000"
  by (simp add: node_timer_delay_def)

lemma node_timer_delay_ge: "w \<le> 2147483647 \<Longrightarrow> w \<le> node_timer_delay w"
  by (simp add: node_timer_delay_def)

section \<open>Properties\<close>

text \<open>
  C29.  Block timing: \<open>getCurrentBlock\<close> either returns the latest block without waiting
  (the block is at most 5 s old) or asks for a delay that Node runs for between 1 ms and
  8 s and returns the next block number; after that delay the clock is at least 13 s past
  the latest block's timestamp, one second after the next block is due.
\<close>

theorem get_current_block_bounds:
  assumes "get_current_block p now = Inr (w, n)"
  shows "\<exists>b. pv_getBlock p = Some b \<and>
           ((w = None \<and> n = blk_number b \<and> block_drift b now \<le> 5000) \<or>
            (\<exists>x. w = Some x \<and> n = blk_number b + 1 \<and> 5000 < block_drift b now \<and>
                 1 \<le> node_timer_delay x \<and> node_timer_delay x < 8000 \<and>
                 blk_timestamp b * 1000 + 13000 \<le> now + node_timer_delay x))"
  using assms
proof (cases rule: get_current_block_cases)
  case (1 b)
  then have "13000 - block_drift b now < 8000" by simp
  moreover have "13000 - block_drift b now \<le> node_timer_delay (13000 - block_drift b now)"
    using calculation by (simp add: node_timer_delay_ge)
  ultimately show ?thesis
    using 1 node_timer_delay_bounds by (auto simp: block_drift_def)
next
  case (2 b)
  then show ?thesis by auto
qed

theorem get_current_block_bounds_witness:
  "get_current_block \<lparr>pv_getBlock = Some \<lparr>blk_number = 100, blk_timestamp = 1000\<rparr>,
      pv_getAssetTransfers = (\<lambda>_. None), pv_getTokenBalances = (\<lambda>_ _. None),
      pv_getTokenMetadata = (\<lambda>_. None), pv_getBalance = (\<lambda>_ _. None)\<rparr> 1006000 = Inr (Some 7000, 101)
   \<and> node_timer_delay 7000 = 7000 \<and> (1000::int) * 1000 + 13000 \<le> 1006000 + node_timer_delay 7000"
proof -
  let ?p = "\<lparr>pv_getBlock = Some \<lparr>blk_number = 100, blk_timestamp = 1000\<rparr>,
      pv_getAssetTransfers = (\<lambda>_. None), pv_getTokenBalances = (\<lambda>_ _. None),
      pv_getTokenMetadata = (\<lambda>_. None), pv_getBalance = (\<lambda>_ _. None)\<rparr> :: provider"
  have r: "get_current_block ?p 1006000 = Inr (Some 7000, 101)"
    by (simp add: get_current_block_def block_drift_def)
  show ?thesis
    using get_current_block_bounds [OF r] r by (auto simp: node_timer_delay_def)
qed

end
