(* ===== verification/TransferFetcher.thy ===== *)
theory TransferFetcher
  imports Provider
begin

text \<open>
  The transfer fetcher (src/plugins/eth-data/transfer-events.ts): the lookback window
  (\<open>getNumOfBlocks\<close>, \<open>timeRangeToMinutes\<close>), the paginated query loop
  (\<open>getAllAssetTransfers\<close>), the normalisation of provider rows (\<open>cleanTransfers\<close>) and
  the two-direction fetch (\<open>getInflowAndOutflow\<close>).  The \<open>do \<dots> while (pageKey)\<close>
  loop ends only when the provider stops returning a continuation token, so it is a
  \<open>partial_function (option)\<close>: \<open>None\<close> is a loop that never ends, \<open>Some (Inl e)\<close>
  a rejected request.
\<close>

section \<open>The lookback window\<close>

definition get_num_of_blocks :: "int \<Rightarrow> int" where
  "get_num_of_blocks minutes = (minutes * 60) div 12"

definition time_ranges :: "(string \<times> int) list" where
  "time_ranges =
     [(''24h'', 60 * 24), (''12h'', 60 * 12), (''6h'', 60 * 6), (''3h'', 60 * 3),
      (''1h'', 60), (''30m'', 30), (''5m'', 5)]"

definition time_range_to_minutes :: "string \<Rightarrow> int result" where
  "time_range_to_minutes r =
     (case map_of time_ranges r of
        None \<Rightarrow> Inl (InvalidTimeRange r)
      | Some m \<Rightarrow> if m = 0 then Inl (InvalidTimeRange r) else Inr m)"

text \<open>\<open>baseAssetTransfersRequest\<close> with the continuation token of one iteration.\<close>

definition transfers_request ::
  "address_info \<Rightarrow> int \<Rightarrow> int \<Rightarrow> string option \<Rightarrow> asset_request" where
  "transfers_request params fromBlock currentBlock pageKey =
     \<lparr>ar_params = params, ar_pageKey = pageKey, ar_excludeZeroValue = True,
      ar_fromBlock = to_hex fromBlock, ar_toBlock = to_hex (currentBlock - 2),
      ar_category = [ERC20, EXTERNAL, INTERNAL]\<rparr>"

section \<open>The pagination loop\<close>

partial_function (option) fetch_pages ::
  "provider \<Rightarrow> address_info \<Rightarrow> int \<Rightarrow> int \<Rightarrow> string option \<Rightarrow> raw_transfer list
   \<Rightarrow> raw_transfer list result option" where
  "fetch_pages p params fromBlock currentBlock pageKey acc =
     (case pv_getAssetTransfers p (transfers_request params fromBlock currentBlock pageKey) of
        None \<Rightarrow> Some (Inl ProviderUnavailable)
      | Some (ts, nxt) \<Rightarrow>
          if js_truthy nxt then fetch_pages p params fromBlock currentBlock nxt (acc @ ts)
          else Some (Inr (acc @ ts)))"

definition get_all_asset_transfers ::
  "provider \<Rightarrow> address_info \<Rightarrow> string \<Rightarrow> int \<Rightarrow> raw_transfer list result option" where
  "get_all_asset_transfers p params timeRange currentBlock =
     (case time_range_to_minutes timeRange of
        Inl e \<Rightarrow> Some (Inl e)
      | Inr minutes \<Rightarrow>
          fetch_pages p params (currentBlock - get_num_of_blocks minutes) currentBlock None [])"

text \<open>
  A page chain: the pages the provider returns when the loop follows its continuation
  tokens from \<open>key\<close>, the last one without a (truthy) token.
\<close>

fun page_chain ::
  "provider \<Rightarrow> address_info \<Rightarrow> int \<Rightarrow> int \<Rightarrow> string option
   \<Rightarrow> (raw_transfer list \<times> string option) list \<Rightarrow> bool" where
  "page_chain p params fb cb key [] = False"
| "page_chain p params fb cb key ((ts, nxt) # pages) =
     (pv_getAssetTransfers p (transfers_request params fb cb key) = Some (ts, nxt) \<and>
      (if js_truthy nxt then page_chain p params fb cb nxt pages else pages = []))"

text \<open>
  The provider's pagination ends from \<open>key\<close>: following the continuation tokens reaches
  a page without a (truthy) token, or a query that fails.
\<close>

inductive pages_end :: "provider \<Rightarrow> address_info \<Rightarrow> int \<Rightarrow> int \<Rightarrow> string option \<Rightarrow> bool"
  for p params fb cb where
  fault: "pv_getAssetTransfers p (transfers_request params fb cb key) = None \<Longrightarrow> pages_end p params fb cb key"
| last: "pv_getAssetTransfers p (transfers_request params fb cb key) = Some (ts, nxt) \<Longrightarrow> \<not> js_truthy nxt \<Longrightarrow>
         pages_end p params fb cb key"
| more: "pv_getAssetTransfers p (transfers_request params fb cb key) = Some (ts, nxt) \<Longrightarrow> js_truthy nxt \<Longrightarrow>
         pages_end p params fb cb nxt \<Longrightarrow> pages_end p params fb cb key"

section \<open>Normalisation\<close>

text \<open>One row of \<open>cleanTransfers\<close>: the timestamp is estimated from the block distance
  to the anchor block, 12 s per block; \<open>hexToNumber\<close> throws on a malformed block number.\<close>

definition clean_transfer :: "int \<Rightarrow> int \<Rightarrow> raw_transfer \<Rightarrow> clean_transfer result" where
  "clean_transfer date currentBlock t =
     (case parse_hex (rt_blockNum t) of
        None \<Rightarrow> Inl (InvalidHex (rt_blockNum t))
      | Some bn \<Rightarrow> Inr
          \<lparr>ct_from = rt_from t, ct_to = rt_to t, ct_value = rt_value t, ct_asset = rt_asset t,
           ct_category = rt_category t,
           ct_timestamp = date - (currentBlock - int bn) * 12 * 1000,
           ct_tokenAddress = rt_contract_address t, ct_tvl = None, ct_flow = None,
           ct_blockNum = bn, ct_uniqueId = rt_uniqueId t, ct_hash = rt_hash t\<rparr>)"

definition clean_transfers :: "raw_transfer list \<Rightarrow> int \<Rightarrow> int \<Rightarrow> clean_transfer list result" where
  "clean_transfers ts date currentBlock = map_r (clean_transfer date currentBlock) ts"

text \<open>
  \<open>getInflowAndOutflow\<close>: both directions are queried together (\<open>Promise.all\<close>); a
  rejection of either rejects the pair (the outbound one is reported when both reject),
  and the pair never resolves if either loop never ends.  The result is
  \<open>(outflow, inflow)\<close>.
\<close>

definition get_inflow_and_outflow ::
  "provider \<Rightarrow> string \<Rightarrow> int \<Rightarrow> string \<Rightarrow> int
   \<Rightarrow> (clean_transfer list \<times> clean_transfer list) result option" where
  "get_inflow_and_outflow p address now timeRange currentBlock =
     (case (get_all_asset_transfers p (FromAddress address) timeRange currentBlock,
            get_all_asset_transfers p (ToAddress address) timeRange currentBlock) of
        (Some (Inl e), _) \<Rightarrow> Some (Inl e)
      | (_, Some (Inl e)) \<Rightarrow> Some (Inl e)
      | (Some (Inr outRaw), Some (Inr inRaw)) \<Rightarrow>
          Some (bind_r (clean_transfers outRaw now currentBlock) (\<lambda>outflow.
                bind_r (clean_transfers inRaw now currentBlock) (\<lambda>inflow.
                  Inr (outflow, inflow))))
      | _ \<Rightarrow> None)"

section \<open>Example data\<close>

text \<open>A provider serving two pages linked by the continuation token \<open>k\<close>.\<close>

abbreviation ex_raw :: "string \<Rightarrow> raw_transfer" where
  "ex_raw u \<equiv> \<lparr>rt_from = ''0xa'', rt_to = ''0xc'', rt_value = 1, rt_asset = Some ''ETH'',
     rt_category = EXTERNAL, rt_blockNum = ''0x62'', rt_uniqueId = u, rt_hash = ''0x1'',
     rt_contract_address = None\<rparr>"

abbreviation ex_paged :: provider where
  "ex_paged \<equiv> \<lparr>pv_getBlock = None,
     pv_getAssetTransfers = (\<lambda>req. if ar_pageKey req = None then Some ([ex_raw ''a''], Some ''k'')
                                  else if ar_pageKey req = Some ''k'' then Some ([ex_raw ''b''], None)
                                  else None),
     pv_getTokenBalances = (\<lambda>_ _. None), pv_getTokenMetadata = (\<lambda>_. None),
     pv_getBalance = (\<lambda>_ _. None)\<rparr>"

section \<open>Lemmas\<close>

lemma fetch_pages_chain:
  "page_chain p params fb cb key pages \<Longrightarrow>
   fetch_pages p params fb cb key acc = Some (Inr (acc @ concat (map fst pages)))"
proof (induction pages arbitrary: key acc)
  case Nil
  then show ?case by simp
next
  case (Cons pg pages)
  obtain ts nxt where pg: "pg = (ts, nxt)" by fastforce
  show ?case
  proof (cases "js_truthy nxt")
    case True
    with Cons.prems pg have "fetch_pages p params fb cb nxt (acc @ ts) =
        Some (Inr (acc @ ts @ concat (map fst pages)))"
      using Cons.IH by auto
    with Cons.prems pg True show ?thesis
      by (subst fetch_pages.simps) simp
  next
    case False
    with Cons.prems pg show ?thesis
      by (subst fetch_pages.simps) simp
  qed
qed

lemma fetch_pages_ends:
  "pages_end p params fb cb key \<Longrightarrow> \<exists>r. fetch_pages p params fb cb key acc = Some r"
proof (induction arbitrary: acc rule: pages_end.induct)
  case (fault key)
  then show ?case by (subst fetch_pages.simps) simp
next
  case (last key ts nxt)
  then show ?case by (subst fetch_pages.simps) simp
next
  case (more key ts nxt)
  then show ?case by (subst fetch_pages.simps) simp
qed

lemma get_all_asset_transfers_ends:
  "\<forall>params fb cb. pages_end p params fb cb None \<Longrightarrow> \<exists>r. get_all_asset_transfers p params timeRange cb = Some r"
  using fetch_pages_ends by (simp add: get_all_asset_transfers_def split: sum.splits)

lemma get_inflow_and_outflow_ends:
  assumes "\<forall>params fb cb. pages_end p params fb cb None"
  shows "\<exists>r. get_inflow_and_outflow p address now timeRange cb = Some r"
proof -
  obtain r1 r2 where "get_all_asset_transfers p (FromAddress address) timeRange cb = Some r1"
    and "get_all_asset_transfers p (ToAddress address) timeRange cb = Some r2"
    using get_all_asset_transfers_ends [OF assms] by blast
  then show ?thesis by (simp add: get_inflow_and_outflow_def split: sum.splits)
qed

lemma get_all_asset_transfers_single_page:
  assumes "time_range_to_minutes timeRange = Inr minutes"
    and "pv_getAssetTransfers p (transfers_request params (cb - get_num_of_blocks minutes) cb None) = Some (ts, None)"
  shows "get_all_asset_transfers p params timeRange cb = Some (Inr ts)"
proof -
  have "page_chain p params (cb - get_num_of_blocks minutes) cb None [(ts, None)]"
    using assms(2) by simp
  from fetch_pages_chain [OF this, of "[]"] show ?thesis
    using assms(1) by (simp add: get_all_asset_transfers_def)
qed

section \<open>Properties\<close>

text \<open>
  C30.  Pagination: when the provider's continuation tokens form a finite chain, the
  \<open>do \<dots> while (pageKey)\<close> loop of \<open>getAllAssetTransfers\<close> returns, and its result
  is the concatenation of all pages in the order served.
\<close>

theorem fetch_all_pages:
  assumes "time_range_to_minutes timeRange = Inr minutes"
    and "page_chain p params (currentBlock - get_num_of_blocks minutes) currentBlock None pages"
  shows "get_all_asset_transfers p params timeRange currentBlock = Some (Inr (concat (map fst pages)))"
  using assms fetch_pages_chain [of p params _ currentBlock None pages "[]"]
  by (simp add: get_all_asset_transfers_def)

theorem fetch_all_pages_witness:
  "get_all_asset_transfers ex_paged (ToAddress ''0xc'') ''5m'' 100 = Some (Inr [ex_raw ''a'', ex_raw ''b''])"
proof -
  have m: "time_range_to_minutes ''5m'' = Inr 5"
    by (simp add: time_range_to_minutes_def time_ranges_def)
  have c: "page_chain ex_paged (ToAddress ''0xc'') (100 - get_num_of_blocks 5) 100 None
             [([ex_raw ''a''], Some ''k''), ([ex_raw ''b''], None)]"
    by (simp add: transfers_request_def)
  show ?thesis using fetch_all_pages [OF m c] by simp
qed

text \<open>
  The lookback window: a window of \<open>m\<close> minutes is \<open>5 m\<close> blocks at 12 s per
  block; for \<open>5m\<close> the query covers blocks \<open>anchor - 25\<close> to \<open>anchor - 2\<close>.
\<close>

theorem lookback_window:
  "get_num_of_blocks minutes = 5 * minutes \<and>
   time_range_to_minutes ''5m'' = Inr 5 \<and> get_num_of_blocks 5 = 25 \<and>
   ar_fromBlock (transfers_request params (currentBlock - get_num_of_blocks 5) currentBlock k) =
     to_hex (currentBlock - 25) \<and>
   ar_toBlock (transfers_request params (currentBlock - get_num_of_blocks 5) currentBlock k) =
     to_hex (currentBlock - 2)"
  by (simp add: get_num_of_blocks_def time_range_to_minutes_def time_ranges_def transfers_request_def)

text \<open>
  An unsupported time range string makes \<open>getAllAssetTransfers\<close> throw
  \<open>Invalid time range\<close> before any provider query.
\<close>

theorem invalid_time_range:
  assumes "timeRange \<notin> fst ` set time_ranges"
  shows "get_all_asset_transfers p params timeRange currentBlock = Some (Inl (InvalidTimeRange timeRange))"
proof -
  have "map_of time_ranges timeRange = None"
    using assms by (simp add: map_of_eq_None_iff)
  then show ?thesis
    by (simp add: get_all_asset_transfers_def time_range_to_minutes_def)
qed

theorem invalid_time_range_witness:
  "''7m'' \<notin> fst ` set time_ranges \<and>
   get_all_asset_transfers ex_paged (ToAddress ''0xc'') ''7m'' 100 = Some (Inl (InvalidTimeRange ''7m''))"
proof -
  have h: "''7m'' \<notin> fst ` set time_ranges" by (simp add: time_ranges_def)
  show ?thesis using h invalid_time_range [OF h] by blast
qed

text \<open>
  Normalisation: a provider row with a well-formed hex block number becomes a
  \<open>CleanTransfers\<close> record with that block number, the estimated timestamp
  \<open>requestTime - (anchor - block) * 12000\<close>, the provider's unique id and contract address,
  and no flow yet.
\<close>

theorem clean_transfer_timestamp:
  assumes "parse_hex (rt_blockNum t) = Some bn"
  shows "\<exists>c. clean_transfer date currentBlock t = Inr c \<and> ct_blockNum c = bn \<and>
             ct_timestamp c = date - (currentBlock - int bn) * 12000 \<and>
             ct_uniqueId c = rt_uniqueId t \<and> ct_tokenAddress c = rt_contract_address t \<and>
             ct_flow c = None"
  using assms by (simp add: clean_transfer_def)

theorem clean_transfer_timestamp_witness:
  "parse_hex ''0x62'' = Some 98 \<and>
   (\<exists>c. clean_transfer 1000000 100 (ex_raw ''a'') = Inr c \<and> ct_blockNum c = 98 \<and>
        ct_timestamp c = 1000000 - (100 - int 98) * 12000 \<and> ct_uniqueId c = ''a'' \<and>
        ct_tokenAddress c = None \<and> ct_flow c = None)"
proof -
  have h: "parse_hex (rt_blockNum (ex_raw ''a'')) = Some 98"
    by (simp add: parse_hex_def hex_digit_val_def)
  show ?thesis using h clean_transfer_timestamp [OF h, of 1000000 100] by simp
qed

end
