(* ===== verification/Scaling.thy ===== *)
theory Scaling
  imports JsStrings JsNumber
begin

text \<open>
  Decimal scaling of a raw token balance, \<open>bigintHexToNumber\<close>
  (src/plugins/eth-data/transfer-events.ts, lines 80-89).  The hex balance is read as a
  \<open>BigInt\<close> and divided by \<open>BigInt(10 ** decimals)\<close>, giving a quotient and a remainder.
  These are printed as \<open>intPart.fraction\<close>, the fraction left-padded to \<open>decimals\<close>
  digits, and the string is read back with \<open>Number\<close>.  Doubles are the rationals
  \<open>round_frac\<close> of theory \<open>JsNumber\<close> yields:
  \<^item> \<open>scale_factor\<close> is \<open>BigInt(10 ** decimals)\<close>, with \<open>10 ** decimals\<close> the double
    nearest to \<open>10^decimals\<close>;
  \<^item> \<open>scaled_decimal\<close> is the printed string, for a given scale factor;
  \<^item> \<open>string_to_number\<close> is \<open>Number\<close> on a string \<open>digits.digits\<close>, the double nearest
    to the decimal it denotes (\<open>decimal_value\<close>).
  \<open>decimals\<close> is an ERC-20 token's \<open>uint8\<close> (at most 255), or 18 for ether.  So
  \<open>10 ** decimals\<close> stays below \<open>2^1024\<close> and \<open>BigInt\<close> never receives \<open>Infinity\<close>.  Up
  to 22 decimals, \<open>10 ** decimals\<close> is exact and the result is the double nearest to
  the balance over \<open>10^decimals\<close>.  From 23 decimals on it is not exact
  (\<open>scale_factor_23\<close>).
\<close>

definition scale_factor :: "nat \<Rightarrow> nat" where
  "scale_factor decimals = nat \<lfloor>round_frac (10 ^ decimals) 1\<rfloor>"

definition scaled_decimal :: "nat \<Rightarrow> nat \<Rightarrow> nat \<Rightarrow> string" where
  "scaled_decimal bigIntValue scaleFactor decimals =
     (let intPart = bigIntValue div scaleFactor;
          fractionalPart = bigIntValue mod scaleFactor;
          fractionalAsString = pad_start decimals (CHR ''0'') (dec_string fractionalPart)
      in dec_string intPart @ ''.'' @ fractionalAsString)"

text \<open>The decimal a string \<open>digits.digits\<close> denotes, and \<open>Number\<close> of it.\<close>

definition decimal_value :: "string \<Rightarrow> rat" where
  "decimal_value s =
     (let i = takeWhile (\<lambda>c. c \<noteq> CHR ''.'') s;
          f = drop (Suc (length i)) s
      in of_nat (dec_value i) + of_nat (dec_value f) / 10 ^ length f)"

definition string_to_number :: "string \<Rightarrow> rat" where
  "string_to_number s =
     (let i = takeWhile (\<lambda>c. c \<noteq> CHR ''.'') s;
          f = drop (Suc (length i)) s
      in round_frac (dec_value i * 10 ^ length f + dec_value f) (10 ^ length f))"

definition bigint_hex_to_number :: "string \<Rightarrow> nat \<Rightarrow> rat result" where
  "bigint_hex_to_number hex decimals =
     (case parse_hex hex of
        None \<Rightarrow> Inl (InvalidHex hex)
      | Some bigIntValue \<Rightarrow>
          Inr (string_to_number (scaled_decimal bigIntValue (scale_factor decimals) decimals)))"

section \<open>Lemmas\<close>

lemma dot_not_in_dec_string: "CHR ''.'' \<notin> set (dec_string n)"
  using dec_string_digits [of "CHR ''.''" n] by (auto simp: is_digit_def)

lemma takeWhile_dec_string_dot:
  "takeWhile (\<lambda>c. c \<noteq> CHR ''.'') (dec_string m @ CHR ''.'' # r) = dec_string m"
  using dot_not_in_dec_string [of m] by (subst takeWhile_append2) auto

lemma length_fraction:
  "length (pad_start decimals (CHR ''0'') (dec_string (n mod 10 ^ decimals))) =
     (if decimals = 0 then 1 else decimals)"
proof (cases "decimals = 0")
  case True
  then show ?thesis by (simp add: pad_start_def)
next
  case False
  have "n mod 10 ^ decimals < 10 ^ decimals" by simp
  with False have "length (dec_string (n mod 10 ^ decimals)) \<le> decimals"
    using length_dec_string_le by blast
  with False show ?thesis by (simp add: length_pad_start)
qed

lemma rat_div_mod_split:
  "0 < m \<Longrightarrow> (of_nat (n div m) :: rat) + of_nat (n mod m) / of_nat m = of_nat n / of_nat m"
proof -
  assume m: "0 < m"
  have "(of_nat n :: rat) = of_nat (n div m) * of_nat m + of_nat (n mod m)"
    by (metis div_mult_mod_eq of_nat_add of_nat_mult)
  with m show ?thesis by (simp add: field_simps)
qed

text \<open>With the exact scale factor the string denotes the balance over \<open>10^decimals\<close>.\<close>

lemma decimal_value_scaled_decimal:
  "decimal_value (scaled_decimal n (10 ^ decimals) decimals) = of_nat n / 10 ^ decimals"
proof (cases "decimals = 0")
  case True
  then show ?thesis
    by (simp add: decimal_value_def scaled_decimal_def takeWhile_dec_string_dot Let_def
        pad_start_def digit_val_def digit_chr_def)
next
  case False
  let ?f = "pad_start decimals (CHR ''0'') (dec_string (n mod 10 ^ decimals))"
  have len: "length ?f = decimals"
    using False length_fraction [of decimals n] by simp
  have "decimal_value (scaled_decimal n (10 ^ decimals) decimals) =
          of_nat (n div 10 ^ decimals) + of_nat (n mod 10 ^ decimals) / 10 ^ decimals"
    by (simp add: decimal_value_def scaled_decimal_def takeWhile_dec_string_dot len Let_def)
  also have "\<dots> = of_nat n / of_nat (10 ^ decimals)"
    using rat_div_mod_split [of "10 ^ decimals" n] by simp
  finally show ?thesis by simp
qed

text \<open>\<open>Number\<close> of that string is the double nearest to it.\<close>

lemma string_to_number_scaled_decimal:
  "string_to_number (scaled_decimal n (10 ^ decimals) decimals) = round_frac n (10 ^ decimals)"
proof (cases "decimals = 0")
  case True
  have "round_frac (n * 10) (1 * 10) = round_frac n 1" by (rule round_frac_mult) simp
  with True show ?thesis
    by (simp add: string_to_number_def scaled_decimal_def takeWhile_dec_string_dot Let_def
        pad_start_def digit_val_def digit_chr_def)
next
  case False
  let ?f = "pad_start decimals (CHR ''0'') (dec_string (n mod 10 ^ decimals))"
  have len: "length ?f = decimals"
    using False length_fraction [of decimals n] by simp
  show ?thesis
    by (simp add: string_to_number_def scaled_decimal_def takeWhile_dec_string_dot len Let_def
        div_mult_mod_eq)
qed

lemma scale_factor_exact: "decimals \<le> 22 \<Longrightarrow> scale_factor decimals = 10 ^ decimals"
proof -
  assume "decimals \<le> 22"
  then have "round_frac (10 ^ decimals) 1 = of_nat (10 ^ decimals)"
    using round_frac_pow10 by simp
  then show ?thesis by (simp only: scale_factor_def floor_of_nat nat_int)
qed

lemma bigint_hex_to_number_to_hex:
  "bigint_hex_to_number (to_hex (int n)) decimals =
     Inr (string_to_number (scaled_decimal n (scale_factor decimals) decimals))"
  by (simp add: bigint_hex_to_number_def)

lemma bigint_hex_to_number_small:
  "decimals \<le> 22 \<Longrightarrow> bigint_hex_to_number (to_hex (int n)) decimals = Inr (round_frac n (10 ^ decimals))"
  by (simp add: bigint_hex_to_number_to_hex scale_factor_exact string_to_number_scaled_decimal)

text \<open>From 23 decimals on the double \<open>10 ** decimals\<close> is not \<open>10^decimals\<close>.\<close>

lemma scale_factor_23: "scale_factor 23 = 99999999999999991611392"
  by (simp add: scale_factor_def round_frac_def flog2_frac_def round_half_even_def)

text \<open>A scale factor above \<open>10^decimals\<close> lets the remainder outgrow the padding: one
  unit below a scale factor of \<open>10^23 + 8388608\<close> prints as \<open>0.1\<dots>\<close>, a tenth of its value.\<close>

lemma scaled_decimal_overlong:
  "scaled_decimal (10 ^ 23 + 8388607) (10 ^ 23 + 8388608) 23 = ''0.100000000000000008388607''"
  by (simp add: scaled_decimal_def pad_start_def digit_chr_def dec_string_numeral char_of_def bit_simps)

section \<open>Properties\<close>

text \<open>
  C23.  Decimal scaling is correctly rounded: for up to 22 decimals,
  \<open>bigintHexToNumber\<close> of any raw balance \<open>n\<close> succeeds with the double nearest to
  \<open>n / 10^decimals\<close> (ties to even).
\<close>

theorem bigint_hex_to_number_nearest:
  assumes "decimals \<le> 22"
  shows "bigint_hex_to_number (to_hex (int n)) decimals = Inr (round_frac n (10 ^ decimals))"
  using assms by (rule bigint_hex_to_number_small)

theorem bigint_hex_to_number_nearest_witness:
  "bigint_hex_to_number (to_hex 1500000000000000000) 18 = Inr (3 / 2)"
  using bigint_hex_to_number_nearest [of 18 1500000000000000000]
  by (simp add: round_frac_def flog2_frac_def round_half_even_def)

text \<open>
  Decimal scaling is accurate: for up to 22 decimals the value
  \<open>bigintHexToNumber\<close> returns for a raw balance \<open>n\<close> is within a relative
  \<open>2^-53\<close> of \<open>n / 10^decimals\<close>, and with no decimals a balance below \<open>2^53\<close> comes
  back exactly.
\<close>

theorem bigint_hex_to_number_error:
  assumes "decimals \<le> 22"
  shows "\<exists>v. bigint_hex_to_number (to_hex (int n)) decimals = Inr v \<and>
           \<bar>v - of_nat n / 10 ^ decimals\<bar> \<le> of_nat n / 10 ^ decimals / 2 ^ 53 \<and>
           (decimals = 0 \<and> n < 2 ^ 53 \<longrightarrow> v = of_nat n)"
proof (intro exI conjI impI)
  show "bigint_hex_to_number (to_hex (int n)) decimals = Inr (round_frac n (10 ^ decimals))"
    using assms by (rule bigint_hex_to_number_small)
  show "\<bar>round_frac n (10 ^ decimals) - of_nat n / 10 ^ decimals\<bar> \<le> of_nat n / 10 ^ decimals / 2 ^ 53"
    using round_frac_error [of n "10 ^ decimals"] by (cases "n = 0") (simp_all add: round_frac_def)
  assume "decimals = 0 \<and> n < 2 ^ 53"
  then show "round_frac n (10 ^ decimals) = of_nat n"
    using round_frac_int [of n n 0] by simp
qed


end
