(* ===== verification/Tvl.thy ===== *)
theory Tvl
  imports Provider Scaling "HOL-Library.Multiset"
begin

text \<open>
  The TVL reconstructor, \<open>addCurrentTokenBalances\<close>
  (src/plugins/eth-data/transfer-events.ts, lines 91-165), and \<open>addTvlToTransfers\<close>
  (lines 317-329).  The walk (lines 152-162) visits the transfers sorted by timestamp,
  most recent first, keeping the running balance per token in \<open>currentTokenTvl\<close>
  (\<open>string \<Rightarrow> jsnum option\<close>, \<open>None\<close> for a missing key).  Transfers are mutated in
  place and shared between \<open>transfers\<close> and the caller's \<open>inflow\<close>/\<open>outflow\<close>
  arrays; the model tags each transfer with its position in \<open>transfers\<close>, walks the
  tagged list, and writes each result back at that position.
\<close>

section \<open>The backward walk\<close>

definition token_key :: "clean_transfer \<Rightarrow> string" where
  "token_key t = js_or (ct_tokenAddress t) ''ETH''"

fun tvl_walk ::
  "nat \<Rightarrow> (string \<Rightarrow> jsnum option) \<Rightarrow> (nat \<times> clean_transfer) list \<Rightarrow> (nat \<times> jsnum option) list" where
  "tvl_walk i m [] = []"
| "tvl_walk i m ((j, t) # ts) =
     (let k = token_key t;
          runningTvl = m k;
          tvl = (if i = 0 then runningTvl
                 else Some (case ct_flow t of
                              None \<Rightarrow> NaN
                            | Some f \<Rightarrow> js_plus runningTvl (of_int f * ct_value t)))
      in (j, tvl) # tvl_walk (Suc i) (m(k := tvl)) ts)"

text \<open>The signed amount of a tagged transfer, and a running balance moved by an amount.\<close>

definition flow_value :: "clean_transfer \<Rightarrow> rat" where
  "flow_value t = (case ct_flow t of None \<Rightarrow> 0 | Some f \<Rightarrow> of_int f * ct_value t)"

fun js_acc :: "jsnum option \<Rightarrow> rat \<Rightarrow> jsnum option" where
  "js_acc (Some (Num s)) d = Some (Num (s + d))"
| "js_acc _ d = Some NaN"

text \<open>Sum of the signed amounts of the transfers of token \<open>k\<close> in a list.\<close>

definition token_delta :: "string \<Rightarrow> (nat \<times> clean_transfer) list \<Rightarrow> rat" where
  "token_delta k xs = sum_list (map (flow_value \<circ> snd) (filter (\<lambda>x. token_key (snd x) = k) xs))"

definition flows_tagged :: "(nat \<times> clean_transfer) list \<Rightarrow> bool" where
  "flows_tagged xs \<longleftrightarrow> (\<forall>x \<in> set xs. ct_flow (snd x) \<noteq> None)"

section \<open>The ledger the walk is meant to compute\<close>

text \<open>
  Section 4.3 of the spec: walking backward from the snapshot, a transfer's running
  balance is the balance right after it, i.e.\ the snapshot minus the signed amounts of
  the more recent transfers of the same token.  \<open>spec_running_tvl S xs q\<close> is that
  value for the transfer at position \<open>q\<close> of the most-recent-first list \<open>xs\<close>.
\<close>

definition spec_running_tvl :: "(string \<Rightarrow> rat) \<Rightarrow> (nat \<times> clean_transfer) list \<Rightarrow> nat \<Rightarrow> rat" where
  "spec_running_tvl S xs q =
     S (token_key (snd (xs ! q))) - token_delta (token_key (snd (xs ! q))) (take q xs)"

section \<open>The whole reconstructor\<close>

text \<open>Lines 97-100: tag the flows and concatenate, inflow first.\<close>

definition tag_flows :: "clean_transfer list \<Rightarrow> clean_transfer list \<Rightarrow> clean_transfer list" where
  "tag_flows inflow outflow =
     map (\<lambda>t. t\<lparr>ct_flow := Some 1\<rparr>) inflow @ map (\<lambda>t. t\<lparr>ct_flow := Some (-1)\<rparr>) outflow"

text \<open>Lines 102-107: the distinct token addresses, without \<open>null\<close> and \<open>''\<close>.\<close>

definition erc20_address :: "string option \<Rightarrow> string option" where
  "erc20_address a = (case a of None \<Rightarrow> None | Some s \<Rightarrow> if s = [] then None else Some s)"

definition all_token_addresses :: "clean_transfer list \<Rightarrow> string list" where
  "all_token_addresses ts =
     List.map_filter erc20_address (map ct_tokenAddress (uniq_by ct_tokenAddress ts))"

text \<open>Lines 111-119: \<open>getTokenBalances\<close> reduced into \<open>contractAddress \<mapsto> tokenBalance\<close>
  (\<open>None\<close> for a missing key or a \<open>null\<close> balance).\<close>

definition fetch_token_balances :: "provider \<Rightarrow> string \<Rightarrow> string list \<Rightarrow> (string \<Rightarrow> string option) result" where
  "fetch_token_balances p address tokens =
     (if tokens = [] then Inr (\<lambda>_. None)
      else bind_r (from_provider (pv_getTokenBalances p address tokens)) (\<lambda>bs.
             Inr (fold (\<lambda>(a, b) acc. acc(a := b)) bs (\<lambda>_. None))))"

text \<open>Lines 124-135: per token, its metadata and its scaled balance; the result lists
  \<open>(tokenAddress, symbol, value)\<close> in the order of the token list.\<close>

definition scale_token_balance ::
  "provider \<Rightarrow> (string \<Rightarrow> string option) \<Rightarrow> string \<Rightarrow> (string \<times> string \<times> rat) result" where
  "scale_token_balance p hexes a =
     bind_r (from_provider (pv_getTokenMetadata p a)) (\<lambda>(decimals, symbol).
       case hexes a of
         None \<Rightarrow> Inl (MissingField ''tokenBalance'')
       | Some h \<Rightarrow> bind_r (bigint_hex_to_number h decimals) (\<lambda>v. Inr (a, symbol, v)))"

text \<open>Lines 142-150: the native balance, queried only when some transfer is of ETH.\<close>

definition has_eth_transfer :: "clean_transfer list \<Rightarrow> bool" where
  "has_eth_transfer ts \<longleftrightarrow> (\<exists>t \<in> set ts. ct_tokenAddress t = None \<or> ct_tokenAddress t = Some [])"

definition eth_snapshot :: "provider \<Rightarrow> string \<Rightarrow> int \<Rightarrow> clean_transfer list \<Rightarrow> rat option result" where
  "eth_snapshot p address currentBlock ts =
     (if has_eth_transfer ts
      then bind_r (from_provider (pv_getBalance p address currentBlock)) (\<lambda>h.
             bind_r (bigint_hex_to_number h 18) (\<lambda>v. Inr (Some v)))
      else Inr None)"

text \<open>\<open>currentTokenTvl\<close> (keyed by token address, \<open>ETH\<close> for the native coin) and
  \<open>currentTokenTvlSymbols\<close> (keyed by symbol).\<close>

definition snapshot_by_address :: "(string \<times> string \<times> rat) list \<Rightarrow> rat option \<Rightarrow> string \<Rightarrow> jsnum option" where
  "snapshot_by_address scaled eth =
     (let m = fold (\<lambda>(a, s, v) acc. acc(a := Some (Num v))) scaled (\<lambda>_. None)
      in case eth of None \<Rightarrow> m | Some v \<Rightarrow> m(''ETH'' := Some (Num v)))"

definition snapshot_by_symbol :: "(string \<times> string \<times> rat) list \<Rightarrow> rat option \<Rightarrow> string \<Rightarrow> rat option" where
  "snapshot_by_symbol scaled eth =
     (let m = fold (\<lambda>(a, s, v) acc. acc(s := Some v)) scaled (\<lambda>_. None)
      in case eth of None \<Rightarrow> m | Some v \<Rightarrow> m(''ETH'' := Some v))"

text \<open>Lines 152-154: \<open>_.sortBy('timestamp')\<close> (stable, ascending), then \<open>reverse\<close>.\<close>

definition walk_order :: "clean_transfer list \<Rightarrow> (nat \<times> clean_transfer) list" where
  "walk_order ts = rev (sort_key (\<lambda>x. ct_timestamp (snd x)) (enumerate 0 ts))"

text \<open>Line 160: \<open>t.tvl = tvl\<close>, written back at each transfer's position.\<close>

definition write_back :: "(nat \<times> jsnum option) list \<Rightarrow> clean_transfer list \<Rightarrow> clean_transfer list" where
  "write_back w ts = map (\<lambda>(j, t). t\<lparr>ct_tvl := the (map_of w j)\<rparr>) (enumerate 0 ts)"

text \<open>The result: the per-symbol snapshot the function returns, and the caller's inflow
  and outflow arrays as the mutation leaves them.\<close>

definition add_current_token_balances ::
  "provider \<Rightarrow> clean_transfer list \<Rightarrow> clean_transfer list \<Rightarrow> string \<Rightarrow> int
   \<Rightarrow> ((string \<Rightarrow> rat option) \<times> clean_transfer list \<times> clean_transfer list) result" where
  "add_current_token_balances p inflow outflow address currentBlock =
     (let transfers = tag_flows inflow outflow;
          tokens = all_token_addresses transfers
      in bind_r (fetch_token_balances p address tokens) (\<lambda>hexes.
         bind_r (map_r (scale_token_balance p hexes) tokens) (\<lambda>scaled.
         bind_r (eth_snapshot p address currentBlock transfers) (\<lambda>eth.
           let w = tvl_walk 0 (snapshot_by_address scaled eth) (walk_order transfers);
               annotated = write_back w transfers
           in Inr (snapshot_by_symbol scaled eth,
                   take (length inflow) annotated, drop (length inflow) annotated)))))"

text \<open>\<open>addTvlToTransfers\<close>: the transfers already carry their flows; those with
  \<open>flow\<close> 1 and -1 are re-tagged and walked against a fresh latest block.\<close>

definition add_tvl_to_transfers ::
  "provider \<Rightarrow> clean_transfer list \<Rightarrow> string
   \<Rightarrow> ((string \<Rightarrow> rat option) \<times> clean_transfer list \<times> clean_transfer list) result" where
  "add_tvl_to_transfers p ts address =
     bind_r (from_provider (pv_getBlock p)) (\<lambda>b.
       add_current_token_balances p (filter (\<lambda>t. ct_flow t = Some 1) ts)
         (filter (\<lambda>t. ct_flow t = Some (-1)) ts) address (blk_number b))"

section \<open>Example data\<close>

text \<open>Two native-coin transfers of the watched address \<open>0xc\<close> and a provider whose
  native balance for it is 5 ETH (\<open>0x4563918244f40000\<close> wei): the data of the
  witnesses below.\<close>

abbreviation ex_in :: clean_transfer where
  "ex_in \<equiv> \<lparr>ct_from = ''0xa'', ct_to = ''0xc'', ct_value = 2, ct_asset = Some ''ETH'',
      ct_category = EXTERNAL, ct_timestamp = 2000, ct_tokenAddress = None, ct_tvl = None,
      ct_flow = None, ct_blockNum = 99, ct_uniqueId = ''u1'', ct_hash = ''h1''\<rparr>"

abbreviation ex_out :: clean_transfer where
  "ex_out \<equiv> \<lparr>ct_from = ''0xc'', ct_to = ''0xb'', ct_value = 1, ct_asset = Some ''ETH'',
      ct_category = EXTERNAL, ct_timestamp = 1000, ct_tokenAddress = None, ct_tvl = None,
      ct_flow = None, ct_blockNum = 98, ct_uniqueId = ''u0'', ct_hash = ''h0''\<rparr>"

abbreviation ex_provider :: provider where
  "ex_provider \<equiv> \<lparr>pv_getBlock = Some \<lparr>blk_number = 100, blk_timestamp = 1000\<rparr>,
      pv_getAssetTransfers = (\<lambda>_. None), pv_getTokenBalances = (\<lambda>_ _. None),
      pv_getTokenMetadata = (\<lambda>_. None), pv_getBalance = (\<lambda>_ _. Some ''0x4563918244f40000'')\<rparr>"

section \<open>Lemmas on the walk\<close>

lemma js_acc_js_acc [simp]: "js_acc (js_acc r a) b = js_acc r (a + b)"
  by (cases r; cases "the r") (simp_all add: add.assoc)

lemma js_plus_js_acc: "Some (js_plus r d) = js_acc r d"
  by (cases r; cases "the r") simp_all

lemma token_delta_append [simp]: "token_delta k (xs @ ys) = token_delta k xs + token_delta k ys"
  by (simp add: token_delta_def)

lemma token_delta_simps [simp]:
  "token_delta k [] = 0"
  "token_delta k (x # xs) = (if token_key (snd x) = k then flow_value (snd x) else 0) + token_delta k xs"
  by (simp_all add: token_delta_def)

lemma map_fst_tvl_walk [simp]: "map fst (tvl_walk i m xs) = map fst xs"
  by (induction xs arbitrary: i m) (auto simp: Let_def)

lemma length_tvl_walk [simp]: "length (tvl_walk i m xs) = length xs"
  using map_fst_tvl_walk [of i m xs] by (metis length_map)

text \<open>After the first visited transfer, every transfer's value is its token's entry moved
  by the signed amounts of all transfers of that token visited so far, its own included.\<close>

lemma tvl_walk_later:
  assumes "flows_tagged xs" and "0 < i" and "q < length xs"
  shows "snd (tvl_walk i m xs ! q) =
         js_acc (m (token_key (snd (xs ! q)))) (token_delta (token_key (snd (xs ! q))) (take (Suc q) xs))"
  using assms
proof (induction xs arbitrary: i m q)
  case Nil
  then show ?case by simp
next
  case (Cons x xs)
  obtain j t where x: "x = (j, t)" by fastforce
  obtain f where f: "ct_flow t = Some f"
    using Cons.prems(1) x by (auto simp: flows_tagged_def)
  let ?k = "token_key t"
  have walk: "tvl_walk i m ((j, t) # xs) =
      (j, js_acc (m ?k) (flow_value t)) # tvl_walk (Suc i) (m(?k := js_acc (m ?k) (flow_value t))) xs"
    using Cons.prems(2) f by (simp add: Let_def flow_value_def js_plus_js_acc)
  show ?case
  proof (cases q)
    case 0
    with x walk show ?thesis by simp
  next
    case (Suc q')
    have tag: "flows_tagged xs" using Cons.prems(1) by (simp add: flows_tagged_def)
    have IH: "snd (tvl_walk (Suc i) (m(?k := js_acc (m ?k) (flow_value t))) xs ! q') =
      js_acc ((m(?k := js_acc (m ?k) (flow_value t))) (token_key (snd (xs ! q'))))
             (token_delta (token_key (snd (xs ! q'))) (take (Suc q') xs))"
      using Cons.IH [OF tag, of "Suc i" q'] Cons.prems(3) Suc by simp
    show ?thesis
      using x Suc IH walk
      by (cases "token_key (snd (xs ! q')) = ?k") simp_all
  qed
qed

text \<open>The closed form of the walk: the most recent transfer gets its token's snapshot;
  every other one gets the snapshot moved by the signed amounts of the transfers of its
  token from the second visited up to itself.\<close>

lemma tvl_walk_closed_form:
  assumes "flows_tagged xs" and "q < length xs"
  shows "snd (tvl_walk 0 m xs ! q) =
         (if q = 0 then m (token_key (snd (xs ! 0)))
          else js_acc (m (token_key (snd (xs ! q))))
                      (token_delta (token_key (snd (xs ! q))) (take q (tl xs))))"
proof (cases xs)
  case Nil
  with assms show ?thesis by simp
next
  case (Cons x ys)
  obtain j t where x: "x = (j, t)" by fastforce
  have walk: "tvl_walk 0 m xs = (j, m (token_key t)) # tvl_walk 1 m ys"
    using Cons x by (simp add: Let_def)
  show ?thesis
  proof (cases q)
    case 0
    with walk Cons x show ?thesis by simp
  next
    case (Suc q')
    have "flows_tagged ys" using assms(1) Cons by (simp add: flows_tagged_def)
    with assms(2) Cons Suc walk show ?thesis
      using tvl_walk_later [of ys 1 q' m] by simp
  qed
qed

lemma spec_running_tvl_recurrence:
  assumes "p < q" and "q < length xs"
    and "token_key (snd (xs ! p)) = token_key (snd (xs ! q))"
    and "\<forall>r. p < r \<and> r < q \<longrightarrow> token_key (snd (xs ! r)) \<noteq> token_key (snd (xs ! q))"
  shows "spec_running_tvl S xs q = spec_running_tvl S xs p - flow_value (snd (xs ! p))"
proof -
  let ?k = "token_key (snd (xs ! q))"
  have len: "p < length (take q xs)" using assms(1,2) by simp
  have "take q xs = take p (take q xs) @ drop p (take q xs)"
    by (rule append_take_drop_id [symmetric])
  also have "take p (take q xs) = take p xs" using assms(1) by simp
  also have "drop p (take q xs) = xs ! p # drop (Suc p) (take q xs)"
    using Cons_nth_drop_Suc [OF len] assms(1) by simp
  finally have tq: "take q xs = take p xs @ [xs ! p] @ drop (Suc p) (take q xs)" by simp
  have "\<forall>x \<in> set (drop (Suc p) (take q xs)). token_key (snd x) \<noteq> ?k"
  proof
    fix x assume "x \<in> set (drop (Suc p) (take q xs))"
    then obtain i where "i < length (drop (Suc p) (take q xs))" "x = drop (Suc p) (take q xs) ! i"
      by (auto simp: in_set_conv_nth)
    with assms(2) have "x = xs ! (Suc p + i)" and "p < Suc p + i \<and> Suc p + i < q"
      by simp_all
    with assms(4) show "token_key (snd x) \<noteq> ?k" by blast
  qed
  then have "token_delta ?k (drop (Suc p) (take q xs)) = 0"
    by (simp add: token_delta_def filter_empty_conv)
  moreover from tq have "token_delta ?k (take q xs) =
      token_delta ?k (take p xs @ [xs ! p] @ drop (Suc p) (take q xs))"
    by (rule arg_cong)
  ultimately have "token_delta ?k (take q xs) = token_delta ?k (take p xs) + flow_value (snd (xs ! p))"
    using assms(3) by simp
  with assms(3) show ?thesis by (simp add: spec_running_tvl_def)
qed


section \<open>Lemmas on the reconstructor\<close>

lemma distinct_fst_walk_order: "distinct (map fst (walk_order ts))"
proof -
  have "inj_on fst (set (enumerate 0 ts))"
    by (auto simp: inj_on_def in_set_enumerate_eq prod_eq_iff)
  moreover have "distinct (enumerate 0 ts)"
    using distinct_map [of fst "enumerate 0 ts"] by simp
  ultimately show ?thesis
    by (simp add: walk_order_def distinct_map)
qed

lemma set_walk_order: "set (walk_order ts) = set (enumerate 0 ts)"
  by (simp add: walk_order_def)

lemma length_walk_order [simp]: "length (walk_order ts) = length ts"
  by (simp add: walk_order_def)

lemma walk_order_index:
  "q < length ts \<Longrightarrow> fst (walk_order ts ! q) < length ts \<and> ts ! fst (walk_order ts ! q) = snd (walk_order ts ! q)"
proof -
  assume "q < length ts"
  then have "walk_order ts ! q \<in> set (enumerate 0 ts)"
    using set_walk_order [of ts] by (metis length_walk_order nth_mem)
  then show ?thesis by (simp add: in_set_enumerate_eq)
qed

lemma map_of_tvl_walk:
  "distinct (map fst xs) \<Longrightarrow> q < length xs \<Longrightarrow>
   map_of (tvl_walk i m xs) (fst (xs ! q)) = Some (snd (tvl_walk i m xs ! q))"
proof -
  assume d: "distinct (map fst xs)" and q: "q < length xs"
  have "fst (tvl_walk i m xs ! q) = fst (xs ! q)"
    using map_fst_tvl_walk [of i m xs] q by (metis length_tvl_walk nth_map)
  moreover have "tvl_walk i m xs ! q \<in> set (tvl_walk i m xs)"
    using q by simp
  ultimately show ?thesis
    using d by (metis map_fst_tvl_walk map_of_eq_Some_iff prod.collapse)
qed

lemma write_back_nth:
  "j < length ts \<Longrightarrow> write_back w ts ! j = (ts ! j)\<lparr>ct_tvl := the (map_of w j)\<rparr>"
  by (simp add: write_back_def nth_enumerate_eq)

lemma length_write_back [simp]: "length (write_back w ts) = length ts"
  by (simp add: write_back_def)

lemma flows_tagged_walk_order: "flows_tagged (walk_order (tag_flows inflow outflow))"
  by (auto simp: flows_tagged_def set_walk_order in_set_enumerate_eq tag_flows_def nth_append)

lemma add_current_token_balances_Inr:
  assumes "add_current_token_balances p inflow outflow address cb = Inr (syms, inflow', outflow')"
  defines "T \<equiv> tag_flows inflow outflow"
  obtains hexes scaled eth where
    "fetch_token_balances p address (all_token_addresses T) = Inr hexes"
    "map_r (scale_token_balance p hexes) (all_token_addresses T) = Inr scaled"
    "eth_snapshot p address cb T = Inr eth"
    "syms = snapshot_by_symbol scaled eth"
    "inflow' @ outflow' = write_back (tvl_walk 0 (snapshot_by_address scaled eth) (walk_order T)) T"
  using assms by (auto simp: add_current_token_balances_def Let_def)

text \<open>The walk changes only the \<open>tvl\<close> field; \<open>addCurrentTokenBalances\<close> returns the
  caller's transfers with their flows set and their \<open>tvl\<close> written.\<close>

lemma write_back_frame:
  "map (\<lambda>t. t\<lparr>ct_tvl := None\<rparr>) (write_back w ts) = map (\<lambda>t. t\<lparr>ct_tvl := None\<rparr>) ts"
  by (rule nth_equalityI) (simp_all add: write_back_nth)

lemma add_current_token_balances_frame:
  assumes "add_current_token_balances p inflow outflow address cb = Inr (syms, inflow', outflow')"
  shows "map (\<lambda>t. t\<lparr>ct_tvl := None\<rparr>) inflow' = map (\<lambda>t. t\<lparr>ct_flow := Some 1, ct_tvl := None\<rparr>) inflow \<and>
         map (\<lambda>t. t\<lparr>ct_tvl := None\<rparr>) outflow' = map (\<lambda>t. t\<lparr>ct_flow := Some (-1), ct_tvl := None\<rparr>) outflow"
proof -
  obtain w where w: "inflow' = take (length inflow) (write_back w (tag_flows inflow outflow))"
      "outflow' = drop (length inflow) (write_back w (tag_flows inflow outflow))"
    using assms by (auto simp: add_current_token_balances_def Let_def)
  have f: "map (\<lambda>t. t\<lparr>ct_tvl := None\<rparr>) (write_back w (tag_flows inflow outflow)) =
        map (\<lambda>t. t\<lparr>ct_flow := Some 1, ct_tvl := None\<rparr>) inflow @
        map (\<lambda>t. t\<lparr>ct_flow := Some (-1), ct_tvl := None\<rparr>) outflow"
    by (simp add: write_back_frame tag_flows_def)
  show ?thesis
    using arg_cong [OF f, of "take (length inflow)"] arg_cong [OF f, of "drop (length inflow)"]
    by (simp add: w take_map drop_map)
qed

lemma eth_snapshot_has_eth:
  "eth_snapshot p address cb ts = Inr eth \<Longrightarrow> has_eth_transfer ts \<Longrightarrow>
   \<exists>h v. pv_getBalance p address cb = Some h \<and> bigint_hex_to_number h 18 = Inr v \<and> eth = Some v"
  by (cases "pv_getBalance p address cb") (auto simp: eth_snapshot_def)

lemma snapshot_eth [simp]:
  "snapshot_by_address scaled (Some v) ''ETH'' = Some (Num v)"
  "snapshot_by_symbol scaled (Some v) ''ETH'' = Some v"
  by (simp_all add: snapshot_by_address_def snapshot_by_symbol_def Let_def)

lemma tvl_at_walk_position:
  assumes "q < length T"
  shows "ct_tvl (write_back (tvl_walk 0 m (walk_order T)) T ! fst (walk_order T ! q)) =
         snd (tvl_walk 0 m (walk_order T) ! q)"
proof -
  have q: "q < length (walk_order T)" using assms by simp
  have idx: "fst (walk_order T ! q) < length T"
    using walk_order_index [OF assms] by simp
  have "map_of (tvl_walk 0 m (walk_order T)) (fst (walk_order T ! q)) =
        Some (snd (tvl_walk 0 m (walk_order T) ! q))"
    using map_of_tvl_walk [OF _ q] distinct_fst_walk_order by simp
  then show ?thesis using write_back_nth [OF idx] by simp
qed

section \<open>Properties of the reconstructor\<close>

text \<open>
  C1.  The running TVL the code writes on every transfer: walking the transfers most
  recent first, the first one gets its token's snapshot balance; every other one gets the
  snapshot of its token plus the signed amounts (\<open>flow * value\<close>) of all transfers of
  that token from the second visited one up to and including itself.
\<close>

theorem tvl_reconstruction:
  assumes "q < length (tag_flows inflow outflow)"
  defines "xs \<equiv> walk_order (tag_flows inflow outflow)"
  defines "k \<equiv> token_key (snd (xs ! q))"
  shows "ct_tvl (write_back (tvl_walk 0 m xs) (tag_flows inflow outflow) ! fst (xs ! q)) =
         (if q = 0 then m k else js_acc (m k) (token_delta k (take q (tl xs))))"
proof -
  have "q < length xs" using assms(1) by (simp add: xs_def)
  then show ?thesis
    using tvl_at_walk_position [OF assms(1), of m] tvl_walk_closed_form flows_tagged_walk_order
    by (simp add: xs_def k_def)
qed

theorem tvl_reconstruction_witness:
  "ct_tvl (write_back (tvl_walk 0 (\<lambda>k. if k = ''ETH'' then Some (Num 5) else None)
      (walk_order (tag_flows [ex_in] [ex_out]))) (tag_flows [ex_in] [ex_out])
      ! fst (walk_order (tag_flows [ex_in] [ex_out]) ! 1)) = Some (Num 4)"
  using tvl_reconstruction [of 1 "[ex_in]" "[ex_out]" "\<lambda>k. if k = ''ETH'' then Some (Num 5) else None"]
  by (simp add: tag_flows_def walk_order_def token_key_def flow_value_def)

text \<open>
  C3.  The snapshot anchor: when the most recent transfer is a native-coin transfer, the
  code queries the native balance at the anchor block, returns its 18-decimal scaling as
  the \<open>ETH\<close> entry of the per-symbol result, and writes exactly that value on the most
  recent transfer.
\<close>

theorem tvl_anchor_native:
  assumes res: "add_current_token_balances p inflow outflow address cb = Inr (syms, inflow', outflow')"
    and ne: "tag_flows inflow outflow \<noteq> []"
    and native: "ct_tokenAddress (snd (walk_order (tag_flows inflow outflow) ! 0)) = None"
  shows "\<exists>h v. pv_getBalance p address cb = Some h \<and> bigint_hex_to_number h 18 = Inr v \<and>
           syms ''ETH'' = Some v \<and>
           ct_tvl ((inflow' @ outflow') ! fst (walk_order (tag_flows inflow outflow) ! 0)) = Some (Num v)"
proof -
  let ?T = "tag_flows inflow outflow"
  obtain hexes scaled eth where
    eth: "eth_snapshot p address cb ?T = Inr eth" and
    syms: "syms = snapshot_by_symbol scaled eth" and
    out: "inflow' @ outflow' = write_back (tvl_walk 0 (snapshot_by_address scaled eth) (walk_order ?T)) ?T"
    using add_current_token_balances_Inr [OF res] by metis
  have q: "0 < length ?T" using ne by simp
  have "snd (walk_order ?T ! 0) \<in> set ?T"
    using walk_order_index [OF q] by (metis nth_mem)
  with native have "has_eth_transfer ?T"
    by (auto simp: has_eth_transfer_def)
  then obtain h v where h: "pv_getBalance p address cb = Some h" "bigint_hex_to_number h 18 = Inr v"
      and ev: "eth = Some v"
    using eth_snapshot_has_eth [OF eth] by blast
  have key: "token_key (snd (walk_order ?T ! 0)) = ''ETH''"
    using native by (simp add: token_key_def)
  have "ct_tvl ((inflow' @ outflow') ! fst (walk_order ?T ! 0)) = Some (Num v)"
    using tvl_at_walk_position [OF q] tvl_walk_closed_form [OF flows_tagged_walk_order] out key ev q
    by simp
  with h syms ev show ?thesis by auto
qed

theorem tvl_anchor_native_witness:
  "\<exists>h v. pv_getBalance ex_provider ''0xc'' 100 = Some h \<and> bigint_hex_to_number h 18 = Inr v \<and>
     fst (projr (add_current_token_balances ex_provider [] [ex_out] ''0xc'' 100)) ''ETH'' = Some v \<and>
     ct_tvl ((fst (snd (projr (add_current_token_balances ex_provider [] [ex_out] ''0xc'' 100))) @
              snd (snd (projr (add_current_token_balances ex_provider [] [ex_out] ''0xc'' 100))))
             ! fst (walk_order (tag_flows [] [ex_out]) ! 0)) = Some (Num v)"
proof -
  let ?r = "add_current_token_balances ex_provider [] [ex_out] ''0xc'' 100"
  have "\<exists>x. ?r = Inr x"
    by (simp add: add_current_token_balances_def tag_flows_def all_token_addresses_def
        uniq_by_def erc20_address_def fetch_token_balances_def eth_snapshot_def
        has_eth_transfer_def bigint_hex_to_number_def parse_hex_def hex_digit_val_def Let_def)
  then have r: "?r = Inr (fst (projr ?r), fst (snd (projr ?r)), snd (snd (projr ?r)))"
    by auto
  have "tag_flows [] [ex_out] \<noteq> []" by (simp add: tag_flows_def)
  moreover have "ct_tokenAddress (snd (walk_order (tag_flows [] [ex_out]) ! 0)) = None"
    by (simp add: tag_flows_def walk_order_def)
  ultimately show ?thesis
    using tvl_anchor_native [OF r] by blast
qed

text \<open>
  C2.  The walk visits the transfers most recent first: \<open>_.sortBy('timestamp')\<close>
  followed by \<open>reverse()\<close> is a permutation of the transfers, ordered by non-increasing
  timestamp, and transfers with equal timestamps are visited in the reverse of their
  order in the concatenated inflow/outflow list (the sort is stable, the reverse turns
  it around).
\<close>

theorem walk_order_most_recent_first:
  "mset (walk_order ts) = mset (enumerate 0 ts) \<and>
   sorted (rev (map (\<lambda>x. ct_timestamp (snd x)) (walk_order ts))) \<and>
   (\<forall>s. map fst (filter (\<lambda>x. ct_timestamp (snd x) = s) (walk_order ts)) =
        rev (map fst (filter (\<lambda>x. ct_timestamp (snd x) = s) (enumerate 0 ts))))"
proof (intro conjI allI)
  show "mset (walk_order ts) = mset (enumerate 0 ts)" by (simp add: walk_order_def)
  show "sorted (rev (map (\<lambda>x. ct_timestamp (snd x)) (walk_order ts)))"
    by (simp add: walk_order_def rev_map [symmetric])
  fix s
  show "map fst (filter (\<lambda>x. ct_timestamp (snd x) = s) (walk_order ts)) =
        rev (map fst (filter (\<lambda>x. ct_timestamp (snd x) = s) (enumerate 0 ts)))"
    using sort_key_stable [of "\<lambda>x. ct_timestamp (snd x)" s "enumerate 0 ts"]
    by (simp add: walk_order_def rev_filter [symmetric] rev_map)
qed

text \<open>
  The walk is not the ledger of spec section 4.3.  With a 5 ETH snapshot, a more
  recent inbound 2 ETH and an earlier outbound 1 ETH, the code writes 4 on the outbound
  transfer (5 plus its own signed amount -1), where the balance right after it was 3
  (5 minus the later inbound 2).
\<close>

theorem tvl_walk_diverges_from_ledger:
  "ct_tvl (write_back (tvl_walk 0 (\<lambda>k. if k = ''ETH'' then Some (Num 5) else None)
       (walk_order (tag_flows [ex_in] [ex_out]))) (tag_flows [ex_in] [ex_out]) ! 1) = Some (Num 4)
   \<and> spec_running_tvl (\<lambda>_. 5) (walk_order (tag_flows [ex_in] [ex_out])) 1 = 3"
  by (simp add: tag_flows_def walk_order_def write_back_def token_key_def
      spec_running_tvl_def flow_value_def Let_def)

end
