(* ===== verification/Registry.thy ===== *)
theory Registry
  imports Prelude JsStrings
begin

text \<open>
  The monitored-contract registry (src/plugins/db/monitored-contracts.ts).  The Redis JSON
  store is an association list from keys \<open>monitoredContract:<address>\<close> to documents;
  its order is the order in which the search index returns documents, and \<open>json.set\<close>
  overwrites a key in place or adds it at the end (\<open>AList.update\<close>).  A document is a
  JSON object whose fields may be absent, so every field is an option: the TypeScript type
  \<open>MonitoredContract\<close> promises \<open>userIds\<close>, \<open>createdAt\<close>, \<open>updatedAt\<close> and
  \<open>lastTvlSync\<close>, and \<open>mc_wf\<close> says a document keeps that promise.  Timestamps are the ISO
  strings \<open>new Date().toISOString()\<close> returns; \<open>now\<close> is the one read by the call.
\<close>

section \<open>Documents and the store\<close>

record mc_doc =
  mc_userIds :: "string list option"
  mc_createdAt :: "string option"
  mc_updatedAt :: "string option"
  mc_alchemyWebhookId :: "string option"
  mc_lastTvlSync :: "string option"

type_synonym mc_store = "(string \<times> mc_doc) list"

definition mc_key :: "string \<Rightarrow> string" where
  "mc_key contractAddress = ''monitoredContract:'' @ contractAddress"

text \<open>\<open>addMonitoredContract\<close> (lines 17-51).  \<open>existingContract.userIds.includes\<close> throws
  when the stored document has no \<open>userIds\<close>.\<close>

definition add_monitored_contract ::
  "mc_store \<Rightarrow> string \<Rightarrow> string \<Rightarrow> string option \<Rightarrow> string \<Rightarrow> mc_store result" where
  "add_monitored_contract db contractAddress userId alchemyWebhookId now =
     (let key = mc_key contractAddress in
      case map_of db key of
        Some existing \<Rightarrow>
          (case mc_userIds existing of
             None \<Rightarrow> Inl (MissingField ''userIds'')
           | Some users \<Rightarrow>
               let newUser = (userId \<notin> set users);
                   users' = (if newUser then users @ [userId] else users);
                   hasChange = (newUser \<or> js_truthy alchemyWebhookId);
                   wh' = (if js_truthy alchemyWebhookId then alchemyWebhookId
                          else mc_alchemyWebhookId existing)
               in if hasChange
                  then Inr (AList.update key
                         (existing\<lparr>mc_userIds := Some users', mc_alchemyWebhookId := wh',
                                   mc_updatedAt := Some now\<rparr>) db)
                  else Inr db)
      | None \<Rightarrow>
          Inr (AList.update key
                 \<lparr>mc_userIds = Some [userId], mc_createdAt = Some now, mc_updatedAt = Some now,
                  mc_alchemyWebhookId = (if js_truthy alchemyWebhookId then alchemyWebhookId else None),
                  mc_lastTvlSync = Some now\<rparr> db))"

text \<open>\<open>updateMonitoredContract\<close> (lines 53-67): \<open>{...existing, ...update, updatedAt}\<close>,
  where spreading \<open>null\<close> adds nothing.  A field absent from the update is \<open>None\<close>.\<close>

definition empty_doc :: mc_doc where
  "empty_doc = \<lparr>mc_userIds = None, mc_createdAt = None, mc_updatedAt = None,
                mc_alchemyWebhookId = None, mc_lastTvlSync = None\<rparr>"

definition spread :: "'a option \<Rightarrow> 'a option \<Rightarrow> 'a option" where
  "spread old new = (case new of None \<Rightarrow> old | Some v \<Rightarrow> Some v)"

definition merge_doc :: "mc_doc \<Rightarrow> mc_doc \<Rightarrow> mc_doc" where
  "merge_doc d u =
     \<lparr>mc_userIds = spread (mc_userIds d) (mc_userIds u),
      mc_createdAt = spread (mc_createdAt d) (mc_createdAt u),
      mc_updatedAt = spread (mc_updatedAt d) (mc_updatedAt u),
      mc_alchemyWebhookId = spread (mc_alchemyWebhookId d) (mc_alchemyWebhookId u),
      mc_lastTvlSync = spread (mc_lastTvlSync d) (mc_lastTvlSync u)\<rparr>"

definition update_monitored_contract :: "mc_store \<Rightarrow> string \<Rightarrow> mc_doc \<Rightarrow> string \<Rightarrow> mc_store" where
  "update_monitored_contract db contractAddress upd now =
     (let key = mc_key contractAddress;
          existing = (case map_of db key of None \<Rightarrow> empty_doc | Some d \<Rightarrow> d)
      in AList.update key ((merge_doc existing upd)\<lparr>mc_updatedAt := Some now\<rparr>) db)"

text \<open>\<open>getMonitoredContractByAlchemyWebhookId\<close> (lines 69-86): the first indexed document
  whose \<open>alchemyWebhookId\<close> tag is the id, with \<open>contractAddress\<close> the last
  \<open>:\<close>-separated piece of its key.\<close>

definition get_by_webhook_id :: "mc_store \<Rightarrow> string \<Rightarrow> (string \<times> mc_doc) option" where
  "get_by_webhook_id db webhookId =
     (case filter (\<lambda>(k, d). mc_alchemyWebhookId d = Some webhookId) db of
        [] \<Rightarrow> None
      | (k, d) # _ \<Rightarrow> Some (last (js_split '':'' k), d))"

text \<open>The promise of the TypeScript type, and a store of such documents with unique keys.\<close>

definition mc_wf :: "mc_doc \<Rightarrow> bool" where
  "mc_wf d \<longleftrightarrow> (\<exists>us. mc_userIds d = Some us \<and> us \<noteq> [] \<and> distinct us) \<and>
               mc_createdAt d \<noteq> None \<and> mc_updatedAt d \<noteq> None \<and> mc_lastTvlSync d \<noteq> None"

definition store_wf :: "mc_store \<Rightarrow> bool" where
  "store_wf db \<longleftrightarrow> distinct (map fst db) \<and> (\<forall>(k, d) \<in> set db. mc_wf d)"

section \<open>Example data\<close>

text \<open>A store holding one contract \<open>0xc\<close> watched by \<open>u1\<close> and bound to webhook \<open>wh1\<close>.\<close>

abbreviation ex_doc :: mc_doc where
  "ex_doc \<equiv> \<lparr>mc_userIds = Some [''u1''], mc_createdAt = Some ''t0'', mc_updatedAt = Some ''t0'',
      mc_alchemyWebhookId = Some ''wh1'', mc_lastTvlSync = Some ''t0''\<rparr>"

abbreviation ex_db :: mc_store where
  "ex_db \<equiv> [(mc_key ''0xc'', ex_doc)]"

section \<open>Lemmas\<close>

lemma distinct_update [simp]: "distinct (map fst (AList.update k v db)) = distinct (map fst db)"
  by (induction db) (auto simp: dom_update)

lemma set_update_wf:
  "(\<forall>(k', d) \<in> set db. mc_wf d) \<Longrightarrow> mc_wf v \<Longrightarrow> (k', d) \<in> set (AList.update k v db) \<Longrightarrow> mc_wf d"
  by (induction db) (auto split: if_splits)

lemma store_wf_update [intro]: "store_wf db \<Longrightarrow> mc_wf v \<Longrightarrow> store_wf (AList.update k v db)"
  unfolding store_wf_def using set_update_wf by fastforce

lemma store_wf_lookup: "store_wf db \<Longrightarrow> map_of db k = Some d \<Longrightarrow> mc_wf d"
  by (auto simp: store_wf_def dest: map_of_SomeD)

lemma mc_key_last: "CHR '':'' \<notin> set a \<Longrightarrow> last (js_split '':'' (mc_key a)) = a"
proof -
  assume a: "CHR '':'' \<notin> set a"
  have "mc_key a = ''monitoredContract'' @ CHR '':'' # a" by (simp add: mc_key_def)
  then show ?thesis using js_split_single_sep [of "CHR '':''" "''monitoredContract''" a] a by simp
qed


lemma filter_unique_key:
  "distinct (map fst xs) \<Longrightarrow> (\<forall>x \<in> set xs. P x \<longrightarrow> fst x = k) \<Longrightarrow> (k, v) \<in> set xs \<Longrightarrow> P (k, v) \<Longrightarrow>
   filter P xs = [(k, v)]"
proof (induction xs)
  case Nil
  then show ?case by simp
next
  case (Cons x xs)
  show ?case
  proof (cases "x = (k, v)")
    case True
    with Cons.prems(1) have "\<forall>y \<in> set xs. fst y \<noteq> k" by auto
    with Cons.prems(2) have "filter P xs = []" by (auto simp: filter_empty_conv)
    with True Cons.prems(4) show ?thesis by simp
  next
    case False
    with Cons.prems(3) have kv: "(k, v) \<in> set xs" by simp
    with Cons.prems(1) have "fst x \<noteq> k" by (auto simp: image_iff)
    with Cons.prems(2) have "\<not> P x" by auto
    with Cons kv show ?thesis by simp
  qed
qed

lemma add_monitored_contract_existing:
  assumes "map_of db (mc_key a) = Some d" and "mc_userIds d = Some us"
  shows "add_monitored_contract db a u wh now =
     (if u \<notin> set us \<or> js_truthy wh
      then Inr (AList.update (mc_key a)
              (d\<lparr>mc_userIds := Some (if u \<notin> set us then us @ [u] else us),
                  mc_alchemyWebhookId := (if js_truthy wh then wh else mc_alchemyWebhookId d),
                  mc_updatedAt := Some now\<rparr>) db)
      else Inr db)"
  using assms by (simp add: add_monitored_contract_def Let_def)

lemma add_monitored_contract_new:
  assumes "map_of db (mc_key a) = None"
  shows "add_monitored_contract db a u wh now =
     Inr (AList.update (mc_key a)
       \<lparr>mc_userIds = Some [u], mc_createdAt = Some now, mc_updatedAt = Some now,
        mc_alchemyWebhookId = (if js_truthy wh then wh else None), mc_lastTvlSync = Some now\<rparr> db)"
  using assms by (simp add: add_monitored_contract_def Let_def)

text \<open>A registration with a (truthy) webhook id writes one document, under the contract's
  key, bound to that id and listing the user.\<close>

lemma add_monitored_contract_binds:
  assumes "store_wf db" and "add_monitored_contract db a u (Some w) now = Inr db'" and "w \<noteq> []"
  obtains v where "db' = AList.update (mc_key a) v db" "mc_alchemyWebhookId v = Some w"
    "\<exists>us. mc_userIds v = Some us \<and> u \<in> set us"
proof (cases "map_of db (mc_key a)")
  case None
  let ?v = "\<lparr>mc_userIds = Some [u], mc_createdAt = Some now, mc_updatedAt = Some now,
             mc_alchemyWebhookId = Some w, mc_lastTvlSync = Some now\<rparr>"
  have "db' = AList.update (mc_key a) ?v db"
    using assms(2,3) None by (simp add: add_monitored_contract_new js_truthy_def)
  then show ?thesis by (rule that) simp_all
next
  case (Some d)
  with assms(1) obtain us where "mc_userIds d = Some us"
    using store_wf_lookup by (fastforce simp: mc_wf_def)
  then show ?thesis using assms(2,3) Some that
    by (auto simp: add_monitored_contract_existing js_truthy_def split: if_splits)
qed

lemma lookup_after_register:
  assumes "store_wf db"
    and "add_monitored_contract db a u (Some w) now = Inr db'"
    and "\<forall>(k, d) \<in> set db. mc_alchemyWebhookId d = Some w \<longrightarrow> k = mc_key a"
    and "CHR '':'' \<notin> set a" and "w \<noteq> []"
  shows "\<exists>d. get_by_webhook_id db' w = Some (a, d) \<and> mc_alchemyWebhookId d = Some w \<and>
           (\<exists>us. mc_userIds d = Some us \<and> u \<in> set us)"
proof -
  obtain v where db': "db' = AList.update (mc_key a) v db"
    and v: "mc_alchemyWebhookId v = Some w" "\<exists>us. mc_userIds v = Some us \<and> u \<in> set us"
    using add_monitored_contract_binds [OF assms(1,2,5)] by blast
  have dist: "distinct (map fst db')"
    using assms(1) db' by (simp add: store_wf_def)
  have mem: "(mc_key a, v) \<in> set db'"
    using db' map_of_SomeD [of db' "mc_key a" v] by (simp add: update_conv')
  have only: "\<forall>x \<in> set db'. mc_alchemyWebhookId (snd x) = Some w \<longrightarrow> fst x = mc_key a"
  proof
    fix x assume "x \<in> set db'"
    then have "x \<in> set db \<or> fst x = mc_key a"
      using db' set_update_sub [of "mc_key a" v db] by auto
    then show "mc_alchemyWebhookId (snd x) = Some w \<longrightarrow> fst x = mc_key a"
      using assms(3) by auto
  qed
  have "filter (\<lambda>(k, d). mc_alchemyWebhookId d = Some w) db' = [(mc_key a, v)]"
    using filter_unique_key [OF dist _ mem, of "\<lambda>(k, d). mc_alchemyWebhookId d = Some w"] only v(1)
    by (auto simp: case_prod_beta)
  then show ?thesis
    using v mc_key_last [OF assms(4)] by (simp add: get_by_webhook_id_def)
qed

section \<open>Properties\<close>

text \<open>
  Registry invariant: on a store whose documents all have non-empty duplicate-free \<open>userIds\<close> and their timestamps, \<open>addMonitoredContract\<close> never throws and keeps the store so.
\<close>

theorem add_monitored_contract_wf:
  assumes "store_wf db"
  shows "\<exists>db'. add_monitored_contract db a u wh now = Inr db' \<and> store_wf db'"
proof (cases "map_of db (mc_key a)")
  case None
  then show ?thesis
    using assms by (auto simp: add_monitored_contract_new mc_wf_def)
next
  case (Some d)
  with assms obtain us where us: "mc_userIds d = Some us" "us \<noteq> []" "distinct us"
    and wf: "mc_wf d"
    using store_wf_lookup by (fastforce simp: mc_wf_def)
  then show ?thesis
    using assms Some by (auto simp: add_monitored_contract_existing mc_wf_def)
qed


theorem add_monitored_contract_wf_witness:
  "store_wf ex_db \<and> (\<exists>db'. add_monitored_contract ex_db ''0xc'' ''u2'' (Some ''wh1'') ''t1'' = Inr db' \<and> store_wf db')"
proof -
  have h: "store_wf ex_db" by (simp add: store_wf_def mc_wf_def)
  show ?thesis using h add_monitored_contract_wf [OF h] by blast
qed

text \<open>
  \<open>userIds\<close> is append-only: re-registering a known contract keeps its users in order, adds the caller at the end if absent, and keeps \<open>createdAt\<close> and \<open>lastTvlSync\<close>.
\<close>

theorem add_monitored_contract_users_grow:
  assumes "add_monitored_contract db a u wh now = Inr db'"
    and "map_of db (mc_key a) = Some d" and "mc_userIds d = Some us"
  shows "\<exists>d' us'. map_of db' (mc_key a) = Some d' \<and> mc_userIds d' = Some us' \<and>
           (\<exists>ys. us' = us @ ys) \<and> u \<in> set us' \<and> mc_createdAt d' = mc_createdAt d \<and>
           mc_lastTvlSync d' = mc_lastTvlSync d"
  using assms by (auto simp: add_monitored_contract_existing update_conv' split: if_splits)


theorem add_monitored_contract_users_grow_witness:
  "\<exists>d' us'. map_of [(mc_key ''0xc'', ex_doc\<lparr>mc_userIds := Some [''u1'', ''u2''], mc_updatedAt := Some ''t1''\<rparr>)]
        (mc_key ''0xc'') = Some d' \<and> mc_userIds d' = Some us' \<and>
     (\<exists>ys. us' = [''u1''] @ ys) \<and> ''u2'' \<in> set us' \<and> mc_createdAt d' = Some ''t0'' \<and>
     mc_lastTvlSync d' = Some ''t0''"
proof -
  have r: "add_monitored_contract ex_db ''0xc'' ''u2'' None ''t1'' =
      Inr [(mc_key ''0xc'', ex_doc\<lparr>mc_userIds := Some [''u1'', ''u2''], mc_updatedAt := Some ''t1''\<rparr>)]"
    by (simp add: add_monitored_contract_existing)
  show ?thesis using add_monitored_contract_users_grow [OF r, of ex_doc "[''u1'']"] by simp
qed

text \<open>
  Idempotent registration: registering a user already watching the contract, without a webhook id, leaves the store unchanged.
\<close>

theorem add_monitored_contract_noop:
  assumes "map_of db (mc_key a) = Some d" and "mc_userIds d = Some us" and "u \<in> set us"
  shows "add_monitored_contract db a u None now = Inr db"
  using assms by (simp add: add_monitored_contract_existing)


theorem add_monitored_contract_noop_witness:
  "add_monitored_contract ex_db ''0xc'' ''u1'' None ''t1'' = Inr ex_db"
  using add_monitored_contract_noop [of ex_db "''0xc''" ex_doc "[''u1'']" "''u1''" "''t1''"] by simp

text \<open>
  Re-registering a known user with the webhook id the contract already has is not a no-op: the code counts any given webhook id as a change and bumps \<open>updatedAt\<close> (spec section 4.4 says no timestamp bump when nothing changes).
\<close>

theorem add_monitored_contract_rebind_bumps:
  assumes "map_of db (mc_key a) = Some d" and "mc_userIds d = Some us" and "u \<in> set us"
    and "mc_alchemyWebhookId d = Some w" and "w \<noteq> []"
  shows "\<exists>db'. add_monitored_contract db a u (Some w) now = Inr db' \<and>
           map_of db' (mc_key a) = Some (d\<lparr>mc_updatedAt := Some now\<rparr>)"
proof -
  obtain c cs where "w = c # cs" using assms(5) by (cases w) auto
  then show ?thesis
    using assms by (simp add: add_monitored_contract_existing update_conv')
qed


theorem add_monitored_contract_rebind_bumps_witness:
  "\<exists>db'. add_monitored_contract ex_db ''0xc'' ''u1'' (Some ''wh1'') ''t1'' = Inr db' \<and>
     map_of db' (mc_key ''0xc'') = Some (ex_doc\<lparr>mc_updatedAt := Some ''t1''\<rparr>)"
  using add_monitored_contract_rebind_bumps [of ex_db "''0xc''" ex_doc "[''u1'']" "''u1''" "''wh1''" "''t1''"]
  by simp

text \<open>
  C31.  After a registration with webhook id \<open>w\<close> lands, and no other contract is bound to \<open>w\<close>, \<open>getMonitoredContractByAlchemyWebhookId w\<close> returns this contract, its address recovered from the key, with the caller among its users.
\<close>

theorem webhook_lookup_after_register:
  assumes "store_wf db"
    and "add_monitored_contract db a u (Some w) now = Inr db'"
    and "\<forall>(k, d) \<in> set db. mc_alchemyWebhookId d = Some w \<longrightarrow> k = mc_key a"
    and "CHR '':'' \<notin> set a" and "w \<noteq> []"
  shows "\<exists>d. get_by_webhook_id db' w = Some (a, d) \<and> mc_alchemyWebhookId d = Some w \<and>
           (\<exists>us. mc_userIds d = Some us \<and> u \<in> set us)"
  using lookup_after_register [OF assms] .

theorem webhook_lookup_after_register_witness:
  "\<exists>d. get_by_webhook_id (AList.update (mc_key ''0xc'') \<lparr>mc_userIds = Some [''u1''], mc_createdAt = Some ''t1'',
        mc_updatedAt = Some ''t1'', mc_alchemyWebhookId = Some ''wh1'', mc_lastTvlSync = Some ''t1''\<rparr> [])
        ''wh1'' = Some (''0xc'', d) \<and> mc_alchemyWebhookId d = Some ''wh1'' \<and>
      (\<exists>us. mc_userIds d = Some us \<and> ''u1'' \<in> set us)"
proof -
  have r: "add_monitored_contract [] ''0xc'' ''u1'' (Some ''wh1'') ''t1'' =
      Inr (AList.update (mc_key ''0xc'') \<lparr>mc_userIds = Some [''u1''], mc_createdAt = Some ''t1'',
        mc_updatedAt = Some ''t1'', mc_alchemyWebhookId = Some ''wh1'', mc_lastTvlSync = Some ''t1''\<rparr> [])"
    by (simp add: add_monitored_contract_new)
  show ?thesis
    using webhook_lookup_after_register [OF _ r] by (simp add: store_wf_def)
qed

text \<open>
  \<open>updateMonitoredContract\<close> on a contract that is not stored writes a document without \<open>userIds\<close> or \<open>createdAt\<close>, breaking the shape the type \<open>MonitoredContract\<close> promises (and a later \<open>addMonitoredContract\<close> on it throws).
\<close>

theorem update_missing_contract_breaks_wf:
  "store_wf [] \<and>
   \<not> store_wf (update_monitored_contract [] ''0xc'' (empty_doc\<lparr>mc_lastTvlSync := Some ''t1''\<rparr>) ''t2'')"
  by (simp add: store_wf_def update_monitored_contract_def merge_doc_def empty_doc_def spread_def mc_wf_def)

end
