(* ===== verification/Webhook.thy ===== *)
theory Webhook
  imports Provider Registry
begin

text \<open>
  The webhook ingestion pipeline, the handler of \<open>POST /address-activity\<close>
  (src/routes/alchemy/index.ts, lines 71-176).  It drops zero-value entries, resolves the
  webhook id to a monitored contract with one retry after 100 ms, normalises each entry
  into a \<open>CleanTransfers\<close> record and hands the batch to
  \<open>addAssetTransfersWithLastTvl\<close>.  The registry is read twice, so the handler takes
  the store as the first read sees it and as the retry sees it; any registration that
  lands in between is the difference.  \<open>createdAt\<close> is taken already parsed to
  milliseconds.  \<open>addAssetTransfersWithLastTvl\<close> lives outside src/
  (plugins/db/asset-transfers); \<open>persist_transfers\<close> models it from spec sections 3 and
  4.5: per contract, a map from \<open>uniqueId\<close> to the record, a replayed id overwriting.
\<close>

section \<open>The request body\<close>

record activity_log =
  lg_logIndex :: string

record raw_contract =
  rc_value :: "string option"
  rc_address :: "string option"
  rc_decimal :: "string option"

record activity =
  ac_fromAddress :: string
  ac_toAddress :: string
  ac_blockNum :: string
  ac_hash :: string
  ac_value :: rat
  ac_asset :: string
  ac_category :: string
  ac_typeTraceAddress :: "string option"
  ac_rawContract :: raw_contract
  ac_log :: "activity_log option"

record address_activity_update =
  au_webhookId :: string
  au_createdAt :: int
  au_activity :: "activity list"

section \<open>Normalisation\<close>

text \<open>\<open>getUniqueId\<close> (lines 105-116).  The token branch's template literal is
  \<open>`:log:' + ${\<dots>}`\<close>: the quote, the plus sign and the spaces are part of the id.
  A \<open>log\<close> or \<open>typeTraceAddress\<close> that is absent makes the access throw.\<close>

definition log_infix :: string where
  "log_infix = '':log:'' @ [CHR 0x27] @ '' + ''"

definition get_unique_id :: "activity \<Rightarrow> string result" where
  "get_unique_id t =
     (if ac_category t = ''token'' then
        (case ac_log t of
           None \<Rightarrow> Inl (MissingField ''log'')
         | Some l \<Rightarrow> (case parse_hex (lg_logIndex l) of
                       None \<Rightarrow> Inl (InvalidHex (lg_logIndex l))
                     | Some n \<Rightarrow> Inr (ac_hash t @ log_infix @ dec_string n)))
      else if ac_category t = ''internal'' then
        (case ac_typeTraceAddress t of
           None \<Rightarrow> Inl (MissingField ''typeTraceAddress'')
         | Some s \<Rightarrow> Inr (ac_hash t @ '':internal:'' @ js_show (js_index (js_split ''call_'' s) 1)))
      else if ac_category t = ''external'' then Inr (ac_hash t @ '':external'')
      else Inr (ac_hash t))"

text \<open>One entry of \<open>cleanTransfers\<close> (lines 118-143), fields in the literal's order.\<close>

definition clean_activity :: "string \<Rightarrow> int \<Rightarrow> activity \<Rightarrow> clean_transfer result" where
  "clean_activity contractAddress timestamp t =
     (case parse_hex (ac_blockNum t) of
        None \<Rightarrow> Inl (InvalidHex (ac_blockNum t))
      | Some bn \<Rightarrow> bind_r (get_unique_id t) (\<lambda>uid. Inr
          \<lparr>ct_from = ac_fromAddress t, ct_to = ac_toAddress t, ct_value = ac_value t,
           ct_asset = Some (ac_asset t),
           ct_category = (if ac_category t = ''token'' then ERC20 else EXTERNAL),
           ct_timestamp = timestamp,
           ct_tokenAddress = Some (js_or (rc_address (ac_rawContract t)) []),
           ct_tvl = None,
           ct_flow = Some (if ac_fromAddress t = contractAddress then -1 else 1),
           ct_blockNum = bn, ct_uniqueId = uid, ct_hash = ac_hash t\<rparr>))"

section \<open>Resolution and persistence\<close>

text \<open>Lines 82-101: look the webhook up, and on a miss look again after 100 ms.\<close>

definition resolve_webhook :: "mc_store \<Rightarrow> mc_store \<Rightarrow> string \<Rightarrow> (string \<times> mc_doc) result" where
  "resolve_webhook db1 db2 webhookId =
     (case get_by_webhook_id db1 webhookId of
        Some c \<Rightarrow> Inr c
      | None \<Rightarrow> (case get_by_webhook_id db2 webhookId of
                  Some c \<Rightarrow> Inr c
                | None \<Rightarrow> Inl UnmatchedWebhook))"

type_synonym asset_store = "string \<Rightarrow> string \<rightharpoonup> clean_transfer"

definition persist_transfers :: "asset_store \<Rightarrow> string \<Rightarrow> clean_transfer list \<Rightarrow> asset_store" where
  "persist_transfers st contractAddress ts =
     st(contractAddress := fold (\<lambda>t m. m(ct_uniqueId t \<mapsto> t)) ts (st contractAddress))"

text \<open>The handler: the asset store after the request, or the error it throws.  The
  response \<open>ok\<close> is sent exactly when the result is \<open>Inr\<close>.\<close>

definition address_activity ::
  "mc_store \<Rightarrow> mc_store \<Rightarrow> asset_store \<Rightarrow> address_activity_update \<Rightarrow> asset_store result" where
  "address_activity db1 db2 st data =
     (let nonZeroTransfers = filter (\<lambda>e. ac_value e \<noteq> 0) (au_activity data)
      in if nonZeroTransfers = [] then Inr st
         else bind_r (resolve_webhook db1 db2 (au_webhookId data)) (\<lambda>(contractAddress, c).
                bind_r (map_r (clean_activity contractAddress (au_createdAt data)) nonZeroTransfers)
                  (\<lambda>cleanTransfers. Inr (persist_transfers st contractAddress cleanTransfers))))"

section \<open>Example data\<close>

text \<open>A plain ETH transfer of 1 into \<open>0xc\<close>, the webhook delivery carrying it, and two
  ERC-721 entries of one transaction that differ only in their log index.\<close>

abbreviation ex_act :: activity where
  "ex_act \<equiv> \<lparr>ac_fromAddress = ''0xa'', ac_toAddress = ''0xc'', ac_blockNum = ''0x62'',
      ac_hash = ''0xh'', ac_value = 1, ac_asset = ''ETH'', ac_category = ''external'',
      ac_typeTraceAddress = None,
      ac_rawContract = \<lparr>rc_value = None, rc_address = None, rc_decimal = None\<rparr>, ac_log = None\<rparr>"

abbreviation ex_update :: "activity list \<Rightarrow> address_activity_update" where
  "ex_update acts \<equiv> \<lparr>au_webhookId = ''wh1'', au_createdAt = 5000, au_activity = acts\<rparr>"

abbreviation ex_nft :: "string \<Rightarrow> activity" where
  "ex_nft idx \<equiv> ex_act\<lparr>ac_category := ''erc721'', ac_log := Some \<lparr>lg_logIndex = idx\<rparr>\<rparr>"

text \<open>A token entry with a given log index and value.\<close>

abbreviation ex_tok :: "string \<Rightarrow> rat \<Rightarrow> activity" where
  "ex_tok idx v \<equiv> ex_act\<lparr>ac_category := ''token'', ac_value := v, ac_log := Some \<lparr>lg_logIndex = idx\<rparr>\<rparr>"

section \<open>Lemmas\<close>

lemma get_by_webhook_id_None:
  "get_by_webhook_id db w = None \<Longrightarrow> \<forall>(k, d) \<in> set db. mc_alchemyWebhookId d = Some w \<longrightarrow> k = mc_key a"
  by (auto simp: get_by_webhook_id_def filter_empty_conv split: list.splits prod.splits)

lemma log_infix_ne: "log_infix \<noteq> '':internal:'' @ s" "log_infix \<noteq> '':external''"
  "'':internal:'' @ s \<noteq> '':external''"
  by (simp_all add: log_infix_def)

lemma unique_id_split:
  assumes "get_unique_id t = Inr x"
  shows "(ac_category t = ''token'' \<longrightarrow> (\<exists>l n. ac_log t = Some l \<and> parse_hex (lg_logIndex l) = Some n \<and>
             x = ac_hash t @ log_infix @ dec_string n)) \<and>
         (ac_category t = ''internal'' \<longrightarrow> (\<exists>tr. ac_typeTraceAddress t = Some tr \<and>
             x = ac_hash t @ '':internal:'' @ js_show (js_index (js_split ''call_'' tr) 1))) \<and>
         (ac_category t = ''external'' \<longrightarrow> x = ac_hash t @ '':external'')"
  using assms by (auto simp: get_unique_id_def split: option.splits if_splits)

section \<open>Properties\<close>

text \<open>
  C4.  Registration race, resolved: if the first lookup of a fresh webhook id misses and the registration write (\<open>addMonitoredContract\<close> with that id) lands before the retry, resolution succeeds with the registered contract, whose users include the registering user.
\<close>

theorem webhook_race_resolved:
  assumes "store_wf db1" and "get_by_webhook_id db1 w = None"
    and "add_monitored_contract db1 a u (Some w) now = Inr db2"
    and "CHR '':'' \<notin> set a" and "w \<noteq> []"
  shows "\<exists>d. resolve_webhook db1 db2 w = Inr (a, d) \<and> (\<exists>us. mc_userIds d = Some us \<and> u \<in> set us)"
  using lookup_after_register [OF assms(1,3) get_by_webhook_id_None [OF assms(2)] assms(4,5)] assms(2)
  by (auto simp: resolve_webhook_def)

theorem webhook_race_resolved_witness:
  "\<exists>d. resolve_webhook [] (AList.update (mc_key ''0xc'') \<lparr>mc_userIds = Some [''u1''],
      mc_createdAt = Some ''t1'', mc_updatedAt = Some ''t1'', mc_alchemyWebhookId = Some ''wh1'',
      mc_lastTvlSync = Some ''t1''\<rparr> []) ''wh1'' = Inr (''0xc'', d) \<and>
    (\<exists>us. mc_userIds d = Some us \<and> ''u1'' \<in> set us)"
proof -
  have r: "add_monitored_contract [] ''0xc'' ''u1'' (Some ''wh1'') ''t1'' =
      Inr (AList.update (mc_key ''0xc'') \<lparr>mc_userIds = Some [''u1''],
      mc_createdAt = Some ''t1'', mc_updatedAt = Some ''t1'', mc_alchemyWebhookId = Some ''wh1'',
      mc_lastTvlSync = Some ''t1''\<rparr> [])"
    by (simp add: add_monitored_contract_def)
  show ?thesis
    using webhook_race_resolved [OF _ _ r] by (simp add: store_wf_def get_by_webhook_id_def)
qed

text \<open>
  C5.  Registration race, unresolved: with non-zero entries, a webhook id that neither the first lookup nor the retry finds makes the handler fail with \<open>UnmatchedWebhook\<close>; nothing is persisted.
\<close>

theorem webhook_unmatched:
  assumes "filter (\<lambda>e. ac_value e \<noteq> 0) (au_activity data) \<noteq> []"
    and "get_by_webhook_id db1 (au_webhookId data) = None"
    and "get_by_webhook_id db2 (au_webhookId data) = None"
  shows "address_activity db1 db2 st data = Inl UnmatchedWebhook"
  using assms by (simp add: address_activity_def resolve_webhook_def)

theorem webhook_unmatched_witness:
  "address_activity [] [] (\<lambda>_. Map.empty) (ex_update [ex_act]) = Inl UnmatchedWebhook"
  using webhook_unmatched [of "ex_update [ex_act]" "[]" "[]" "\<lambda>_. Map.empty"]
  by (simp add: get_by_webhook_id_def)

text \<open>
  A delivery whose entries all have value zero is acknowledged without touching the registry or the stored transfers.
\<close>

theorem webhook_zero_value_ack:
  assumes "\<forall>e \<in> set (au_activity data). ac_value e = 0"
  shows "address_activity db1 db2 st data = Inr st"
  using assms by (simp add: address_activity_def filter_empty_conv)

theorem webhook_zero_value_ack_witness:
  "address_activity [] [] (\<lambda>_. Map.empty) (ex_update [ex_act\<lparr>ac_value := 0\<rparr>]) = Inr (\<lambda>_. Map.empty)"
  using webhook_zero_value_ack [of "ex_update [ex_act\<lparr>ac_value := 0\<rparr>]"] by simp

text \<open>
  C21.  Unique ids identify the logical event: for token, internal and external entries whose transaction hashes have the same length (all transaction hashes do), equal \<open>getUniqueId\<close> values mean the same hash, the same category, and the same log index (token) or the same rendered trace suffix (internal).
\<close>

theorem unique_id_injective:
  assumes a: "get_unique_id a = Inr x" and b: "get_unique_id b = Inr x"
    and len: "length (ac_hash a) = length (ac_hash b)"
    and ca: "ac_category a \<in> {''token'', ''internal'', ''external''}"
    and cb: "ac_category b \<in> {''token'', ''internal'', ''external''}"
  shows "ac_hash a = ac_hash b \<and> ac_category a = ac_category b \<and>
         (ac_category a = ''token'' \<longrightarrow>
            map_option (parse_hex \<circ> lg_logIndex) (ac_log a) = map_option (parse_hex \<circ> lg_logIndex) (ac_log b)) \<and>
         (ac_category a = ''internal'' \<longrightarrow>
            map_option (\<lambda>s. js_show (js_index (js_split ''call_'' s) 1)) (ac_typeTraceAddress a) =
            map_option (\<lambda>s. js_show (js_index (js_split ''call_'' s) 1)) (ac_typeTraceAddress b))"
proof -
  have "\<exists>sa. x = ac_hash a @ sa" and "\<exists>sb. x = ac_hash b @ sb"
    using unique_id_split [OF a] unique_id_split [OF b] ca cb by auto
  then obtain sa sb where xa: "x = ac_hash a @ sa" and xb: "x = ac_hash b @ sb" by blast
  with len have h: "ac_hash a = ac_hash b" and s: "sa = sb"
    by (auto simp: append_eq_append_conv)
  show ?thesis
    using unique_id_split [OF a] unique_id_split [OF b] ca cb xa xb h
    by (auto simp: log_infix_def)
qed

theorem unique_id_injective_witness:
  "get_unique_id (ex_tok ''0x1'' 1) = Inr (''0xh'' @ log_infix @ ''1'') \<and>
   get_unique_id (ex_tok ''0x01'' 2) = Inr (''0xh'' @ log_infix @ ''1'') \<and>
   ex_tok ''0x1'' 1 \<noteq> ex_tok ''0x01'' 2 \<and>
   ac_hash (ex_tok ''0x1'' 1) = ac_hash (ex_tok ''0x01'' 2) \<and>
   ac_category (ex_tok ''0x1'' 1) = ac_category (ex_tok ''0x01'' 2) \<and>
   map_option (parse_hex \<circ> lg_logIndex) (ac_log (ex_tok ''0x1'' 1)) =
     map_option (parse_hex \<circ> lg_logIndex) (ac_log (ex_tok ''0x01'' 2))"
proof -
  have a: "get_unique_id (ex_tok ''0x1'' 1) = Inr (''0xh'' @ log_infix @ ''1'')"
    and b: "get_unique_id (ex_tok ''0x01'' 2) = Inr (''0xh'' @ log_infix @ ''1'')"
    by (simp_all add: get_unique_id_def parse_hex_def hex_digit_val_def digit_chr_def char_of_def bit_simps)
  show ?thesis
    using unique_id_injective [OF a b] a b by simp
qed

text \<open>
  C22.  The id is not unique for the other categories: \<open>cleanTransfers\<close> gives every entry
  whose category is not \<open>token\<close>, \<open>internal\<close> or \<open>external\<close> (ERC-721, ERC-1155,
  special NFT transfers) the bare transaction hash as \<open>uniqueId\<close>.  So any two such
  entries of one transaction, whatever their log indices, token ids or values, get the same
  id, and persisting them keeps one.
\<close>

theorem unique_id_nft_collision:
  assumes "clean_activity contractAddress timestamp a = Inr ca"
    and "clean_activity contractAddress timestamp b = Inr cb"
    and "ac_hash a = ac_hash b"
    and "ac_category a \<notin> set [''token'', ''internal'', ''external'']"
    and "ac_category b \<notin> set [''token'', ''internal'', ''external'']"
  shows "ct_uniqueId ca = ac_hash a \<and> ct_uniqueId cb = ct_uniqueId ca"
  using assms by (auto simp: clean_activity_def get_unique_id_def split: option.splits)

theorem unique_id_nft_collision_witness:
  "\<exists>ca cb. clean_activity ''0xc'' 5000 (ex_nft ''0x1'') = Inr ca \<and>
     clean_activity ''0xc'' 5000 (ex_nft ''0x2'') = Inr cb \<and>
     ex_nft ''0x1'' \<noteq> ex_nft ''0x2'' \<and> ct_uniqueId ca = ''0xh'' \<and> ct_uniqueId cb = ''0xh''"
proof -
  obtain ca cb where a: "clean_activity ''0xc'' 5000 (ex_nft ''0x1'') = Inr ca"
    and b: "clean_activity ''0xc'' 5000 (ex_nft ''0x2'') = Inr cb"
    by (simp add: clean_activity_def get_unique_id_def parse_hex_def hex_digit_val_def)
  show ?thesis
    using unique_id_nft_collision [OF a b] a b by auto
qed

text \<open>
  C37.  Normalisation of a webhook entry: the flow is -1 exactly when the sender is the monitored contract, the timestamp is the delivery time, a missing token address becomes the empty string, every non-token category (internal included) is recorded as \<open>EXTERNAL\<close>, and the unique id is the one \<open>getUniqueId\<close> computes.
\<close>

theorem clean_activity_fields:
  assumes "clean_activity contractAddress timestamp e = Inr c"
  shows "ct_flow c = Some (if ac_fromAddress e = contractAddress then -1 else 1) \<and>
         ct_timestamp c = timestamp \<and>
         ct_tokenAddress c = Some (js_or (rc_address (ac_rawContract e)) []) \<and>
         ct_category c = (if ac_category e = ''token'' then ERC20 else EXTERNAL) \<and>
         get_unique_id e = Inr (ct_uniqueId c)"
  using assms by (auto simp: clean_activity_def split: option.splits)

theorem clean_activity_fields_witness:
  "\<exists>c. clean_activity ''0xc'' 5000 ex_act = Inr c \<and> ct_flow c = Some 1 \<and> ct_timestamp c = 5000 \<and>
     ct_tokenAddress c = Some [] \<and> ct_category c = EXTERNAL \<and> ct_uniqueId c = ''0xh:external''"
proof -
  let ?r = "clean_activity ''0xc'' 5000 ex_act"
  have "\<exists>c. ?r = Inr c"
    by (simp add: clean_activity_def get_unique_id_def parse_hex_def hex_digit_val_def)
  then obtain c where r: "?r = Inr c" by blast
  have "get_unique_id ex_act = Inr ''0xh:external''" by (simp add: get_unique_id_def)
  then show ?thesis using clean_activity_fields [OF r] r by auto
qed

end
