(* ===== verification/TransferEvents.thy ===== *)
theory TransferEvents
  imports BlockTiming TransferFetcher Tvl
begin

text \<open>
  The history query \<open>getTransferEvents\<close> (src/plugins/eth-data/transfer-events.ts,
  lines 266-315), which composes the other components: the anchor block
  (\<open>getCurrentBlock\<close>), both directions of the window (\<open>getInflowAndOutflow\<close>), the
  non-emptiness guard, the TVL walk (\<open>addCurrentTokenBalances\<close>) and the grouping by
  asset.  Its \<open>catch\<close> rethrows an error whose message contains
  \<open>Not enough transfers found\<close> and replaces every other one by
  \<open>An unknown error occurred.\<close>.  The function reads the clock twice: \<open>now\<close> at
  line 268 and, inside \<open>getCurrentBlock\<close>, \<open>clock\<close>.
\<close>

record transfer_events =
  te_outflow :: "clean_transfer list"
  te_inflow :: "clean_transfer list"
  te_perTokenInflow :: "string \<Rightarrow> clean_transfer list option"
  te_perTokenOutflow :: "string \<Rightarrow> clean_transfer list option"
  te_now :: int
  te_perTokenCurrentTvl :: "string \<Rightarrow> rat option"

text \<open>\<open>_.groupBy(xs, 'asset')\<close>: the key is the asset rendered as a string.\<close>

definition group_by_asset :: "clean_transfer list \<Rightarrow> string \<Rightarrow> clean_transfer list option" where
  "group_by_asset = group_by (\<lambda>t. js_show (ct_asset t))"

text \<open>The body of the \<open>try\<close> block (lines 268-306).\<close>

definition transfer_events_try ::
  "provider \<Rightarrow> string \<Rightarrow> string \<Rightarrow> int \<Rightarrow> int \<Rightarrow> transfer_events result option" where
  "transfer_events_try p address timeRange now clock =
     (case get_current_block p clock of
        Inl e \<Rightarrow> Some (Inl e)
      | Inr (_, currentBlock) \<Rightarrow>
          (case get_inflow_and_outflow p address now timeRange currentBlock of
             None \<Rightarrow> None
           | Some (Inl e) \<Rightarrow> Some (Inl e)
           | Some (Inr (outflow, inflow)) \<Rightarrow>
               if outflow = [] \<or> inflow = [] then Some (Inl (InsufficientHistory timeRange))
               else Some (bind_r (add_current_token_balances p inflow outflow address currentBlock)
                      (\<lambda>(perTokenCurrentTvl, inflow', outflow').
                         Inr \<lparr>te_outflow = outflow', te_inflow = inflow',
                              te_perTokenInflow = group_by_asset inflow',
                              te_perTokenOutflow = group_by_asset outflow',
                              te_now = now, te_perTokenCurrentTvl = perTokenCurrentTvl\<rparr>))))"

text \<open>The \<open>catch\<close> block (lines 307-314).\<close>

definition catch_transfer_events :: "error \<Rightarrow> error" where
  "catch_transfer_events err =
     (if js_includes (error_message err) ''Not enough transfers found'' then err else UnknownError)"

definition get_transfer_events ::
  "provider \<Rightarrow> string \<Rightarrow> string \<Rightarrow> int \<Rightarrow> int \<Rightarrow> transfer_events result option" where
  "get_transfer_events p address timeRange now clock =
     map_option (map_sum catch_transfer_events id) (transfer_events_try p address timeRange now clock)"

section \<open>Example data\<close>

text \<open>A provider whose latest block 100 is fresh at time 1200 s and whose transfer query
  returns no rows.\<close>

abbreviation ex_quiet :: provider where
  "ex_quiet \<equiv> \<lparr>pv_getBlock = Some \<lparr>blk_number = 100, blk_timestamp = 1200\<rparr>,
     pv_getAssetTransfers = (\<lambda>_. Some ([], None)),
     pv_getTokenBalances = (\<lambda>_ _. None), pv_getTokenMetadata = (\<lambda>_. None),
     pv_getBalance = (\<lambda>_ _. None)\<rparr>"

text \<open>A contract \<open>0xc\<close> with one outbound and one inbound ETH transfer at block 98, a
  fresh latest block 100, and a native balance of 5 ETH.\<close>

abbreviation ex_rt :: "string \<Rightarrow> string \<Rightarrow> string \<Rightarrow> raw_transfer" where
  "ex_rt f t u \<equiv> \<lparr>rt_from = f, rt_to = t, rt_value = 1, rt_asset = Some ''ETH'',
     rt_category = EXTERNAL, rt_blockNum = ''0x62'', rt_uniqueId = u, rt_hash = ''0x1'',
     rt_contract_address = None\<rparr>"

abbreviation ex_live :: provider where
  "ex_live \<equiv> \<lparr>pv_getBlock = Some \<lparr>blk_number = 100, blk_timestamp = 1200\<rparr>,
     pv_getAssetTransfers = (\<lambda>req. if ar_params req = FromAddress ''0xc''
                                  then Some ([ex_rt ''0xc'' ''0xa'' ''o''], None)
                                  else Some ([ex_rt ''0xa'' ''0xc'' ''i''], None)),
     pv_getTokenBalances = (\<lambda>_ _. None), pv_getTokenMetadata = (\<lambda>_. None),
     pv_getBalance = (\<lambda>_ _. Some ''0x4563918244f40000'')\<rparr>"

abbreviation ex_ct :: "string \<Rightarrow> string \<Rightarrow> string \<Rightarrow> clean_transfer" where
  "ex_ct f t u \<equiv> \<lparr>ct_from = f, ct_to = t, ct_value = 1, ct_asset = Some ''ETH'', ct_category = EXTERNAL,
     ct_timestamp = 1177000, ct_tokenAddress = None, ct_tvl = None, ct_flow = None, ct_blockNum = 98,
     ct_uniqueId = u, ct_hash = ''0x1''\<rparr>"

section \<open>Lemmas\<close>

lemma get_transfer_events_ends:
  assumes "\<forall>params fb cb. pages_end p params fb cb None"
  shows "\<exists>r. get_transfer_events p address timeRange now clock = Some r"
proof (cases "get_current_block p clock")
  case (Inl e)
  then show ?thesis by (simp add: get_transfer_events_def transfer_events_try_def)
next
  case (Inr wb)
  obtain r where "get_inflow_and_outflow p address now timeRange (snd wb) = Some r"
    using get_inflow_and_outflow_ends [OF assms] by blast
  with Inr show ?thesis
    by (cases wb) (simp add: get_transfer_events_def transfer_events_try_def split: sum.splits)
qed

lemma catch_insufficient [simp]:
  "catch_transfer_events (InsufficientHistory r) = InsufficientHistory r"
  using js_includes_prefix [of "''Not enough transfers found''" "'' in the last '' @ r"]
  by (simp add: catch_transfer_events_def)

lemma catch_invalid_time_range [simp]:
  "catch_transfer_events (InvalidTimeRange r) =
     (if js_includes r ''Not enough transfers found'' then InvalidTimeRange r else UnknownError)"
  using js_includes_append_fresh [of "''Not enough transfers found''" "''Invalid time range: ''" r]
  by (simp add: catch_transfer_events_def)

lemma catch_provider [simp]: "catch_transfer_events ProviderUnavailable = UnknownError"
  by (simp add: catch_transfer_events_def)

lemma get_inflow_and_outflow_invalid:
  "time_range_to_minutes timeRange = Inl e \<Longrightarrow>
   get_inflow_and_outflow p address now timeRange cb = Some (Inl e)"
  by (simp add: get_inflow_and_outflow_def get_all_asset_transfers_def)

lemma get_current_block_Some:
  "pv_getBlock p = Some b \<Longrightarrow> \<exists>w n. get_current_block p clock = Inr (w, n)"
  by (simp add: get_current_block_def Let_def)

text \<open>The example run: both directions of \<open>0xc\<close> have one transfer, so the history
  query succeeds.\<close>

lemma ex_live_history:
  "get_inflow_and_outflow ex_live ''0xc'' 1201000 ''5m'' 100 =
     Some (Inr ([ex_ct ''0xc'' ''0xa'' ''o''], [ex_ct ''0xa'' ''0xc'' ''i'']))"
proof -
  have m: "time_range_to_minutes ''5m'' = Inr 5"
    by (simp add: time_range_to_minutes_def time_ranges_def)
  have "\<And>params. get_all_asset_transfers ex_live params ''5m'' 100 =
     Some (Inr (fst (the (pv_getAssetTransfers ex_live (transfers_request params (100 - get_num_of_blocks 5) 100 None)))))"
    using get_all_asset_transfers_single_page [OF m] by (simp add: transfers_request_def)
  then show ?thesis
    by (simp add: get_inflow_and_outflow_def clean_transfers_def transfers_request_def clean_transfer_def
        parse_hex_def hex_digit_val_def)
qed

lemma ex_live_events: "\<exists>te. get_transfer_events ex_live ''0xc'' ''5m'' 1201000 1201000 = Some (Inr te)"
proof -
  have cb: "get_current_block ex_live 1201000 = Inr (None, 100)"
    by (simp add: get_current_block_def block_drift_def)
  show ?thesis
    by (simp add: get_transfer_events_def transfer_events_try_def cb ex_live_history
        add_current_token_balances_def tag_flows_def all_token_addresses_def uniq_by_def erc20_address_def
        fetch_token_balances_def eth_snapshot_def has_eth_transfer_def bigint_hex_to_number_def
        parse_hex_def hex_digit_val_def Let_def)
qed

section \<open>Properties\<close>

text \<open>
  C24.  Error masking of an unsupported window: when the latest block can be read, an
  unsupported time range comes out of \<open>getTransferEvents\<close> as
  \<open>An unknown error occurred.\<close>, not as \<open>InvalidTimeRange\<close> (spec section 7 says it is
  surfaced); only a range string that itself contains \<open>Not enough transfers found\<close>
  keeps its message.
\<close>

theorem get_transfer_events_invalid_range:
  assumes "pv_getBlock p = Some b" and "map_of time_ranges timeRange = None"
  shows "get_transfer_events p address timeRange now clock =
           Some (Inl (if js_includes timeRange ''Not enough transfers found''
                      then InvalidTimeRange timeRange else UnknownError))"
proof -
  obtain w n where cb: "get_current_block p clock = Inr (w, n)"
    using get_current_block_Some [OF assms(1)] by blast
  have "get_inflow_and_outflow p address now timeRange n = Some (Inl (InvalidTimeRange timeRange))"
    using assms(2) by (simp add: get_inflow_and_outflow_invalid time_range_to_minutes_def)
  with cb show ?thesis
    by (simp add: get_transfer_events_def transfer_events_try_def)
qed

theorem get_transfer_events_invalid_range_witness:
  "get_transfer_events ex_quiet ''0xc'' ''7m'' 1201000 1201000 = Some (Inl UnknownError)"
proof -
  have "map_of time_ranges ''7m'' = None" by (simp add: time_ranges_def)
  from get_transfer_events_invalid_range [of ex_quiet _ "''7m''", OF _ this]
  show ?thesis by simp
qed

text \<open>
  C25.  Error masking of a provider fault: when the latest block cannot be read,
  \<open>getTransferEvents\<close> throws \<open>An unknown error occurred.\<close> instead of surfacing
  \<open>ProviderUnavailable\<close>.
\<close>

theorem get_transfer_events_provider_masked:
  assumes "pv_getBlock p = None"
  shows "get_transfer_events p address timeRange now clock = Some (Inl UnknownError)"
  using assms by (simp add: get_transfer_events_def transfer_events_try_def get_current_block_def)

theorem get_transfer_events_provider_masked_witness:
  "get_transfer_events (ex_quiet\<lparr>pv_getBlock := None\<rparr>) ''0xc'' ''5m'' 0 0 = Some (Inl UnknownError)"
  using get_transfer_events_provider_masked [of "ex_quiet\<lparr>pv_getBlock := None\<rparr>"] by simp

text \<open>
  C26.  The history guard: when either direction of the window has no transfer,
  \<open>getTransferEvents\<close> throws \<open>Not enough transfers found in the last <range>\<close> and
  this error passes the \<open>catch\<close> unchanged; no balance is queried.
\<close>

theorem get_transfer_events_insufficient:
  assumes "get_current_block p clock = Inr (w, cb)"
    and "get_inflow_and_outflow p address now timeRange cb = Some (Inr (outflow, inflow))"
    and "outflow = [] \<or> inflow = []"
  shows "get_transfer_events p address timeRange now clock = Some (Inl (InsufficientHistory timeRange))"
  using assms by (auto simp: get_transfer_events_def transfer_events_try_def)

theorem get_transfer_events_insufficient_witness:
  "get_transfer_events ex_quiet ''0xc'' ''5m'' 1201000 1201000 = Some (Inl (InsufficientHistory ''5m''))"
proof -
  have cb: "get_current_block ex_quiet 1201000 = Inr (None, 100)"
    by (simp add: get_current_block_def block_drift_def)
  have m: "time_range_to_minutes ''5m'' = Inr 5"
    by (simp add: time_range_to_minutes_def time_ranges_def)
  have "\<And>params. get_all_asset_transfers ex_quiet params ''5m'' 100 = Some (Inr [])"
    using get_all_asset_transfers_single_page [OF m] by simp
  then have io: "get_inflow_and_outflow ex_quiet ''0xc'' 1201000 ''5m'' 100 = Some (Inr ([], []))"
    by (simp add: get_inflow_and_outflow_def clean_transfers_def)
  show ?thesis using get_transfer_events_insufficient [OF cb io] by simp
qed

text \<open>
  C27.  A successful history query: the anchor block and both directions were fetched,
  neither direction is empty, and the returned transfers are the fetched ones with
  \<open>flow\<close> set (+1 inflow, -1 outflow) and \<open>tvl\<close> written, grouped by asset, with the
  per-symbol snapshot and the request time.
\<close>

theorem get_transfer_events_success:
  assumes "get_transfer_events p address timeRange now clock = Some (Inr r)"
  shows "\<exists>w cb outflow inflow.
           get_current_block p clock = Inr (w, cb) \<and>
           get_inflow_and_outflow p address now timeRange cb = Some (Inr (outflow, inflow)) \<and>
           outflow \<noteq> [] \<and> inflow \<noteq> [] \<and>
           add_current_token_balances p inflow outflow address cb =
             Inr (te_perTokenCurrentTvl r, te_inflow r, te_outflow r) \<and>
           map (\<lambda>t. t\<lparr>ct_tvl := None\<rparr>) (te_inflow r) =
             map (\<lambda>t. t\<lparr>ct_flow := Some 1, ct_tvl := None\<rparr>) inflow \<and>
           map (\<lambda>t. t\<lparr>ct_tvl := None\<rparr>) (te_outflow r) =
             map (\<lambda>t. t\<lparr>ct_flow := Some (-1), ct_tvl := None\<rparr>) outflow \<and>
           te_perTokenInflow r = group_by_asset (te_inflow r) \<and>
           te_perTokenOutflow r = group_by_asset (te_outflow r) \<and> te_now r = now"
proof -
  obtain w cb where cb: "get_current_block p clock = Inr (w, cb)"
    using assms by (cases "get_current_block p clock")
      (auto simp: get_transfer_events_def transfer_events_try_def)
  obtain outflow inflow where io: "get_inflow_and_outflow p address now timeRange cb = Some (Inr (outflow, inflow))"
    using assms cb by (auto simp: get_transfer_events_def transfer_events_try_def
      split: option.splits sum.splits)
  have ne: "outflow \<noteq> []" "inflow \<noteq> []"
    using assms cb io by (auto simp: get_transfer_events_def transfer_events_try_def)
  obtain syms i' o' where ac0: "add_current_token_balances p inflow outflow address cb = Inr (syms, i', o')"
      and r: "r = \<lparr>te_outflow = o', te_inflow = i', te_perTokenInflow = group_by_asset i',
                   te_perTokenOutflow = group_by_asset o', te_now = now, te_perTokenCurrentTvl = syms\<rparr>"
    using assms cb io ne by (auto simp: get_transfer_events_def transfer_events_try_def bind_r_def
      split: sum.splits)
  have ac: "add_current_token_balances p inflow outflow address cb =
           Inr (te_perTokenCurrentTvl r, te_inflow r, te_outflow r)"
    and rest: "te_perTokenInflow r = group_by_asset (te_inflow r)"
          "te_perTokenOutflow r = group_by_asset (te_outflow r)" "te_now r = now"
    using ac0 r by simp_all
  show ?thesis
    using cb io ne ac rest add_current_token_balances_frame [OF ac] by blast
qed

theorem get_transfer_events_success_witness:
  "\<exists>w cb outflow inflow.
     get_current_block ex_live 1201000 = Inr (w, cb) \<and>
     get_inflow_and_outflow ex_live ''0xc'' 1201000 ''5m'' cb = Some (Inr (outflow, inflow)) \<and>
     outflow \<noteq> [] \<and> inflow \<noteq> [] \<and>
     add_current_token_balances ex_live inflow outflow ''0xc'' cb =
       Inr (te_perTokenCurrentTvl (projr (the (get_transfer_events ex_live ''0xc'' ''5m'' 1201000 1201000))),
            te_inflow (projr (the (get_transfer_events ex_live ''0xc'' ''5m'' 1201000 1201000))),
            te_outflow (projr (the (get_transfer_events ex_live ''0xc'' ''5m'' 1201000 1201000)))) \<and>
     map (\<lambda>t. t\<lparr>ct_tvl := None\<rparr>) (te_inflow (projr (the (get_transfer_events ex_live ''0xc'' ''5m'' 1201000 1201000)))) =
       map (\<lambda>t. t\<lparr>ct_flow := Some 1, ct_tvl := None\<rparr>) inflow \<and>
     map (\<lambda>t. t\<lparr>ct_tvl := None\<rparr>) (te_outflow (projr (the (get_transfer_events ex_live ''0xc'' ''5m'' 1201000 1201000)))) =
       map (\<lambda>t. t\<lparr>ct_flow := Some (-1), ct_tvl := None\<rparr>) outflow \<and>
     te_perTokenInflow (projr (the (get_transfer_events ex_live ''0xc'' ''5m'' 1201000 1201000))) =
       group_by_asset (te_inflow (projr (the (get_transfer_events ex_live ''0xc'' ''5m'' 1201000 1201000)))) \<and>
     te_perTokenOutflow (projr (the (get_transfer_events ex_live ''0xc'' ''5m'' 1201000 1201000))) =
       group_by_asset (te_outflow (projr (the (get_transfer_events ex_live ''0xc'' ''5m'' 1201000 1201000)))) \<and>
     te_now (projr (the (get_transfer_events ex_live ''0xc'' ''5m'' 1201000 1201000))) = 1201000"
proof -
  obtain r where r: "get_transfer_events ex_live ''0xc'' ''5m'' 1201000 1201000 = Some (Inr r)"
    using ex_live_events by blast
  show ?thesis using get_transfer_events_success [OF r] r by simp
qed

end
