(* ===== verification/RegistryRace.thy ===== *)
theory RegistryRace
  imports Registry
begin

text \<open>
  Concurrent registrations.  \<open>addMonitoredContract\<close>
  (src/plugins/db/monitored-contracts.ts, lines 17-51) is a read-modify-write: it reads the
  document with \<open>json.get\<close> (line 24), decides on the new document in memory
  (lines 28-50), and writes it with \<open>json.set\<close> (lines 40 and 43).  Between the two
  awaits other requests run, so the store is modelled with one program counter per
  in-flight request and an \<open>inductive\<close> step relation that interleaves the reads and the
  writes of all requests in any order.  \<open>amc_decide\<close> is the decision on the read
  document; \<open>add_monitored_contract\<close> is the read, the decision and the write done with
  no step in between (lemma \<open>add_monitored_contract_decide\<close>).
\<close>

text \<open>Lines 25-50: the document to write (\<open>None\<close> for no write) given the read one.\<close>

definition amc_decide :: "mc_doc option \<Rightarrow> string \<Rightarrow> string option \<Rightarrow> string \<Rightarrow> mc_doc option result" where
  "amc_decide existingContract userId alchemyWebhookId now =
     (case existingContract of
        Some existing \<Rightarrow>
          (case mc_userIds existing of
             None \<Rightarrow> Inl (MissingField ''userIds'')
           | Some users \<Rightarrow>
               let newUser = (userId \<notin> set users);
                   users' = (if newUser then users @ [userId] else users);
                   hasChange = (newUser \<or> js_truthy alchemyWebhookId);
                   wh' = (if js_truthy alchemyWebhookId then alchemyWebhookId
                          else mc_alchemyWebhookId existing)
               in if hasChange
                  then Inr (Some (existing\<lparr>mc_userIds := Some users', mc_alchemyWebhookId := wh',
                                            mc_updatedAt := Some now\<rparr>))
                  else Inr None)
      | None \<Rightarrow>
          Inr (Some \<lparr>mc_userIds = Some [userId], mc_createdAt = Some now, mc_updatedAt = Some now,
                     mc_alchemyWebhookId = (if js_truthy alchemyWebhookId then alchemyWebhookId else None),
                     mc_lastTvlSync = Some now\<rparr>))"

text \<open>\<open>json.set(key, '$', doc)\<close> when there is a document to write.\<close>

definition amc_write :: "mc_store \<Rightarrow> string \<Rightarrow> mc_doc option \<Rightarrow> mc_store" where
  "amc_write db key d = (case d of None \<Rightarrow> db | Some doc \<Rightarrow> AList.update key doc db)"

text \<open>One call \<open>addMonitoredContract(contractAddress, userId, alchemyWebhookId)\<close>, with the
  time \<open>now\<close> it reads.\<close>

record amc_req =
  rq_contract :: string
  rq_user :: string
  rq_webhook :: "string option"
  rq_now :: string

text \<open>Where a call is: not started, between its read and its write (holding the document
  it read), returned, or thrown.\<close>

datatype amc_pc = AStart | ARead "mc_doc option" | ADone | AFailed error

type_synonym amc_state = "mc_store \<times> amc_pc list"

definition amc_key :: "amc_req list \<Rightarrow> nat \<Rightarrow> string" where
  "amc_key rs i = mc_key (rq_contract (rs ! i))"

definition amc_decide_req :: "amc_req list \<Rightarrow> nat \<Rightarrow> mc_doc option \<Rightarrow> mc_doc option result" where
  "amc_decide_req rs i s = amc_decide s (rq_user (rs ! i)) (rq_webhook (rs ! i)) (rq_now (rs ! i))"

inductive amc_step :: "amc_req list \<Rightarrow> amc_state \<Rightarrow> amc_state \<Rightarrow> bool" for rs where
  amc_read: "i < length pcs \<Longrightarrow> pcs ! i = AStart \<Longrightarrow>
     amc_step rs (db, pcs) (db, pcs[i := ARead (map_of db (amc_key rs i))])"
| amc_set: "i < length pcs \<Longrightarrow> pcs ! i = ARead s \<Longrightarrow> amc_decide_req rs i s = Inr d \<Longrightarrow>
     amc_step rs (db, pcs) (amc_write db (amc_key rs i) d, pcs[i := ADone])"
| amc_throw: "i < length pcs \<Longrightarrow> pcs ! i = ARead s \<Longrightarrow> amc_decide_req rs i s = Inl e \<Longrightarrow>
     amc_step rs (db, pcs) (db, pcs[i := AFailed e])"

text \<open>The scheduler's view: run the next action of request \<open>i\<close>, if it has one.  A
  schedule is a list of request indices.\<close>

definition amc_exec :: "amc_req list \<Rightarrow> amc_state \<Rightarrow> nat \<Rightarrow> amc_state" where
  "amc_exec rs st i =
     (let (db, pcs) = st in
      if i < length pcs then
        (case pcs ! i of
           AStart \<Rightarrow> (db, pcs[i := ARead (map_of db (amc_key rs i))])
         | ARead s \<Rightarrow> (case amc_decide_req rs i s of
                         Inl e \<Rightarrow> (db, pcs[i := AFailed e])
                       | Inr d \<Rightarrow> (amc_write db (amc_key rs i) d, pcs[i := ADone]))
         | _ \<Rightarrow> st)
      else st)"

definition amc_run :: "amc_req list \<Rightarrow> amc_state \<Rightarrow> nat list \<Rightarrow> amc_state" where
  "amc_run rs st sched = fold (\<lambda>i st. amc_exec rs st i) sched st"

text \<open>The invariant of the interleavings: the store is well formed, every document held
  between a read and a write is well formed, and no call has thrown.\<close>

definition amc_inv :: "amc_state \<Rightarrow> bool" where
  "amc_inv st \<longleftrightarrow> store_wf (fst st) \<and>
     (\<forall>pc \<in> set (snd st). (\<forall>d. pc = ARead (Some d) \<longrightarrow> mc_wf d) \<and> (\<forall>e. pc \<noteq> AFailed e))"

section \<open>The registry of spec section 4.4\<close>

text \<open>The spec's registry forgets the timestamps: a contract key maps to the set of its
  users and its webhook id.  \<open>reg_upsert\<close> is its \<open>upsert(contractAddress, userId,
  webhookId?)\<close>: create the contract with the one user, or add the user to the set and
  apply the webhook id when one is given.\<close>

definition registry_abs :: "mc_store \<Rightarrow> string \<Rightarrow> (string set \<times> string option) option" where
  "registry_abs db k =
     map_option (\<lambda>d. (set (case mc_userIds d of None \<Rightarrow> [] | Some us \<Rightarrow> us), mc_alchemyWebhookId d)) (map_of db k)"

definition reg_upsert ::
  "(string \<Rightarrow> (string set \<times> string option) option) \<Rightarrow> string \<Rightarrow> string \<Rightarrow> string option \<Rightarrow>
   (string \<Rightarrow> (string set \<times> string option) option)" where
  "reg_upsert R k userId webhookId =
     R(k \<mapsto> (case R k of
               None \<Rightarrow> ({userId}, webhookId)
             | Some (us, old) \<Rightarrow> (insert userId us, if webhookId = None then old else webhookId)))"

section \<open>Lemmas\<close>

lemma add_monitored_contract_decide:
  "add_monitored_contract db a u wh now =
     (case amc_decide (map_of db (mc_key a)) u wh now of
        Inl e \<Rightarrow> Inl e
      | Inr d \<Rightarrow> Inr (amc_write db (mc_key a) d))"
  by (simp add: add_monitored_contract_def amc_decide_def amc_write_def Let_def
      split: option.splits)

lemma amc_decide_wf:
  assumes "\<forall>d. s = Some d \<longrightarrow> mc_wf d"
  shows "\<exists>d'. amc_decide s u wh now = Inr d' \<and> (\<forall>d. d' = Some d \<longrightarrow> mc_wf d)"
proof (cases s)
  case None
  then show ?thesis by (simp add: amc_decide_def mc_wf_def)
next
  case (Some d)
  with assms obtain us where us: "mc_userIds d = Some us" "us \<noteq> []" "distinct us"
    by (auto simp: mc_wf_def)
  with Some assms show ?thesis
    by (auto simp: amc_decide_def mc_wf_def Let_def)
qed

lemma amc_write_wf: "store_wf db \<Longrightarrow> (\<forall>d. x = Some d \<longrightarrow> mc_wf d) \<Longrightarrow> store_wf (amc_write db k x)"
  by (cases x) (auto simp: amc_write_def)

lemma add_monitored_contract_store_wf:
  assumes "store_wf db" and "add_monitored_contract db a u wh now = Inr db'"
  shows "store_wf db'"
proof -
  have "\<forall>d. map_of db (mc_key a) = Some d \<longrightarrow> mc_wf d" using assms(1) store_wf_lookup by blast
  from amc_decide_wf [OF this, of u wh now] obtain x
    where x: "amc_decide (map_of db (mc_key a)) u wh now = Inr x" "\<forall>d. x = Some d \<longrightarrow> mc_wf d"
    by blast
  then have "db' = amc_write db (mc_key a) x" using assms(2) by (simp add: add_monitored_contract_decide)
  with amc_write_wf [OF assms(1) x(2)] show ?thesis by simp
qed

lemma amc_inv_step:
  assumes "amc_step rs st st'" and "amc_inv st"
  shows "amc_inv st'"
  using assms
proof (induction rule: amc_step.induct)
  case (amc_read i pcs db)
  have "\<forall>d. map_of db (amc_key rs i) = Some d \<longrightarrow> mc_wf d"
    using amc_read.prems store_wf_lookup by (auto simp: amc_inv_def)
  with amc_read show ?case
    by (auto simp: amc_inv_def dest!: set_update_subset_insert [THEN subsetD])
next
  case (amc_set i pcs s d db)
  have "pcs ! i \<in> set pcs" using amc_set.hyps(1) by simp
  then have "\<forall>d. s = Some d \<longrightarrow> mc_wf d" using amc_set by (auto simp: amc_inv_def)
  then have "\<forall>d'. d = Some d' \<longrightarrow> mc_wf d'"
    using amc_decide_wf [of s "rq_user (rs ! i)" "rq_webhook (rs ! i)" "rq_now (rs ! i)"] amc_set.hyps(3) by (auto simp: amc_decide_req_def)
  with amc_set show ?case
    by (auto simp: amc_inv_def amc_write_wf dest!: set_update_subset_insert [THEN subsetD])
next
  case (amc_throw i pcs s e db)
  have "pcs ! i \<in> set pcs" using amc_throw.hyps(1) by simp
  then have "\<forall>d. s = Some d \<longrightarrow> mc_wf d" using amc_throw by (auto simp: amc_inv_def)
  then show ?case
    using amc_decide_wf [of s "rq_user (rs ! i)" "rq_webhook (rs ! i)" "rq_now (rs ! i)"] amc_throw.hyps(3) by (auto simp: amc_decide_req_def)
qed

lemma amc_inv_reach: "(amc_step rs)\<^sup>*\<^sup>* st st' \<Longrightarrow> amc_inv st \<Longrightarrow> amc_inv st'"
  by (induction rule: rtranclp_induct) (auto intro: amc_inv_step)

lemma amc_exec_step: "amc_exec rs st i = st \<or> amc_step rs st (amc_exec rs st i)"
proof -
  obtain db pcs where st: "st = (db, pcs)" by fastforce
  show ?thesis
  proof (cases "i < length pcs")
    case True
    then show ?thesis
      using st amc_read [of i pcs rs db] amc_set [of i pcs _ rs _ db] amc_throw [of i pcs _ rs _ db]
      by (cases "pcs ! i") (auto simp: amc_exec_def split: sum.splits)
  qed (simp add: st amc_exec_def)
qed

lemma amc_run_reach: "(amc_step rs)\<^sup>*\<^sup>* st (amc_run rs st sched)"
proof (induction sched arbitrary: st)
  case (Cons i sched)
  have "(amc_step rs)\<^sup>*\<^sup>* st (amc_exec rs st i)"
    using amc_exec_step [of rs st i] by auto
  with Cons.IH [of "amc_exec rs st i"] show ?case
    by (simp add: amc_run_def)
qed (simp add: amc_run_def)

lemma registry_abs_update:
  "registry_abs (AList.update k d db) =
     (registry_abs db)(k \<mapsto> (set (case mc_userIds d of None \<Rightarrow> [] | Some us \<Rightarrow> us), mc_alchemyWebhookId d))"
  by (rule ext) (simp add: registry_abs_def update_conv')

section \<open>Example data\<close>

abbreviation ex_reqs :: "amc_req list" where
  "ex_reqs \<equiv> [\<lparr>rq_contract = ''0xc'', rq_user = ''u1'', rq_webhook = Some ''wh1'', rq_now = ''t1''\<rparr>,
              \<lparr>rq_contract = ''0xc'', rq_user = ''u2'', rq_webhook = Some ''wh2'', rq_now = ''t2''\<rparr>]"

section \<open>Properties\<close>

text \<open>
  C11.  Interleaved registrations keep the registry well formed: from a well-formed store,
  however the reads and writes of any number of concurrent \<open>addMonitoredContract\<close>
  calls interleave, every document keeps non-empty duplicate-free \<open>userIds\<close> and its
  timestamps, keys stay unique, and no call throws.
\<close>

theorem concurrent_registrations_wf:
  assumes "store_wf db" and "(amc_step rs)\<^sup>*\<^sup>* (db, replicate n AStart) (db', pcs)"
  shows "store_wf db' \<and> (\<forall>e. AFailed e \<notin> set pcs)"
proof -
  have "amc_inv (db, replicate n AStart)" using assms(1) by (simp add: amc_inv_def)
  from amc_inv_reach [OF assms(2) this] show ?thesis by (auto simp: amc_inv_def)
qed

theorem concurrent_registrations_wf_witness:
  "store_wf ([] :: mc_store) \<and>
   store_wf (fst (amc_run ex_reqs ([], replicate 2 AStart) [0, 1, 0, 1])) \<and>
   (\<forall>e. AFailed e \<notin> set (snd (amc_run ex_reqs ([], replicate 2 AStart) [0, 1, 0, 1])))"
proof -
  have w: "store_wf ([] :: mc_store)" by (simp add: store_wf_def)
  have r: "(amc_step ex_reqs)\<^sup>*\<^sup>* ([], replicate 2 AStart)
      (fst (amc_run ex_reqs ([], replicate 2 AStart) [0, 1, 0, 1]),
       snd (amc_run ex_reqs ([], replicate 2 AStart) [0, 1, 0, 1]))"
    using amc_run_reach [of ex_reqs "([], replicate 2 AStart)" "[0, 1, 0, 1]"] by simp
  show ?thesis using w concurrent_registrations_wf [OF w r] by simp
qed

text \<open>
  C6.  Lost update: the read-modify-write is not atomic (spec section 5 requires it to
  be).  When two users who are not yet watching a contract register it concurrently, the
  interleaving read, read, write, write ends with both calls returned and the first
  user missing from \<open>userIds\<close>.
\<close>

theorem concurrent_registration_lost_update:
  assumes "u1 \<noteq> u2"
    and "\<forall>d. map_of db (mc_key a) = Some d \<longrightarrow> (\<exists>us. mc_userIds d = Some us \<and> u1 \<notin> set us \<and> u2 \<notin> set us)"
  shows "\<exists>db' d. (amc_step [\<lparr>rq_contract = a, rq_user = u1, rq_webhook = w1, rq_now = t1\<rparr>,
                              \<lparr>rq_contract = a, rq_user = u2, rq_webhook = w2, rq_now = t2\<rparr>])\<^sup>*\<^sup>*
                   (db, [AStart, AStart]) (db', [ADone, ADone]) \<and>
                 map_of db' (mc_key a) = Some d \<and>
                 (\<exists>us. mc_userIds d = Some us \<and> u2 \<in> set us \<and> u1 \<notin> set us)"
proof -
  let ?rs = "[\<lparr>rq_contract = a, rq_user = u1, rq_webhook = w1, rq_now = t1\<rparr>,
              \<lparr>rq_contract = a, rq_user = u2, rq_webhook = w2, rq_now = t2\<rparr>]"
  let ?s = "map_of db (mc_key a)"
  obtain d1 where d1: "amc_decide ?s u1 w1 t1 = Inr (Some d1)"
    using assms(2) by (cases ?s) (auto simp: amc_decide_def Let_def)
  obtain d2 where d2: "amc_decide ?s u2 w2 t2 = Inr (Some d2)"
    and us2: "\<exists>us. mc_userIds d2 = Some us \<and> u2 \<in> set us \<and> u1 \<notin> set us"
    using assms by (cases ?s) (auto simp: amc_decide_def Let_def)
  have run: "amc_run ?rs (db, [AStart, AStart]) [0, 1, 0, 1] =
      (AList.update (mc_key a) d2 (AList.update (mc_key a) d1 db), [ADone, ADone])"
    using d1 d2 by (simp add: amc_run_def amc_exec_def amc_key_def amc_decide_req_def amc_write_def)
  show ?thesis
    using amc_run_reach [of ?rs "(db, [AStart, AStart])" "[0, 1, 0, 1]"] run us2
    by (auto simp: update_conv')
qed

theorem concurrent_registration_lost_update_witness:
  "\<exists>db' d. (amc_step ex_reqs)\<^sup>*\<^sup>* ([], [AStart, AStart]) (db', [ADone, ADone]) \<and>
     map_of db' (mc_key ''0xc'') = Some d \<and>
     (\<exists>us. mc_userIds d = Some us \<and> ''u2'' \<in> set us \<and> ''u1'' \<notin> set us)"
  using concurrent_registration_lost_update [of "''u1''" "''u2''" "[]" "''0xc''"] by simp

text \<open>
  C12.  Refinement of the spec's registry: on a well-formed store and for a non-empty
  webhook id (or none), \<open>addMonitoredContract\<close> does not throw, keeps the store well
  formed, and its effect on users and webhook ids is the spec's \<open>upsert\<close> (section 4.4)
  on the abstract registry.
\<close>

theorem add_monitored_contract_refines:
  assumes "store_wf db" and "webhookId \<noteq> Some []"
  shows "\<exists>db'. add_monitored_contract db c userId webhookId now = Inr db' \<and> store_wf db' \<and>
           registry_abs db' = reg_upsert (registry_abs db) (mc_key c) userId webhookId"
proof (cases "map_of db (mc_key c)")
  case None
  let ?d = "\<lparr>mc_userIds = Some [userId], mc_createdAt = Some now, mc_updatedAt = Some now,
       mc_alchemyWebhookId = (if js_truthy webhookId then webhookId else None), mc_lastTvlSync = Some now\<rparr>"
  have r: "add_monitored_contract db c userId webhookId now = Inr (AList.update (mc_key c) ?d db)"
    using None by (simp add: add_monitored_contract_def)
  have "js_truthy webhookId \<longleftrightarrow> webhookId \<noteq> None" using assms(2) by (simp add: js_truthy_def)
  then have "registry_abs (AList.update (mc_key c) ?d db) = reg_upsert (registry_abs db) (mc_key c) userId webhookId"
    using None by (auto simp: registry_abs_update reg_upsert_def registry_abs_def)
  then show ?thesis using r add_monitored_contract_store_wf [OF assms(1) r] by blast
next
  case (Some d)
  then obtain us where us: "mc_userIds d = Some us" using store_wf_lookup [OF assms(1)] by (auto simp: mc_wf_def)
  have ra: "registry_abs db (mc_key c) = Some (set us, mc_alchemyWebhookId d)"
    using Some us by (simp add: registry_abs_def)
  show ?thesis
  proof (cases "userId \<in> set us \<and> \<not> js_truthy webhookId")
    case True
    then have "webhookId = None" using assms(2) by (auto simp: js_truthy_def)
    moreover have "reg_upsert (registry_abs db) (mc_key c) userId None = registry_abs db"
      using ra True by (auto simp: reg_upsert_def insert_absorb)
    ultimately show ?thesis using Some us True assms(1) by (simp add: add_monitored_contract_def)
  next
    case False
    let ?d = "d\<lparr>mc_userIds := Some (if userId \<notin> set us then us @ [userId] else us),
                 mc_alchemyWebhookId := (if js_truthy webhookId then webhookId else mc_alchemyWebhookId d),
                 mc_updatedAt := Some now\<rparr>"
    have r: "add_monitored_contract db c userId webhookId now = Inr (AList.update (mc_key c) ?d db)"
      using Some us False by (auto simp: add_monitored_contract_def Let_def)
    have "registry_abs (AList.update (mc_key c) ?d db) = reg_upsert (registry_abs db) (mc_key c) userId webhookId"
      using ra assms(2) by (auto simp: registry_abs_update reg_upsert_def js_truthy_def insert_absorb)
    then show ?thesis using r add_monitored_contract_store_wf [OF assms(1) r] by blast
  qed
qed

theorem add_monitored_contract_refines_witness:
  "\<exists>db'. add_monitored_contract ex_db ''0xc'' ''u2'' (Some ''wh2'') ''t1'' = Inr db' \<and> store_wf db' \<and>
     registry_abs db' = reg_upsert (registry_abs ex_db) (mc_key ''0xc'') ''u2'' (Some ''wh2'')"
  using add_monitored_contract_refines [of ex_db "Some ''wh2''" "''0xc''" "''u2''" "''t1''"]
  by (simp add: store_wf_def mc_wf_def)

end
