(* ===== verification/AlertDefinitions.thy ===== *)
theory AlertDefinitions
  imports Prelude JsStrings
begin

text \<open>
  Default alert definitions (src/plugins/db/alert-definition.ts).  An alert definition is
  an open JSON object (\<open>AlertDefinitionBase & any\<close>), so a document is an association
  list from field names to JSON values, in the order the object literal writes them.  A
  field whose value is \<open>undefined\<close> (\<open>name\<close> when the request has none) is left out,
  as \<open>JSON.stringify\<close> leaves it out of the stored document.  The store of alert
  definitions is an association list from keys \<open>alertDefinition:<uuid>\<close> to documents;
  the search \<open>@userId:{\<dots>} @contractAddress:{\<dots>}\<close> on the index
  \<open>idx:alertDefinition\<close> returns the stored documents whose two tags equal the given
  values, in store order.  \<open>randomUUID()\<close> values are a parameter of the call.
\<close>

text \<open>JSON values.  Numbers are integers: the code's own numbers are, and no claim reads
  the value of a number a request sends.\<close>

datatype jval = JStr string | JNum int | JBool bool | JNull | JArr "jval list"
  | JObj "(string \<times> jval) list"

type_synonym json_obj = "(string \<times> jval) list"

type_synonym alert_store = "(string \<times> json_obj) list"

text \<open>\<open>AlertDefinitionProps\<close>.  Its type gives \<open>name\<close> as an optional string, but the
  route passes the request's \<open>name\<close> unchecked (src/routes/alert/index.ts, line 15), so
  the model carries any JSON value.\<close>

record alert_props =
  ap_userId :: string
  ap_contractAddress :: string
  ap_name :: "jval option"

definition json_opt :: "string \<Rightarrow> jval option \<Rightarrow> json_obj" where
  "json_opt k v = (case v of None \<Rightarrow> [] | Some j \<Rightarrow> [(k, j)])"

text \<open>The threshold alert of \<open>getDefaultAlerts\<close> (lines 42-58): TVL moving by 30
  percent within 3 hours, stamped with the ISO time \<open>now\<close>.\<close>

definition th_alert :: "alert_props \<Rightarrow> string \<Rightarrow> json_obj" where
  "th_alert props now =
     (let base = [(''contractAddress'', JStr (ap_contractAddress props))] @
                 json_opt ''name'' (ap_name props) @
                 [(''userId'', JStr (ap_userId props)), (''createdAt'', JStr now),
                  (''updatedAt'', JStr now)]
      in base @ [(''target'', JStr ''TVL''), (''timeRange'', JStr ''3h''),
                 (''valueType'', JStr ''percentage''), (''value'', JNum 30)])"

text \<open>\<open>getDefaultAlerts\<close> (lines 39-63).\<close>

definition get_default_alerts :: "alert_props \<Rightarrow> string \<Rightarrow> json_obj list" where
  "get_default_alerts props now = [th_alert props now]"

text \<open>\<open>_.omit(obj, keys)\<close> and \<open>_.find(coll, pattern)\<close>: the first document that has every
  field of the pattern with an equal value.\<close>

definition omit :: "json_obj \<Rightarrow> string list \<Rightarrow> json_obj" where
  "omit obj ks = filter (\<lambda>(k, v). k \<notin> set ks) obj"

definition matches :: "json_obj \<Rightarrow> json_obj \<Rightarrow> bool" where
  "matches pattern doc \<longleftrightarrow> list_all (\<lambda>(k, v). map_of doc k = Some v) pattern"

definition lodash_find :: "json_obj list \<Rightarrow> json_obj \<Rightarrow> json_obj option" where
  "lodash_find coll pattern = find (matches pattern) coll"

definition alert_search :: "alert_store \<Rightarrow> string \<Rightarrow> string \<Rightarrow> json_obj list" where
  "alert_search st userId contractAddress =
     filter (\<lambda>d. map_of d ''userId'' = Some (JStr userId) \<and>
                 map_of d ''contractAddress'' = Some (JStr contractAddress)) (map snd st)"

text \<open>\<open>filterDuplicates\<close> (lines 66-89).\<close>

definition filter_duplicates :: "alert_store \<Rightarrow> alert_props \<Rightarrow> json_obj list \<Rightarrow> json_obj list" where
  "filter_duplicates st props alerts =
     (let allUserAlerts = alert_search st (ap_userId props) (ap_contractAddress props)
      in filter (\<lambda>alert. lodash_find allUserAlerts (omit alert [''createdAt'', ''updatedAt'', ''name'']) = None)
           alerts)"

text \<open>\<open>initAlertDefinitions\<close> (lines 91-110), split at its awaits: the read
  (\<open>getDefaultAlerts\<close> and \<open>filterDuplicates\<close>) and the writes, one \<open>json.set\<close> per
  remaining alert under a fresh uuid.\<close>

definition init_plan :: "alert_store \<Rightarrow> alert_props \<Rightarrow> string \<Rightarrow> json_obj list" where
  "init_plan st props now = filter_duplicates st props (get_default_alerts props now)"

definition init_write :: "alert_store \<Rightarrow> json_obj list \<Rightarrow> string list \<Rightarrow> alert_store" where
  "init_write st alerts uuids =
     fold (\<lambda>(id, alert) st. AList.update (''alertDefinition:'' @ id) alert st) (zip uuids alerts) st"

definition init_alert_definitions :: "alert_store \<Rightarrow> alert_props \<Rightarrow> string \<Rightarrow> string list \<Rightarrow> alert_store" where
  "init_alert_definitions st props now uuids = init_write st (init_plan st props now) uuids"

text \<open>The alerts a user has on a contract.\<close>

definition user_alerts :: "alert_store \<Rightarrow> alert_props \<Rightarrow> json_obj list" where
  "user_alerts st props = alert_search st (ap_userId props) (ap_contractAddress props)"

section \<open>Document types\<close>

text \<open>The TypeScript types of lines 6-31, as checks of a stored JSON document:
  \<open>typeof\<close> of each field, required or optional, and the values of the two enums.  A
  JSON object has each key once.\<close>

datatype jtype = JString | JNumber | JBoolean | JNullT | JArray | JObject

fun jtype_of :: "jval \<Rightarrow> jtype" where
  "jtype_of (JStr _) = JString"
| "jtype_of (JNum _) = JNumber"
| "jtype_of (JBool _) = JBoolean"
| "jtype_of JNull = JNullT"
| "jtype_of (JArr _) = JArray"
| "jtype_of (JObj _) = JObject"

definition field_has :: "json_obj \<Rightarrow> string \<Rightarrow> (jval \<Rightarrow> bool) \<Rightarrow> bool" where
  "field_has d k P \<longleftrightarrow> (case map_of d k of None \<Rightarrow> False | Some v \<Rightarrow> P v)"

definition field_opt :: "json_obj \<Rightarrow> string \<Rightarrow> (jval \<Rightarrow> bool) \<Rightarrow> bool" where
  "field_opt d k P \<longleftrightarrow> (case map_of d k of None \<Rightarrow> True | Some v \<Rightarrow> P v)"

definition is_type :: "jtype \<Rightarrow> jval \<Rightarrow> bool" where
  "is_type t v \<longleftrightarrow> jtype_of v = t"

definition is_enum :: "string list \<Rightarrow> jval \<Rightarrow> bool" where
  "is_enum vs v \<longleftrightarrow> (case v of JStr s \<Rightarrow> s \<in> set vs | _ \<Rightarrow> False)"

text \<open>\<open>AlertDefinitionBase\<close> (lines 6-12).\<close>

definition is_alert_definition_base :: "json_obj \<Rightarrow> bool" where
  "is_alert_definition_base d \<longleftrightarrow>
     distinct (map fst d) \<and> field_has d ''contractAddress'' (is_type JString) \<and>
     field_opt d ''name'' (is_type JString) \<and> field_has d ''userId'' (is_type JString) \<and>
     field_has d ''createdAt'' (is_type JString) \<and> field_has d ''updatedAt'' (is_type JString)"

text \<open>\<open>ThresholdTarget\<close> and \<open>ThresholdValueType\<close> (lines 16-23): the string values of
  the enum members.\<close>

definition threshold_targets :: "string list" where
  "threshold_targets = [''TVL'']"

definition threshold_value_types :: "string list" where
  "threshold_value_types = [''percentage'', ''fixedValue'']"

text \<open>\<open>ThresholdAlert\<close> (lines 25-31).\<close>

definition is_threshold_alert :: "json_obj \<Rightarrow> bool" where
  "is_threshold_alert d \<longleftrightarrow>
     is_alert_definition_base d \<and> field_has d ''target'' (is_enum threshold_targets) \<and>
     field_has d ''timeRange'' (is_type JString) \<and>
     field_has d ''valueType'' (is_enum threshold_value_types) \<and>
     field_has d ''value'' (is_type JNumber) \<and> field_opt d ''category'' (is_type JString)"

definition alert_store_typed :: "alert_store \<Rightarrow> bool" where
  "alert_store_typed st \<longleftrightarrow> list_all (\<lambda>(k, d). is_threshold_alert d) st"

text \<open>Every stored document is a \<open>ThresholdAlert\<close> once its \<open>name\<close> is set aside.\<close>

definition alert_store_typed_but_name :: "alert_store \<Rightarrow> bool" where
  "alert_store_typed_but_name st \<longleftrightarrow> list_all (\<lambda>(k, d). is_threshold_alert (omit d [''name''])) st"


section \<open>Example data\<close>

abbreviation ex_props :: alert_props where
  "ex_props \<equiv> \<lparr>ap_userId = ''u1'', ap_contractAddress = ''0xc'', ap_name = Some (JStr ''vault'')\<rparr>"

section \<open>Lemmas\<close>

abbreviation dedup_keys :: "string list" where
  "dedup_keys \<equiv> [''createdAt'', ''updatedAt'', ''name'']"

lemma th_alert_fields [simp]:
  "map_of (th_alert props now) ''userId'' = Some (JStr (ap_userId props))"
  "map_of (th_alert props now) ''contractAddress'' = Some (JStr (ap_contractAddress props))"
  "map_of (th_alert props now) ''target'' = Some (JStr ''TVL'')"
  "map_of (th_alert props now) ''timeRange'' = Some (JStr ''3h'')"
  "map_of (th_alert props now) ''valueType'' = Some (JStr ''percentage'')"
  "map_of (th_alert props now) ''value'' = Some (JNum 30)"
  by (simp_all add: th_alert_def json_opt_def split: option.splits)

text \<open>The alert of one call is a duplicate of the alert of any other call for the same
  user and contract: they differ only in the omitted fields.\<close>

lemma th_alert_matches: "matches (omit (th_alert props now1) dedup_keys) (th_alert props now2)"
  by (simp add: th_alert_def omit_def matches_def json_opt_def split: option.splits)


lemma init_plan_eq:
  "init_plan st props now =
     (if lodash_find (user_alerts st props) (omit (th_alert props now) dedup_keys) = None
      then [th_alert props now] else [])"
  by (simp add: init_plan_def filter_duplicates_def get_default_alerts_def user_alerts_def Let_def)

lemma th_alert_searched:
  "th_alert props now \<in> set (user_alerts (AList.update k (th_alert props now) st) props)"
  using in_update [of k "th_alert props now" st] by (force simp: user_alerts_def alert_search_def)



lemma user_alerts_none: "user_alerts st props = [] \<Longrightarrow> init_plan st props now = [th_alert props now]"
  by (simp add: init_plan_eq lodash_find_def)

lemma init_write_simps [simp]:
  "init_write st [] uuids = st"
  "init_write st [a] (u # uuids) = AList.update (''alertDefinition:'' @ u) a st"
  by (simp_all add: init_write_def)

lemma init_alert_definitions_user_alerts:
  "user_alerts (init_alert_definitions st props now (uuid # uuids)) props \<noteq> []"
proof (cases "init_plan st props now = []")
  case True
  then have "lodash_find (user_alerts st props) (omit (th_alert props now) dedup_keys) \<noteq> None"
    by (simp add: init_plan_eq split: if_splits)
  then show ?thesis using True by (auto simp: init_alert_definitions_def lodash_find_def)
next
  case False
  then have "init_plan st props now = [th_alert props now]"
    by (simp add: init_plan_eq split: if_splits)
  then show ?thesis using th_alert_searched [of props now "''alertDefinition:'' @ uuid" st]
    by (auto simp: init_alert_definitions_def)
qed

lemmas th_alert_type_defs = is_threshold_alert_def is_alert_definition_base_def th_alert_def
  json_opt_def field_has_def field_opt_def is_type_def is_enum_def threshold_targets_def
  threshold_value_types_def omit_def

lemma th_alert_typed_but_name: "is_threshold_alert (omit (th_alert props now) [''name''])"
  by (simp add: th_alert_type_defs split: option.splits)


lemma alert_store_typed_update:
  "alert_store_typed st \<Longrightarrow> is_threshold_alert d \<Longrightarrow> alert_store_typed (AList.update k d st)"
  using set_update_sub [of k d st] by (fastforce simp: alert_store_typed_def list_all_iff)

lemma alert_store_typed_but_name_update:
  "alert_store_typed_but_name st \<Longrightarrow> is_threshold_alert (omit d [''name'']) \<Longrightarrow>
   alert_store_typed_but_name (AList.update k d st)"
  using set_update_sub [of k d st] by (fastforce simp: alert_store_typed_but_name_def list_all_iff)

lemma init_alert_definitions_typed_but_name:
  "alert_store_typed_but_name st \<Longrightarrow> alert_store_typed_but_name (init_alert_definitions st props now uuids)"
  by (cases uuids)
     (simp_all add: init_alert_definitions_def init_plan_eq init_write_def th_alert_typed_but_name
      alert_store_typed_but_name_update)



section \<open>Properties\<close>



text \<open>
  The default alert: when the user has no alert on the contract, initialisation
  stores under \<open>alertDefinition:<uuid>\<close> one alert of that user and contract that fires
  when the TVL moves by 30 percent within 3 hours.
\<close>

theorem init_alert_definitions_default:
  assumes "user_alerts st props = []"
  shows "\<exists>a. map_of (init_alert_definitions st props now (uuid # uuids)) (''alertDefinition:'' @ uuid) = Some a \<and>
             map_of a ''userId'' = Some (JStr (ap_userId props)) \<and>
             map_of a ''contractAddress'' = Some (JStr (ap_contractAddress props)) \<and>
             map_of a ''target'' = Some (JStr ''TVL'') \<and> map_of a ''timeRange'' = Some (JStr ''3h'') \<and>
             map_of a ''valueType'' = Some (JStr ''percentage'') \<and> map_of a ''value'' = Some (JNum 30)"
  using user_alerts_none [OF assms, of now]
  by (simp add: init_alert_definitions_def update_conv')

theorem init_alert_definitions_default_witness:
  "\<exists>a. map_of (init_alert_definitions [] ex_props ''t1'' [''id1'']) (''alertDefinition:'' @ ''id1'') = Some a \<and>
       map_of a ''userId'' = Some (JStr ''u1'') \<and> map_of a ''contractAddress'' = Some (JStr ''0xc'') \<and>
       map_of a ''target'' = Some (JStr ''TVL'') \<and> map_of a ''timeRange'' = Some (JStr ''3h'') \<and>
       map_of a ''valueType'' = Some (JStr ''percentage'') \<and> map_of a ''value'' = Some (JNum 30)"
proof -
  have "user_alerts [] ex_props = []" by (simp add: user_alerts_def alert_search_def)
  from init_alert_definitions_default [OF this, of "''t1''" "''id1''" "[]"] show ?thesis by simp
qed

text \<open>
  C33.  Duplicate alerts under concurrency: when two initialisations for the same user and
  contract both search before either writes, both write the default alert, and the store
  ends with two alert documents of that user on that contract, each a duplicate of the
  other by the code's own criterion.
\<close>

theorem concurrent_init_duplicates:
  assumes "user_alerts st props = []" and "k1 \<noteq> k2"
  shows "\<exists>a1 a2.
    map_of (init_write (init_write st (init_plan st props now1) [k1]) (init_plan st props now2) [k2])
      (''alertDefinition:'' @ k1) = Some a1 \<and>
    map_of (init_write (init_write st (init_plan st props now1) [k1]) (init_plan st props now2) [k2])
      (''alertDefinition:'' @ k2) = Some a2 \<and>
    map_of a1 ''userId'' = Some (JStr (ap_userId props)) \<and>
    map_of a1 ''contractAddress'' = Some (JStr (ap_contractAddress props)) \<and>
    matches (omit a2 dedup_keys) a1"
proof -
  have "''alertDefinition:'' @ k2 \<noteq> ''alertDefinition:'' @ k1" using assms(2) by simp
  then show ?thesis
    using user_alerts_none [OF assms(1)] th_alert_matches [of props now2 now1]
    by (simp add: map_of_update_other update_conv')
qed

theorem concurrent_init_duplicates_witness:
  "\<exists>a1 a2.
    map_of (init_write (init_write [] (init_plan [] ex_props ''t1'') [''id1'']) (init_plan [] ex_props ''t2'') [''id2''])
      (''alertDefinition:'' @ ''id1'') = Some a1 \<and>
    map_of (init_write (init_write [] (init_plan [] ex_props ''t1'') [''id1'']) (init_plan [] ex_props ''t2'') [''id2''])
      (''alertDefinition:'' @ ''id2'') = Some a2 \<and>
    map_of a1 ''userId'' = Some (JStr ''u1'') \<and> map_of a1 ''contractAddress'' = Some (JStr ''0xc'') \<and>
    matches (omit a2 dedup_keys) a1"
proof -
  have "user_alerts [] ex_props = []" by (simp add: user_alerts_def alert_search_def)
  from concurrent_init_duplicates [OF this, of "''id1''" "''id2''" "''t1''" "''t2''"] show ?thesis by simp
qed



end
