(* ===== verification/Subscription.thy ===== *)
theory Subscription
  imports Prelude
begin

text \<open>
  Webhook subscription creation.  \<open>addAddressActivityWebhook\<close>
  (src/plugins/alchemy/index.ts) asks the provider's notify API for an address-activity
  webhook on one contract, with the callback \<open>${BASE_URL}/alchemy/address-activity\<close>.
  Any error is rethrown.  The unused route \<open>POST /alchemy/create-address-activity\<close>
  (src/routes/alchemy/index.ts, lines 178-199) does the same for a fixed address and
  answers the outcome.  The SDK call \<open>notify.createWebhook\<close> is a parameter \<open>create\<close>.
  It maps the request the code builds to the id of the created webhook, or to \<open>None\<close>
  when the promise rejects.  \<open>penv\<close> is the process environment.
\<close>

text \<open>\<open>WebhookType\<close> of the SDK.\<close>

datatype webhook_type = MINED_TRANSACTION | DROPPED_TRANSACTION | ADDRESS_ACTIVITY
  | NFT_ACTIVITY | NFT_METADATA_UPDATE

text \<open>The arguments of \<open>createWebhook(url, type, {addresses, network})\<close>.\<close>

record webhook_create =
  wc_url :: string
  wc_type :: webhook_type
  wc_addresses :: "string list"
  wc_network :: string

text \<open>\<open>Network.ETH_MAINNET\<close> of the SDK.\<close>

definition eth_mainnet :: string where
  "eth_mainnet = ''eth-mainnet''"

text \<open>Line 10: \<open>process.env.BASE_URL || 'http://localhost'\<close>.\<close>

definition base_url :: "(string \<Rightarrow> string option) \<Rightarrow> string" where
  "base_url penv = js_or (penv ''BASE_URL'') ''http://localhost''"

text \<open>Lines 23-30: the request of one address-activity webhook.\<close>

definition address_activity_request :: "string \<Rightarrow> string \<Rightarrow> webhook_create" where
  "address_activity_request baseUrl contractAddress =
     \<lparr>wc_url = baseUrl @ ''/alchemy/address-activity'', wc_type = ADDRESS_ACTIVITY,
      wc_addresses = [contractAddress], wc_network = eth_mainnet\<rparr>"

text \<open>\<open>addAddressActivityWebhook\<close> (lines 17-37): the id of the created webhook; the
  \<open>catch\<close> logs and rethrows.\<close>

definition add_address_activity_webhook ::
  "(webhook_create \<Rightarrow> string option) \<Rightarrow> string \<Rightarrow> string \<Rightarrow> string result" where
  "add_address_activity_webhook create baseUrl contractAddress =
     from_provider (create (address_activity_request baseUrl contractAddress))"

text \<open>\<open>POST /alchemy/create-address-activity\<close> (src/routes/alchemy/index.ts, lines 178-199):
  a webhook for the fixed address of line 186, answered \<open>200 Ok\<close> or, when the call
  rejects, \<open>500 Error\<close>.\<close>

definition create_address_activity ::
  "(webhook_create \<Rightarrow> string option) \<Rightarrow> string \<Rightarrow> response" where
  "create_address_activity create baseUrl =
     (case create (address_activity_request baseUrl ''0x1f9840a85d5af5bf1d1762f925bdaddc4201f984'') of
        None \<Rightarrow> Response 500 ''Error''
      | Some _ \<Rightarrow> Response 200 ''Ok'')"

section \<open>Lemmas\<close>

lemma add_address_activity_webhook_Inr:
  "add_address_activity_webhook create baseUrl c = Inr w \<longleftrightarrow>
     create (address_activity_request baseUrl c) = Some w"
  by (simp add: add_address_activity_webhook_def from_provider_def split: option.splits)

lemma add_address_activity_webhook_Inl:
  "add_address_activity_webhook create baseUrl c = Inl e \<longleftrightarrow>
     create (address_activity_request baseUrl c) = None \<and> e = ProviderUnavailable"
  by (auto simp: add_address_activity_webhook_def from_provider_def split: option.splits)

end
