(* ===== verification/InitRoute.thy ===== *)
theory InitRoute
  imports TransferEvents AlertDefinitions Webhook Subscription
begin

text \<open>
  Watch registration, the handler of \<open>POST /alert/init\<close> (src/routes/alert/index.ts,
  lines 11-57).  It validates the body, lower-cases the contract address, creates the
  default alert definitions, seeds the transfer history of the last five minutes
  (\<open>getTransferEvents\<close>, then \<open>addAssetTransfers\<close> for inflow and outflow), creates
  the provider's address-activity webhook (\<open>addAddressActivityWebhook\<close>,
  src/plugins/alchemy/index.ts) and binds it in the registry (\<open>addMonitoredContract\<close>).
  Any throw is answered \<open>500 Unknown error\<close>; what was written before it stays.
  The state is the three stores the handler writes.  The environment \<open>init_env\<close> holds
  what the handler reads from outside: the provider, the clock readings, the uuids
  \<open>randomUUID\<close> returns, \<open>BASE_URL\<close>, and the provider's \<open>createWebhook\<close> (theory
  \<open>Subscription\<close>).  The stores themselves do not fail.
\<close>

record app_state =
  as_alerts :: alert_store
  as_assets :: asset_store
  as_registry :: mc_store

record init_env =
  ie_provider :: provider
  ie_alerts_iso :: string
  ie_uuids :: "string list"
  ie_now :: int
  ie_clock :: int
  ie_createWebhook :: "webhook_create \<Rightarrow> string option"
  ie_baseUrl :: string
  ie_registry_iso :: string

text \<open>The request body: each field is absent (\<open>undefined\<close>) or a JSON value.\<close>

record init_body =
  ib_userId :: "jval option"
  ib_contractAddress :: "jval option"
  ib_name :: "jval option"

definition is_js_string :: "jval option \<Rightarrow> bool" where
  "is_js_string v = (case v of Some (JStr _) \<Rightarrow> True | _ \<Rightarrow> False)"

definition js_str :: "jval option \<Rightarrow> string" where
  "js_str v = (case v of Some (JStr s) \<Rightarrow> s | _ \<Rightarrow> [])"

fun js_join :: "string \<Rightarrow> string list \<Rightarrow> string" where
  "js_join sep [] = []"
| "js_join sep [x] = x"
| "js_join sep (x # xs) = x @ sep @ js_join sep xs"

text \<open>Lines 17-23.\<close>

definition init_errors :: "init_body \<Rightarrow> string list" where
  "init_errors body =
     (if is_js_string (ib_userId body) then [] else [''userId is missing'']) @
     (if is_js_string (ib_contractAddress body) then [] else [''contractAddress is missing''])"

text \<open>\<open>addAssetTransfers\<close> of plugins/db/asset-transfers (not in the repository): a keyed
  write of each record, as \<open>persist_transfers\<close>.\<close>

definition add_asset_transfers :: "asset_store \<Rightarrow> string \<Rightarrow> clean_transfer list \<Rightarrow> asset_store" where
  "add_asset_transfers st contractAddress ts = persist_transfers st contractAddress ts"

text \<open>Lines 29-52, after validation.  \<open>None\<close> is a request that never completes (the
  pagination of the history query does not end).\<close>

definition init_registration ::
  "init_env \<Rightarrow> app_state \<Rightarrow> string \<Rightarrow> string \<Rightarrow> jval option \<Rightarrow> (response \<times> app_state) option" where
  "init_registration env st userId contractAddress0 name =
     (let contractAddress = js_lower contractAddress0;
          props = \<lparr>ap_userId = userId, ap_contractAddress = contractAddress, ap_name = name\<rparr>;
          st1 = st\<lparr>as_alerts := init_alert_definitions (as_alerts st) props (ie_alerts_iso env) (ie_uuids env)\<rparr>
      in case get_transfer_events (ie_provider env) contractAddress ''5m'' (ie_now env) (ie_clock env) of
           None \<Rightarrow> None
         | Some (Inl _) \<Rightarrow> Some (Response 500 ''Unknown error'', st1)
         | Some (Inr transferEvents) \<Rightarrow>
             let st2 = st1\<lparr>as_assets := add_asset_transfers
                              (add_asset_transfers (as_assets st1) contractAddress (te_inflow transferEvents))
                              contractAddress (te_outflow transferEvents)\<rparr>
             in case add_address_activity_webhook (ie_createWebhook env) (ie_baseUrl env) contractAddress of
                  Inl _ \<Rightarrow> Some (Response 500 ''Unknown error'', st2)
                | Inr webhookId \<Rightarrow>
                    (case add_monitored_contract (as_registry st2) contractAddress userId (Some webhookId)
                            (ie_registry_iso env) of
                       Inl _ \<Rightarrow> Some (Response 500 ''Unknown error'', st2)
                     | Inr reg \<Rightarrow> Some (Response 200 ''ok'', st2\<lparr>as_registry := reg\<rparr>)))"

text \<open>The handler (lines 11-57).\<close>

definition alert_init :: "init_env \<Rightarrow> app_state \<Rightarrow> init_body \<Rightarrow> (response \<times> app_state) option" where
  "alert_init env st body =
     (let errors = init_errors body
      in if errors \<noteq> [] then Some (Response 400 (js_join ''; '' errors), st)
         else init_registration env st (js_str (ib_userId body)) (js_str (ib_contractAddress body))
                (ib_name body))"

section \<open>Example data\<close>

text \<open>A watch request for the contract \<open>0xc\<close> of \<open>ex_live\<close>.\<close>

abbreviation ex_env :: "provider \<Rightarrow> init_env" where
  "ex_env p \<equiv> \<lparr>ie_provider = p, ie_alerts_iso = ''t1'', ie_uuids = [''id1''], ie_now = 1201000,
     ie_clock = 1201000, ie_createWebhook = (\<lambda>_. Some ''wh1''),
     ie_baseUrl = ''https://hub.example'', ie_registry_iso = ''t2''\<rparr>"

abbreviation ex_app :: app_state where
  "ex_app \<equiv> \<lparr>as_alerts = [], as_assets = (\<lambda>_. Map.empty), as_registry = []\<rparr>"

abbreviation ex_body :: init_body where
  "ex_body \<equiv> \<lparr>ib_userId = Some (JStr ''u1''), ib_contractAddress = Some (JStr ''0xC''), ib_name = None\<rparr>"

section \<open>Lemmas\<close>

lemma init_errors_Nil:
  "init_errors body = [] \<longleftrightarrow> is_js_string (ib_userId body) \<and> is_js_string (ib_contractAddress body)"
  by (simp add: init_errors_def)

lemma alert_init_valid:
  assumes "ib_userId body = Some (JStr u)" and "ib_contractAddress body = Some (JStr c)"
  shows "alert_init env st body = init_registration env st u c (ib_name body)"
  using assms by (simp add: alert_init_def init_errors_def is_js_string_def js_str_def)

lemma init_registration_ok:
  assumes "init_registration env st u c name = Some (Response 200 ''ok'', st')"
  obtains te w where
    "get_transfer_events (ie_provider env) (js_lower c) ''5m'' (ie_now env) (ie_clock env) = Some (Inr te)"
    "add_address_activity_webhook (ie_createWebhook env) (ie_baseUrl env) (js_lower c) = Inr w"
    "add_monitored_contract (as_registry st) (js_lower c) u (Some w) (ie_registry_iso env) = Inr (as_registry st')"
    "as_alerts st' = init_alert_definitions (as_alerts st)
        \<lparr>ap_userId = u, ap_contractAddress = js_lower c, ap_name = name\<rparr> (ie_alerts_iso env) (ie_uuids env)"
  using assms
  by (auto simp: init_registration_def Let_def split: option.splits sum.splits)

lemma ex_lower: "js_lower ''0xC'' = ''0xc''"
  by (simp add: js_lower_def char_of_def bit_simps)

lemma alert_init_ok:
  assumes "alert_init env st body = Some (Response 200 ''ok'', st')"
    and "ib_userId body = Some (JStr u)" and "ib_contractAddress body = Some (JStr c)"
  obtains w where "add_address_activity_webhook (ie_createWebhook env) (ie_baseUrl env) (js_lower c) = Inr w"
    "add_monitored_contract (as_registry st) (js_lower c) u (Some w) (ie_registry_iso env) = Inr (as_registry st')"
    "as_alerts st' = init_alert_definitions (as_alerts st)
        \<lparr>ap_userId = u, ap_contractAddress = js_lower c, ap_name = ib_name body\<rparr> (ie_alerts_iso env) (ie_uuids env)"
  using assms(1) init_registration_ok [of env st u c "ib_name body" st']
  by (simp add: alert_init_valid [OF assms(2,3)]) blast

lemma alert_init_ends:
  assumes "\<forall>params fb cb. pages_end (ie_provider env) params fb cb None"
  shows "\<exists>r. alert_init env st body = Some r"
proof -
  obtain te where "get_transfer_events (ie_provider env) (js_lower (js_str (ib_contractAddress body))) ''5m''
      (ie_now env) (ie_clock env) = Some te"
    using get_transfer_events_ends [OF assms] by blast
  then show ?thesis
    by (simp add: alert_init_def init_registration_def Let_def split: sum.splits)
qed

lemma ex_init_ok: "\<exists>r. alert_init (ex_env ex_live) ex_app ex_body = Some (Response 200 ''ok'', r)"
proof -
  obtain te where te: "get_transfer_events ex_live ''0xc'' ''5m'' 1201000 1201000 = Some (Inr te)"
    using ex_live_events by blast
  show ?thesis
    by (simp add: alert_init_valid init_registration_def ex_lower te add_monitored_contract_def
        add_address_activity_webhook_def Let_def)
qed

section \<open>Properties\<close>

text \<open>
  C28.  A failed history query leaves a half-done registration: when the body is valid but
  \<open>getTransferEvents\<close> throws (a provider fault, or no transfer in one of the two
  directions within the five-minute window), the handler answers \<open>500 Unknown error\<close>,
  the insufficient-history message included (spec section 7 says it reaches the caller
  as a user-actionable error), after the default alert definitions were already written;
  no transfer is seeded and the registry is unchanged.
\<close>

theorem init_history_failure:
  assumes "ib_userId body = Some (JStr u)" and "ib_contractAddress body = Some (JStr c)"
    and "get_transfer_events (ie_provider env) (js_lower c) ''5m'' (ie_now env) (ie_clock env) = Some (Inl e)"
  shows "alert_init env st body =
           Some (Response 500 ''Unknown error'',
                 st\<lparr>as_alerts := init_alert_definitions (as_alerts st)
                    \<lparr>ap_userId = u, ap_contractAddress = js_lower c, ap_name = ib_name body\<rparr>
                    (ie_alerts_iso env) (ie_uuids env)\<rparr>)"
  using assms by (simp add: alert_init_valid init_registration_def)

theorem init_history_failure_witness:
  "alert_init (ex_env ex_quiet) ex_app ex_body =
     Some (Response 500 ''Unknown error'',
           ex_app\<lparr>as_alerts := init_alert_definitions []
              \<lparr>ap_userId = ''u1'', ap_contractAddress = ''0xc'', ap_name = None\<rparr> ''t1'' [''id1'']\<rparr>)"
proof -
  have m: "time_range_to_minutes ''5m'' = Inr 5"
    by (simp add: time_range_to_minutes_def time_ranges_def)
  have "\<And>params. get_all_asset_transfers ex_quiet params ''5m'' 100 = Some (Inr [])"
    using get_all_asset_transfers_single_page [OF m] by simp
  then have "get_transfer_events ex_quiet ''0xc'' ''5m'' 1201000 1201000 =
      Some (Inl (InsufficientHistory ''5m''))"
    by (simp add: get_transfer_events_def transfer_events_try_def get_current_block_def block_drift_def
        get_inflow_and_outflow_def clean_transfers_def)
  then show ?thesis
    using init_history_failure [of ex_body "''u1''" "''0xC''" "ex_env ex_quiet"] by (simp add: ex_lower)
qed

end
