(* ===== verification/EasyTrigger.thy ===== *)
theory EasyTrigger
  imports Prelude JsStrings Url Web3
begin

text \<open>
  Easy triggers: \<open>POST /easy-trigger/:triggerId\<close> (src/routes/easy-trigger/index.ts,
  lines 35-97) calls a stored trigger's contract on chain and records a notification.
  The trigger store and the notification store (src/plugins/db/easy-trigger.ts) are
  association lists keyed \<open>easyTrigger:<id>\<close> and \<open>easyTriggerNotification:<uuid>\<close>;
  the on-chain call (\<open>executeTrigger\<close>, src/plugins/web3-interactions/index.ts) is
  recorded in a log of \<open>(target, network)\<close> pairs.  The allowlist check
  (\<open>checkIfDomainInAllowlist\<close>, lines 19-33) reads each entry with \<open>addHttps\<close> and the
  WHATWG \<open>URL\<close> constructor, modelled by \<open>url_host_port\<close> of theory \<open>Url\<close>.  The handler has no \<open>try\<close>: a throw
  leaves the request without a response, which is the \<open>Inl\<close> outcome with the state
  at the throw.
\<close>

section \<open>Stores and requests\<close>

text \<open>\<open>EasyTrigger\<close> (src/plugins/db/easy-trigger.ts, lines 4-14).\<close>

record easy_trigger =
  et_id :: string
  et_name :: string
  et_contractAddress :: string
  et_allowlistActive :: bool
  et_allowlist :: "string list"
  et_userId :: string
  et_network :: string
  et_createdAt :: "string option"
  et_isActive :: bool

text \<open>\<open>EasyTriggerNotification\<close> (lines 25-38); the two optional fields are absent unless
  the contract was called.\<close>

record et_notification =
  nt_id :: string
  nt_callerUrl :: string
  nt_verifiedDomain :: bool
  nt_triggeredContract :: bool
  nt_createdAt :: string
  nt_triggerId :: string
  nt_userId :: string
  nt_body :: string
  nt_manuallyTriggered :: bool
  nt_network :: "string option"
  nt_transactionHash :: "string option"
  nt_seen :: bool

record et_state =
  es_triggers :: "(string \<times> easy_trigger) list"
  es_notifications :: "(string \<times> et_notification) list"
  es_calls :: "tx_call list"

text \<open>What the handler reads from the request: the \<open>x-forwarded-host\<close> and \<open>host\<close>
  headers, the path parameter, and \<open>JSON.stringify(req.body)\<close>.\<close>

record et_request =
  er_xfh :: "string option"
  er_host :: "string option"
  er_triggerId :: string
  er_body :: string

text \<open>What it reads from outside: \<open>randomUUID()\<close>, the ISO time, the executor's
  configuration, and the sending of a transaction (theory \<open>Web3\<close>).\<close>

record et_env =
  ee_uuid :: string
  ee_now :: string
  ee_web3 :: web3_config
  ee_send :: "tx_call \<Rightarrow> string option"

section \<open>The store plugin\<close>

text \<open>\<open>getEasyTrigger\<close> (lines 16-23).\<close>

definition get_easy_trigger :: "et_state \<Rightarrow> string \<Rightarrow> easy_trigger option" where
  "get_easy_trigger st triggerId =
     map_option (\<lambda>t. t\<lparr>et_id := triggerId\<rparr>) (map_of (es_triggers st) (''easyTrigger:'' @ triggerId))"

text \<open>\<open>addEasyTriggerNotification\<close> (lines 40-51).\<close>

definition add_easy_trigger_notification :: "et_env \<Rightarrow> et_state \<Rightarrow> et_notification \<Rightarrow> et_state" where
  "add_easy_trigger_notification env st notification =
     (let n = notification\<lparr>nt_id := ee_uuid env, nt_createdAt := ee_now env, nt_seen := False\<rparr>
      in st\<lparr>es_notifications := AList.update (''easyTriggerNotification:'' @ ee_uuid env) n (es_notifications st)\<rparr>)"

section \<open>URLs and the allowlist\<close>

text \<open>\<open>addHttps\<close> (lines 12-17): prefix \<open>http://\<close> unless the string starts with
  \<open>http://\<close>, \<open>https://\<close>, \<open>ftp://\<close> or \<open>ftps://\<close> (the regex is case-sensitive).\<close>

definition add_https :: "string \<Rightarrow> string" where
  "add_https url =
     (if list_ex (\<lambda>p. take (length p) url = p) [''ftp://'', ''ftps://'', ''http://'', ''https://'']
      then url else ''http://'' @ url)"

text \<open>\<open>checkIfDomainInAllowlist\<close> (lines 19-33): the \<open>hostname[:port]\<close> of every
  entry; an entry the URL constructor refuses makes the whole check throw.\<close>

definition allowed_domain :: "string \<Rightarrow> string result" where
  "allowed_domain url =
     bind_r (url_host_port (add_https url)) (\<lambda>(hostname, port).
       Inr (if port = [] then hostname else hostname @ '':'' @ port))"

definition check_domain_in_allowlist :: "string \<Rightarrow> string list \<Rightarrow> bool result" where
  "check_domain_in_allowlist domain allowlist =
     bind_r (map_r allowed_domain allowlist) (\<lambda>allowedDomains. Inr (domain \<in> set allowedDomains))"

section \<open>The handler\<close>

definition caller_domain :: "et_request \<Rightarrow> string option" where
  "caller_domain req = (if js_truthy (er_xfh req) then er_xfh req else er_host req)"

text \<open>Lines 70-96: the notification, the contract call and the write of line 94.\<close>

definition base_notification :: "et_request \<Rightarrow> easy_trigger \<Rightarrow> string \<Rightarrow> et_notification" where
  "base_notification req trigger domainName =
     \<lparr>nt_id = [], nt_callerUrl = domainName, nt_verifiedDomain = et_allowlistActive trigger,
      nt_triggeredContract = False, nt_createdAt = [], nt_triggerId = er_triggerId req,
      nt_userId = et_userId trigger, nt_body = er_body req,
      nt_manuallyTriggered = (domainName = ''app.dereg.io''), nt_network = None,
      nt_transactionHash = None, nt_seen = False\<rparr>"

definition easy_trigger_call ::
  "et_env \<Rightarrow> et_state \<Rightarrow> et_request \<Rightarrow> (error \<times> et_state) + (response \<times> et_state)" where
  "easy_trigger_call env st req =
     (let domain = caller_domain req in
      if \<not> js_truthy domain then Inr (Response 500 ''Can only call easy trigger via HTTP'', st)
      else let domainName = the domain in
      if er_triggerId req = [] then Inr (Response 500 ''Missing triggerId'', st)
      else case get_easy_trigger st (er_triggerId req) of
        None \<Rightarrow> Inr (Response 500 ''Easy trigger not found'', st)
      | Some trigger \<Rightarrow>
          (case (if et_allowlistActive trigger
                 then check_domain_in_allowlist domainName (et_allowlist trigger) else Inr True) of
             Inl e \<Rightarrow> Inl (e, st)
           | Inr False \<Rightarrow> Inr (Response 500 ''Domain not in allowlist'', st)
           | Inr True \<Rightarrow>
               let notification = base_notification req trigger domainName in
               if et_isActive trigger then
                 (case execute_trigger (ee_web3 env) (ee_send env) (et_contractAddress trigger) (et_network trigger) of
                    Inl e \<Rightarrow> Inl (e, st)
                  | Inr hash \<Rightarrow>
                      let st' = st\<lparr>es_calls := es_calls st @ [trigger_tx (ee_web3 env) (et_contractAddress trigger) (et_network trigger)]\<rparr>
                      in Inr (Response 200 ''Easy trigger called'',
                              add_easy_trigger_notification env st'
                                (notification\<lparr>nt_triggeredContract := True, nt_transactionHash := Some hash,
                                              nt_network := Some (et_network trigger)\<rparr>)))
               else Inr (Response 200 ''Easy trigger called'',
                         add_easy_trigger_notification env st notification)))"

section \<open>Invariants\<close>

text \<open>Every stored notification is keyed by its id, unseen, and carries a transaction hash
  and a network exactly when it records a contract call.  Every sent transaction is
  \<open>executeTriggerOf\<close> on the TriggerManager with the fixed gas limit, for the contract
  of a stored active trigger.\<close>

definition notifications_wf :: "(string \<times> et_notification) list \<Rightarrow> bool" where
  "notifications_wf ns \<longleftrightarrow>
     (\<forall>(k, n) \<in> set ns. k = ''easyTriggerNotification:'' @ nt_id n \<and> \<not> nt_seen n \<and>
        (nt_triggeredContract n \<longleftrightarrow> nt_transactionHash n \<noteq> None) \<and>
        (nt_triggeredContract n \<longleftrightarrow> nt_network n \<noteq> None))"

definition calls_wf :: "et_state \<Rightarrow> bool" where
  "calls_wf s \<longleftrightarrow>
     (\<forall>tx \<in> set (es_calls s). cn_target (tx_contract tx) = trigger_manager_addr \<and>
        tx_method tx = ''executeTriggerOf'' \<and> tx_gasLimit tx = trigger_max_gas \<and>
        (\<exists>k trig. (k, trig) \<in> set (es_triggers s) \<and> et_isActive trig \<and>
           tx_args tx = [et_contractAddress trig]))"

section \<open>Example data\<close>

abbreviation ex_trigger :: easy_trigger where
  "ex_trigger \<equiv> \<lparr>et_id = [], et_name = ''guard'', et_contractAddress = ''0xc'', et_allowlistActive = True,
     et_allowlist = [''https://Shop.example.com/pay''], et_userId = ''u1'', et_network = ''Mainnet'',
     et_createdAt = None, et_isActive = True\<rparr>"

abbreviation ex_et_state :: et_state where
  "ex_et_state \<equiv> \<lparr>es_triggers = [(''easyTrigger:t1'', ex_trigger)], es_notifications = [], es_calls = []\<rparr>"

abbreviation ex_et_env :: et_env where
  "ex_et_env \<equiv> \<lparr>ee_uuid = ''n1'', ee_now = ''t0'', ee_web3 = ex_web3, ee_send = (\<lambda>_. Some ''0xtx'')\<rparr>"

section \<open>Lemmas\<close>

lemma es_calls_add_notification [simp]:
  "es_calls (add_easy_trigger_notification env st n) = es_calls st"
  by (simp add: add_easy_trigger_notification_def Let_def)

lemma add_https_host: "set h \<subseteq> set host_chars \<Longrightarrow> add_https h = ''http://'' @ h"
proof -
  assume a: "set h \<subseteq> set host_chars"
  have c: "CHR '':'' \<notin> set h" using a host_chars_special(1) by auto
  have nt: "\<And>p. take (length p) h = p \<Longrightarrow> CHR '':'' \<notin> set p" using c in_set_takeD by metis
  have "\<not> list_ex (\<lambda>p. take (length p) h = p) [''ftp://'', ''ftps://'', ''http://'', ''https://'']"
    using nt [of "''ftp://''"] nt [of "''ftps://''"] nt [of "''http://''"] nt [of "''https://''"]
    by (auto simp: list_ex_iff)
  then show ?thesis by (simp add: add_https_def)
qed

lemma upper_scheme: "allowed_domain (''HTTP://'' @ h) = Inr ''http''"
proof -
  have a: "add_https (''HTTP://'' @ h) = ''http://HTTP://'' @ h" by (simp add: add_https_def)
  have sch: "takeWhile (\<lambda>c. c \<noteq> CHR '':'') (''http://HTTP://'' @ h) = ''http''" by simp
  have rest: "drop (Suc (length ''http'')) (''http://HTTP://'' @ h) = ''//HTTP://'' @ h" by simp
  show ?thesis
    unfolding allowed_domain_def a url_host_port_def Let_def sch rest
    by (simp add: special_scheme_def host_parse_eval)
qed

lemma check_example: "check_domain_in_allowlist ''shop.example.com'' [''https://Shop.example.com/pay''] = Inr True"
  by (simp add: check_domain_in_allowlist_def allowed_domain_def add_https_def url_host_port_def
      special_scheme_def default_port_def host_parse_eval Let_def)

lemma easy_trigger_call_InrE:
  assumes "easy_trigger_call env st req = Inr (r, st')"
  obtains (same) "st' = st"
  | (inactive) trig where "get_easy_trigger st (er_triggerId req) = Some trig" "\<not> et_isActive trig"
      "st' = add_easy_trigger_notification env st (base_notification req trig (the (caller_domain req)))"
  | (called) trig hash where "get_easy_trigger st (er_triggerId req) = Some trig" "et_isActive trig"
      "execute_trigger (ee_web3 env) (ee_send env) (et_contractAddress trig) (et_network trig) = Inr hash"
      "st' = add_easy_trigger_notification env
               (st\<lparr>es_calls := es_calls st @ [trigger_tx (ee_web3 env) (et_contractAddress trig) (et_network trig)]\<rparr>)
               ((base_notification req trig (the (caller_domain req)))
                  \<lparr>nt_triggeredContract := True, nt_transactionHash := Some hash, nt_network := Some (et_network trig)\<rparr>)"
proof (cases "get_easy_trigger st (er_triggerId req)")
  case None
  then show ?thesis using assms same by (simp add: easy_trigger_call_def Let_def split: if_splits)
next
  case (Some trig)
  show ?thesis
  proof (cases "et_isActive trig")
    case False
    then show ?thesis using assms Some same inactive
      by (simp add: easy_trigger_call_def Let_def split: if_splits sum.splits bool.splits)
  next
    case True
    then show ?thesis using assms Some same called
      by (simp add: easy_trigger_call_def Let_def split: if_splits sum.splits bool.splits)
  qed
qed
lemma add_easy_trigger_notification_fields [simp]:
  "es_triggers (add_easy_trigger_notification env st n) = es_triggers st"
  "es_notifications (add_easy_trigger_notification env st n) =
     AList.update (''easyTriggerNotification:'' @ ee_uuid env)
       (n\<lparr>nt_id := ee_uuid env, nt_createdAt := ee_now env, nt_seen := False\<rparr>) (es_notifications st)"
  by (simp_all add: add_easy_trigger_notification_def Let_def)

lemma base_notification_fields [simp]:
  "nt_triggeredContract (base_notification req trig d) = False"
  "nt_transactionHash (base_notification req trig d) = None"
  "nt_network (base_notification req trig d) = None"
  by (simp_all add: base_notification_def)

lemma notifications_wf_add:
  "notifications_wf (es_notifications st) \<Longrightarrow> (nt_triggeredContract n \<longleftrightarrow> nt_transactionHash n \<noteq> None) \<Longrightarrow>
   (nt_triggeredContract n \<longleftrightarrow> nt_network n \<noteq> None) \<Longrightarrow>
   notifications_wf (es_notifications (add_easy_trigger_notification env st n))"
proof -
  let ?n = "n\<lparr>nt_id := ee_uuid env, nt_createdAt := ee_now env, nt_seen := False\<rparr>"
  let ?k = "''easyTriggerNotification:'' @ ee_uuid env"
  assume wf: "notifications_wf (es_notifications st)"
    and h: "nt_triggeredContract n \<longleftrightarrow> nt_transactionHash n \<noteq> None"
    and w: "nt_triggeredContract n \<longleftrightarrow> nt_network n \<noteq> None"
  have new: "?k = ''easyTriggerNotification:'' @ nt_id ?n \<and> \<not> nt_seen ?n \<and>
      (nt_triggeredContract ?n \<longleftrightarrow> nt_transactionHash ?n \<noteq> None) \<and>
      (nt_triggeredContract ?n \<longleftrightarrow> nt_network ?n \<noteq> None)"
    using h w by simp
  show ?thesis unfolding notifications_wf_def add_easy_trigger_notification_fields
  proof (rule ballI)
    fix x assume "x \<in> set (AList.update ?k ?n (es_notifications st))"
    then have "x = (?k, ?n) \<or> x \<in> set (es_notifications st)" using set_update_sub by fastforce
    then show "case x of (k, n) \<Rightarrow> k = ''easyTriggerNotification:'' @ nt_id n \<and> \<not> nt_seen n \<and>
        (nt_triggeredContract n \<longleftrightarrow> nt_transactionHash n \<noteq> None) \<and>
        (nt_triggeredContract n \<longleftrightarrow> nt_network n \<noteq> None)"
      using new wf unfolding notifications_wf_def by auto
  qed
qed

lemma get_easy_trigger_in: "get_easy_trigger st tid = Some trig \<Longrightarrow>
   \<exists>k t. (k, t) \<in> set (es_triggers st) \<and> et_isActive t = et_isActive trig \<and> et_contractAddress t = et_contractAddress trig"
proof -
  assume "get_easy_trigger st tid = Some trig"
  then obtain z where z: "map_of (es_triggers st) (''easyTrigger:'' @ tid) = Some z" "trig = z\<lparr>et_id := tid\<rparr>"
    by (auto simp: get_easy_trigger_def)
  then have "(''easyTrigger:'' @ tid, z) \<in> set (es_triggers st)" by (simp add: map_of_SomeD)
  with z(2) show ?thesis by auto
qed

lemma easy_trigger_call_wf:
  assumes "easy_trigger_call env st req = Inr (r, st')"
    and "notifications_wf (es_notifications st)" and "calls_wf st"
  shows "notifications_wf (es_notifications st') \<and> calls_wf st' \<and> es_triggers st' = es_triggers st"
  using assms(1)
proof (cases rule: easy_trigger_call_InrE)
  case same
  then show ?thesis using assms by simp
next
  case (inactive trig)
  then show ?thesis using assms(2,3) notifications_wf_add
    by (simp add: calls_wf_def add_easy_trigger_notification_def Let_def)
next
  case (called trig hash)
  have n: "notifications_wf (es_notifications st')"
    using called(4) notifications_wf_add [of "st\<lparr>es_calls := _\<rparr>"] assms(2) by simp
  obtain k t where kt: "(k, t) \<in> set (es_triggers st)" "et_isActive t = et_isActive trig"
      "et_contractAddress t = et_contractAddress trig"
    using get_easy_trigger_in [OF called(1)] by blast
  have "es_calls st' = es_calls st @ [trigger_tx (ee_web3 env) (et_contractAddress trig) (et_network trig)]"
    "es_triggers st' = es_triggers st"
    using called(4) by (simp_all add: add_easy_trigger_notification_def Let_def)
  then have c: "calls_wf st'"
    using assms(3) kt called(2) unfolding calls_wf_def by (auto intro!: exI [of _ k] exI [of _ t])
  show ?thesis using n c called(4) by simp
qed

section \<open>Properties\<close>

text \<open>
  C9.  The allowlist trusts a header the caller writes: for an active trigger, a request
  whose \<open>X-Forwarded-Host\<close> header names an allowed domain gets the contract called and
  the answer \<open>Easy trigger called\<close>, whatever host the request really came from.
\<close>

theorem easy_trigger_forwarded_host_bypass:
  assumes "get_easy_trigger st tid = Some trig" and "tid \<noteq> []" and "et_isActive trig"
    and "check_domain_in_allowlist d (et_allowlist trig) = Inr True" and "d \<noteq> []"
    and "execute_trigger (ee_web3 env) (ee_send env) (et_contractAddress trig) (et_network trig) = Inr hash"
  shows "\<exists>st'. easy_trigger_call env st \<lparr>er_xfh = Some d, er_host = host, er_triggerId = tid, er_body = b\<rparr> =
                 Inr (Response 200 ''Easy trigger called'', st') \<and>
               es_calls st' = es_calls st @ [trigger_tx (ee_web3 env) (et_contractAddress trig) (et_network trig)]"
  using assms by (simp add: easy_trigger_call_def caller_domain_def js_truthy_def Let_def)

theorem easy_trigger_forwarded_host_bypass_witness:
  "\<exists>st'. easy_trigger_call ex_et_env ex_et_state
           \<lparr>er_xfh = Some ''shop.example.com'', er_host = Some ''attacker.test'', er_triggerId = ''t1'', er_body = ''{}''\<rparr> =
         Inr (Response 200 ''Easy trigger called'', st') \<and> es_calls st' = [trigger_tx ex_web3 ''0xc'' ''Mainnet'']"
proof -
  have g: "get_easy_trigger ex_et_state ''t1'' = Some (ex_trigger\<lparr>et_id := ''t1''\<rparr>)"
    by (simp add: get_easy_trigger_def)
  have c: "check_domain_in_allowlist ''shop.example.com'' (et_allowlist (ex_trigger\<lparr>et_id := ''t1''\<rparr>)) = Inr True"
    using check_example by simp
  have e: "execute_trigger (ee_web3 ex_et_env) (ee_send ex_et_env) (et_contractAddress (ex_trigger\<lparr>et_id := ''t1''\<rparr>))
             (et_network (ex_trigger\<lparr>et_id := ''t1''\<rparr>)) = Inr ''0xtx''"
    by (simp add: execute_trigger_eq)
  show ?thesis
    using easy_trigger_forwarded_host_bypass [OF g _ _ c _ e, of "Some ''attacker.test''" "''{}''"] by simp
qed

text \<open>
  C10.  The contract is called only through the checks: a request that makes an on-chain
  call names a stored, active trigger on one of the three supported networks, whose
  allowlist (when active) admits the caller's claimed domain, and the call made is that
  trigger's contract on that trigger's network, once.
\<close>

theorem easy_trigger_call_guarded:
  assumes "easy_trigger_call env st req = Inr (resp, st')" and "es_calls st' \<noteq> es_calls st"
  shows "\<exists>trig. get_easy_trigger st (er_triggerId req) = Some trig \<and> et_isActive trig \<and>
           (et_allowlistActive trig \<longrightarrow> check_domain_in_allowlist (the (caller_domain req)) (et_allowlist trig) = Inr True) \<and>
           et_network trig \<in> set [''Goerli'', ''Mainnet'', ''Sepolia''] \<and>
           es_calls st' = es_calls st @ [trigger_tx (ee_web3 env) (et_contractAddress trig) (et_network trig)]"
  using assms
  by (auto simp: easy_trigger_call_def execute_trigger_Inr Let_def
      split: if_splits option.splits sum.splits bool.splits)

theorem easy_trigger_call_guarded_witness:
  "\<exists>trig. get_easy_trigger ex_et_state ''t1'' = Some trig \<and> et_isActive trig \<and>
     (et_allowlistActive trig \<longrightarrow> check_domain_in_allowlist ''shop.example.com'' (et_allowlist trig) = Inr True) \<and>
     et_network trig \<in> set [''Goerli'', ''Mainnet'', ''Sepolia''] \<and>
     es_calls (snd (projr (easy_trigger_call ex_et_env ex_et_state
        \<lparr>er_xfh = Some ''shop.example.com'', er_host = None, er_triggerId = ''t1'', er_body = ''{}''\<rparr>))) =
       es_calls ex_et_state @ [trigger_tx ex_web3 (et_contractAddress trig) (et_network trig)]"
proof -
  let ?req = "\<lparr>er_xfh = Some ''shop.example.com'', er_host = None, er_triggerId = ''t1'', er_body = ''{}''\<rparr>"
  have r: "easy_trigger_call ex_et_env ex_et_state ?req =
      Inr (Response 200 ''Easy trigger called'', snd (projr (easy_trigger_call ex_et_env ex_et_state ?req)))"
    using check_example
    by (simp add: easy_trigger_call_def caller_domain_def js_truthy_def get_easy_trigger_def
        execute_trigger_eq Let_def)
  have c: "es_calls (snd (projr (easy_trigger_call ex_et_env ex_et_state ?req))) \<noteq> es_calls ex_et_state"
    using check_example
    by (simp add: easy_trigger_call_def caller_domain_def js_truthy_def get_easy_trigger_def
        execute_trigger_eq Let_def)
  from easy_trigger_call_guarded [OF r c] show ?thesis
    by (simp add: caller_domain_def js_truthy_def)
qed

text \<open>
  C34.  The answer and the notification agree: a request is answered
  \<open>Easy trigger called\<close> exactly when a notification was stored under the fresh uuid,
  unseen, for the requested trigger, with the claimed domain as caller, marked manual
  exactly when that domain is \<open>app.dereg.io\<close>, and marked as a contract call exactly when
  a call was made; every other answer is a 500 that changes nothing.
\<close>

theorem easy_trigger_outcome:
  assumes "easy_trigger_call env st req = Inr (resp, st')"
  shows "(resp = Response 200 ''Easy trigger called'' \<and>
          (\<exists>n. map_of (es_notifications st') (''easyTriggerNotification:'' @ ee_uuid env) = Some n \<and>
               \<not> nt_seen n \<and> nt_triggerId n = er_triggerId req \<and> nt_callerUrl n = the (caller_domain req) \<and>
               (nt_manuallyTriggered n \<longleftrightarrow> the (caller_domain req) = ''app.dereg.io'') \<and>
               (nt_triggeredContract n \<longleftrightarrow> es_calls st' \<noteq> es_calls st))) \<or>
         (\<exists>msg. resp = Response 500 msg \<and> st' = st)"
  using assms
  by (auto simp: easy_trigger_call_def add_easy_trigger_notification_def update_conv' base_notification_def
      Let_def split: if_splits option.splits sum.splits bool.splits)

theorem easy_trigger_outcome_witness:
  "easy_trigger_call ex_et_env ex_et_state
      \<lparr>er_xfh = None, er_host = Some ''app.dereg.io'', er_triggerId = ''t2'', er_body = ''{}''\<rparr> =
     Inr (Response 500 ''Easy trigger not found'', ex_et_state) \<and>
   ((Response 500 ''Easy trigger not found'' = Response 200 ''Easy trigger called'' \<and>
     (\<exists>n. map_of (es_notifications ex_et_state) (''easyTriggerNotification:'' @ ee_uuid ex_et_env) = Some n \<and>
          \<not> nt_seen n \<and> nt_triggerId n = ''t2'' \<and> nt_callerUrl n = ''app.dereg.io'' \<and>
          (nt_manuallyTriggered n \<longleftrightarrow> ''app.dereg.io'' = ''app.dereg.io'') \<and>
          (nt_triggeredContract n \<longleftrightarrow> es_calls ex_et_state \<noteq> es_calls ex_et_state))) \<or>
    (\<exists>msg. Response 500 ''Easy trigger not found'' = Response 500 msg \<and> ex_et_state = ex_et_state))"
proof -
  have r: "easy_trigger_call ex_et_env ex_et_state
      \<lparr>er_xfh = None, er_host = Some ''app.dereg.io'', er_triggerId = ''t2'', er_body = ''{}''\<rparr> =
     Inr (Response 500 ''Easy trigger not found'', ex_et_state)"
    by (simp add: easy_trigger_call_def caller_domain_def js_truthy_def get_easy_trigger_def)
  from easy_trigger_outcome [OF r] r show ?thesis by (simp add: caller_domain_def js_truthy_def)
qed

text \<open>
  C35.  An unsupported network gets no answer: for an active trigger whose checks pass but
  whose network is not Goerli, Mainnet or Sepolia, \<open>executeTrigger\<close> throws inside the
  handler, which has no \<open>catch\<close>, so the request is never answered (spec section 6 asks
  for a non-200 answer on failures); nothing is called or stored.
\<close>

theorem easy_trigger_bad_network:
  assumes "get_easy_trigger st (er_triggerId req) = Some trig" and "er_triggerId req \<noteq> []"
    and "js_truthy (caller_domain req)" and "\<not> et_allowlistActive trig" and "et_isActive trig"
    and "et_contractAddress trig \<noteq> []" and "et_network trig \<notin> set [''Goerli'', ''Mainnet'', ''Sepolia'']"
  shows "easy_trigger_call env st req =
           Inl (TriggerRejected ''No network provided, or wrong network provided. Possible opions: Goerli, Mainnet'', st)"
  using assms by (auto simp: easy_trigger_call_def execute_trigger_def Let_def)

theorem easy_trigger_bad_network_witness:
  "easy_trigger_call ex_et_env
     (ex_et_state\<lparr>es_triggers := [(''easyTrigger:t1'', ex_trigger\<lparr>et_allowlistActive := False, et_network := ''Base''\<rparr>)]\<rparr>)
     \<lparr>er_xfh = None, er_host = Some ''app.dereg.io'', er_triggerId = ''t1'', er_body = ''{}''\<rparr> =
   Inl (TriggerRejected ''No network provided, or wrong network provided. Possible opions: Goerli, Mainnet'',
        ex_et_state\<lparr>es_triggers := [(''easyTrigger:t1'', ex_trigger\<lparr>et_allowlistActive := False, et_network := ''Base''\<rparr>)]\<rparr>)"
proof -
  let ?st = "ex_et_state\<lparr>es_triggers := [(''easyTrigger:t1'', ex_trigger\<lparr>et_allowlistActive := False, et_network := ''Base''\<rparr>)]\<rparr>"
  let ?req = "\<lparr>er_xfh = None, er_host = Some ''app.dereg.io'', er_triggerId = ''t1'', er_body = ''{}''\<rparr>"
  have g: "get_easy_trigger ?st (er_triggerId ?req) =
      Some (ex_trigger\<lparr>et_allowlistActive := False, et_network := ''Base'', et_id := ''t1''\<rparr>)"
    by (simp add: get_easy_trigger_def)
  show ?thesis
    using easy_trigger_bad_network [OF g, of ex_et_env] by (simp add: caller_domain_def js_truthy_def)
qed

text \<open>
  C36.  How an allowlist entry reads: an entry written as a bare lower-case domain name
  (one whose last label is not a number, so the URL parser does not read it as an IPv4
  address), or as an \<open>http://\<close> or \<open>https://\<close> URL of it with any path, query or fragment,
  admits exactly that host name; an entry whose scheme is written in capitals (\<open>HTTP://\<dots>\<close>) is not
  recognised by \<open>addHttps\<close> and admits only the domain \<open>http\<close>.
\<close>

theorem allowlist_entry_host:
  assumes "h \<noteq> []" and "set h \<subseteq> set host_chars" and "r = [] \<or> hd r \<in> set ''/?#''"
    and "\<not> ends_in_number h"
  shows "allowed_domain h = Inr h \<and> allowed_domain (''https://'' @ h @ r) = Inr h \<and>
         allowed_domain (''http://'' @ h @ r) = Inr h \<and> allowed_domain (''HTTP://'' @ h @ r) = Inr ''http''"
proof -
  note hp = host_parse_domain [OF assms(2,4)]
  have "allowed_domain h = Inr h"
    using url_host_port_http [OF assms(1,2), of "[]" "''http://''"] add_https_host [OF assms(2)] hp
    by (simp add: allowed_domain_def)
  moreover have "allowed_domain (''https://'' @ h @ r) = Inr h"
    using url_host_port_http [OF assms(1-3), of "''https://''"] hp by (simp add: allowed_domain_def add_https_def)
  moreover have "allowed_domain (''http://'' @ h @ r) = Inr h"
    using url_host_port_http [OF assms(1-3), of "''http://''"] hp by (simp add: allowed_domain_def add_https_def)
  ultimately show ?thesis using upper_scheme [of "h @ r"] by simp
qed

theorem allowlist_entry_host_witness:
  "allowed_domain ''shop.example.com'' = Inr ''shop.example.com'' \<and>
   allowed_domain (''https://'' @ ''shop.example.com'' @ ''/pay'') = Inr ''shop.example.com'' \<and>
   allowed_domain (''http://'' @ ''shop.example.com'' @ ''/pay'') = Inr ''shop.example.com'' \<and>
   allowed_domain (''HTTP://'' @ ''shop.example.com'' @ ''/pay'') = Inr ''http''"
  by (rule allowlist_entry_host) (simp_all add: host_chars_def host_parse_eval)

end
