(* ===== verification/Routing.thy ===== *)
theory Routing
  imports Prelude JsStrings Url
begin

text \<open>
  HTTP wiring: which handler an incoming request reaches.  \<open>initRoutes\<close>
  (src/routes/index.ts) mounts three routers on the app (src/app.ts).  Each router
  declares its routes with \<open>router.post\<close>.  Express 4 is modelled as it matches
  paths with path-to-regexp 0.1 in its default options, case-insensitive and
  non-strict:
  \<^item> a mount \<open>app.use(prefix, router)\<close> matches \<open>^prefix\/?(?=\/|$)\<close>;
  \<^item> the router sees the rest of the path, with a leading \<open>/\<close> added when missing;
  \<^item> a route \<open>/lit\<close> matches \<open>^\/lit\/?$\<close>;
  \<^item> a route \<open>/:name\<close> matches \<open>^\/([^\/]+?)\/?$\<close>.
  A router that has no matching route passes the request on to the next mount.  The
  path is the request's pathname; the query string is not part of it.  Parameter
  decoding (\<open>decodeURIComponent\<close>) is not modelled.
\<close>

text \<open>The route handlers the app has, with the path parameter of the easy-trigger route.\<close>

datatype handler = EasyTriggerCall string | AddressActivity | CreateAddressActivity | AlertInit

section \<open>Path matching\<close>

text \<open>The match of a mount \<open>prefix\<close> (a lower-case literal), as the path the router
  then sees.\<close>

definition mount_prefix :: "string \<Rightarrow> string \<Rightarrow> string option" where
  "mount_prefix prefix path =
     (let n = length prefix; r = drop n path
      in if js_lower (take n path) \<noteq> prefix then None
         else if r = [] then Some ''/''
         else if hd r \<noteq> CHR ''/'' then None
         else if tl r = [] then Some ''/''
         else if hd (tl r) = CHR ''/'' then Some (tl r)
         else Some r)"

definition route_literal :: "string \<Rightarrow> string \<Rightarrow> bool" where
  "route_literal lit path \<longleftrightarrow> js_lower path = lit \<or> js_lower path = lit @ ''/''"

definition route_param :: "string \<Rightarrow> string option" where
  "route_param path =
     (if path = [] \<or> hd path \<noteq> CHR ''/'' then None
      else let q = tl path;
               x = (if q \<noteq> [] \<and> last q = CHR ''/'' then butlast q else q)
           in if x \<noteq> [] \<and> CHR ''/'' \<notin> set x then Some x else None)"

section \<open>The routers\<close>

text \<open>src/routes/easy-trigger/index.ts, line 35.\<close>

definition easy_trigger_router :: "string \<Rightarrow> string \<Rightarrow> handler option" where
  "easy_trigger_router method path =
     (if method = ''POST'' then map_option EasyTriggerCall (route_param path) else None)"

text \<open>src/routes/alchemy/index.ts, lines 71 and 179.\<close>

definition alchemy_router :: "string \<Rightarrow> string \<Rightarrow> handler option" where
  "alchemy_router method path =
     (if method = ''POST'' \<and> route_literal ''/address-activity'' path then Some AddressActivity
      else if method = ''POST'' \<and> route_literal ''/create-address-activity'' path then Some CreateAddressActivity
      else None)"

text \<open>src/routes/alert/index.ts, line 11.\<close>

definition alert_router :: "string \<Rightarrow> string \<Rightarrow> handler option" where
  "alert_router method path =
     (if method = ''POST'' \<and> route_literal ''/init'' path then Some AlertInit else None)"

text \<open>\<open>initRoutes\<close> (src/routes/index.ts, lines 6-10): the mounts in their order.\<close>

definition init_routes :: "(string \<times> (string \<Rightarrow> string \<Rightarrow> handler option)) list" where
  "init_routes = [(''/easy-trigger'', easy_trigger_router), (''/alchemy'', alchemy_router),
                  (''/alert'', alert_router)]"

text \<open>The app's layer stack: the first mount whose prefix matches and whose router has a
  matching route handles the request.\<close>

fun dispatch_stack ::
  "(string \<times> (string \<Rightarrow> string \<Rightarrow> handler option)) list \<Rightarrow> string \<Rightarrow> string \<Rightarrow> handler option" where
  "dispatch_stack [] method path = None"
| "dispatch_stack ((prefix, router) # layers) method path =
     (case mount_prefix prefix path of
        None \<Rightarrow> dispatch_stack layers method path
      | Some rest \<Rightarrow> (case router method rest of
                        None \<Rightarrow> dispatch_stack layers method path
                      | Some h \<Rightarrow> Some h))"

definition dispatch :: "string \<Rightarrow> string \<Rightarrow> handler option" where
  "dispatch method path = dispatch_stack init_routes method path"

section \<open>The app\<close>

text \<open>src/app.ts, line 6.\<close>

definition app_port :: nat where
  "app_port = 7010"

text \<open>Line 11: \<open>express.json({limit: '50mb'})\<close>, in bytes (the \<open>bytes\<close> package reads
  \<open>mb\<close> as \<open>2^20\<close>).\<close>

definition json_limit :: nat where
  "json_limit = 50 * 1024 * 1024"

end
