(* ===== verification/Server.thy ===== *)
theory Server
  imports Routing InitRoute EasyTrigger RegistryRace
begin

text \<open>
  The whole app (src/app.ts): the JSON body parser, then the routes of
  src/routes/index.ts, each running its handler over the stores.  The state joins
  what the handlers write:
  \<^item> the alert definitions, the asset transfers and the monitored contracts
    (\<open>app_state\<close>, theory \<open>InitRoute\<close>);
  \<^item> the easy-trigger store (\<open>et_state\<close>, theory \<open>EasyTrigger\<close>).
  One request runs to completion before the next one starts.  The interleavings of two
  registrations are the subject of theories \<open>RegistryRace\<close> and \<open>AlertDefinitions\<close>.
  Inside one request, the retry lookup of the webhook handler therefore sees the same
  registry as the first lookup.  A request has one of three outcomes:
  \<^item> it is answered;
  \<^item> a handler throws with no \<open>catch\<close>, so Express 4 never answers it (\<open>Unanswered\<close>);
  \<^item> it never completes (\<open>None\<close>: the history query of \<open>/alert/init\<close> does not end).
\<close>

section \<open>Requests\<close>

text \<open>The parsed JSON body, in the shape the handler that reads it expects, or any other
  JSON value.\<close>

datatype req_body = InitRequest init_body | ActivityRequest address_activity_update | OtherJson

text \<open>A request: method, pathname, headers (lower-case names, as Node gives them), the
  size of the body in bytes, the parsed body, and \<open>JSON.stringify(req.body)\<close>.\<close>

record http_request =
  hq_method :: string
  hq_path :: string
  hq_headers :: "(string \<times> string) list"
  hq_bodyBytes :: nat
  hq_body :: req_body
  hq_bodyJson :: string

datatype outcome = Answered response | Unanswered error

record server_state =
  sv_app :: app_state
  sv_et :: et_state

text \<open>What the handlers read from outside, for one request.\<close>

record server_env =
  sv_init :: init_env
  sv_trigger :: et_env

section \<open>The handlers behind the routes\<close>

text \<open>\<open>req.body\<close> as \<open>POST /alert/init\<close> destructures it: a body of another shape has
  none of the three fields.\<close>

definition init_body_of :: "req_body \<Rightarrow> init_body" where
  "init_body_of b = (case b of InitRequest ib \<Rightarrow> ib
                      | _ \<Rightarrow> \<lparr>ib_userId = None, ib_contractAddress = None, ib_name = None\<rparr>)"

text \<open>The easy-trigger request: the two headers and the route parameter.\<close>

definition et_request_of :: "http_request \<Rightarrow> string \<Rightarrow> et_request" where
  "et_request_of req triggerId =
     \<lparr>er_xfh = map_of (hq_headers req) ''x-forwarded-host'', er_host = map_of (hq_headers req) ''host'',
      er_triggerId = triggerId, er_body = hq_bodyJson req\<rparr>"

definition handle :: "server_env \<Rightarrow> server_state \<Rightarrow> http_request \<Rightarrow> handler \<Rightarrow> (outcome \<times> server_state) option" where
  "handle env st req h =
     (case h of
        AlertInit \<Rightarrow>
          map_option (\<lambda>(r, a). (Answered r, st\<lparr>sv_app := a\<rparr>))
            (alert_init (sv_init env) (sv_app st) (init_body_of (hq_body req)))
      | AddressActivity \<Rightarrow>
          (case hq_body req of
             ActivityRequest data \<Rightarrow>
               (let reg = as_registry (sv_app st) in
                case address_activity reg reg (as_assets (sv_app st)) data of
                  Inl e \<Rightarrow> Some (Unanswered e, st)
                | Inr assets \<Rightarrow> Some (Answered (Response 200 ''ok''), st\<lparr>sv_app := (sv_app st)\<lparr>as_assets := assets\<rparr>\<rparr>))
           | _ \<Rightarrow> Some (Unanswered (MissingField ''event''), st))
      | CreateAddressActivity \<Rightarrow>
          Some (Answered (create_address_activity (ie_createWebhook (sv_init env)) (ie_baseUrl (sv_init env))), st)
      | EasyTriggerCall triggerId \<Rightarrow>
          (case easy_trigger_call (sv_trigger env) (sv_et st) (et_request_of req triggerId) of
             Inl (e, s) \<Rightarrow> Some (Unanswered e, st\<lparr>sv_et := s\<rparr>)
           | Inr (r, s) \<Rightarrow> Some (Answered r, st\<lparr>sv_et := s\<rparr>)))"

section \<open>The app\<close>

text \<open>src/app.ts, lines 8-13: the JSON parser refuses a body over its limit with 413
  before any route runs, and a request no route matches gets Express's 404.\<close>

definition server_step :: "server_env \<Rightarrow> server_state \<Rightarrow> http_request \<Rightarrow> (outcome \<times> server_state) option" where
  "server_step env st req =
     (if hq_bodyBytes req > json_limit then Some (Answered (Response 413 ''request entity too large''), st)
      else case dispatch (hq_method req) (hq_path req) of
             None \<Rightarrow> Some (Answered (Response 404 (''Cannot '' @ hq_method req @ '' '' @ hq_path req)), st)
           | Some h \<Rightarrow> handle env st req h)"

text \<open>The states the app reaches from empty stores, by any sequence of completed
  requests.  Easy triggers are written by another service, so the trigger store starts
  with any content.\<close>

inductive server_reach :: "server_state \<Rightarrow> bool" where
  start: "server_reach \<lparr>sv_app = \<lparr>as_alerts = [], as_assets = (\<lambda>_. Map.empty), as_registry = []\<rparr>,
                        sv_et = \<lparr>es_triggers = ts, es_notifications = [], es_calls = []\<rparr>\<rparr>"
| step: "server_reach st \<Longrightarrow> server_step env st req = Some (out, st') \<Longrightarrow> server_reach st'"

text \<open>The invariant of the app's stores: a well-formed registry, typed alert definitions,
  well-formed notifications, and only trigger-manager calls for stored active triggers.\<close>

definition server_inv :: "server_state \<Rightarrow> bool" where
  "server_inv st \<longleftrightarrow> store_wf (as_registry (sv_app st)) \<and> alert_store_typed_but_name (as_alerts (sv_app st)) \<and>
     notifications_wf (es_notifications (sv_et st)) \<and> calls_wf (sv_et st)"

section \<open>Example data\<close>

abbreviation ex_srv0 :: server_state where
  "ex_srv0 \<equiv> \<lparr>sv_app = ex_app, sv_et = ex_et_state\<rparr>"

abbreviation ex_srv_env :: server_env where
  "ex_srv_env \<equiv> \<lparr>sv_init = ex_env ex_live, sv_trigger = ex_et_env\<rparr>"

abbreviation ex_init_req :: http_request where
  "ex_init_req \<equiv> \<lparr>hq_method = ''POST'', hq_path = ''/alert/init'', hq_headers = [(''host'', ''hub.example'')],
     hq_bodyBytes = 60, hq_body = InitRequest ex_body, hq_bodyJson = ''{}''\<rparr>"

abbreviation ex_trigger_req :: http_request where
  "ex_trigger_req \<equiv> \<lparr>hq_method = ''POST'', hq_path = ''/easy-trigger/t1'',
     hq_headers = [(''host'', ''attacker.test''), (''x-forwarded-host'', ''shop.example.com'')],
     hq_bodyBytes = 2, hq_body = OtherJson, hq_bodyJson = ''{}''\<rparr>"

section \<open>Lemmas\<close>

lemma alert_init_effect:
  assumes "alert_init env st b = Some (r, st')"
  shows "st' = st \<or>
         (\<exists>props. as_alerts st' = init_alert_definitions (as_alerts st) props (ie_alerts_iso env) (ie_uuids env) \<and>
            (as_registry st' = as_registry st \<or>
             (\<exists>c u w. add_monitored_contract (as_registry st) c u (Some w) (ie_registry_iso env) = Inr (as_registry st'))))"
  using assms
  by (auto simp: alert_init_def init_registration_def Let_def split: if_splits option.splits sum.splits)

lemma easy_trigger_call_Inl: "easy_trigger_call env st req = Inl (e, st') \<Longrightarrow> st' = st"
  by (auto simp: easy_trigger_call_def Let_def split: if_splits option.splits sum.splits bool.splits)

lemma server_step_cases:
  assumes "server_step env st req = Some (out, st')"
  shows "st' = st \<or>
         (\<exists>b r. alert_init (sv_init env) (sv_app st) b = Some (r, sv_app st') \<and> sv_et st' = sv_et st) \<or>
         (\<exists>a. st' = st\<lparr>sv_app := (sv_app st)\<lparr>as_assets := a\<rparr>\<rparr>) \<or>
         (\<exists>etr x. easy_trigger_call (sv_trigger env) (sv_et st) etr = Inr (x, sv_et st') \<and> sv_app st' = sv_app st)"
  using assms
  by (auto simp: server_step_def handle_def easy_trigger_call_Inl Let_def
      split: if_splits option.splits handler.splits req_body.splits sum.splits prod.splits)

lemma alert_init_inv:
  assumes "alert_init env st b = Some (r, st')"
    and "store_wf (as_registry st)" and "alert_store_typed_but_name (as_alerts st)"
  shows "store_wf (as_registry st') \<and> alert_store_typed_but_name (as_alerts st')"
  using alert_init_effect [OF assms(1)] assms(2,3) init_alert_definitions_typed_but_name add_monitored_contract_store_wf
  by metis

lemma server_step_inv:
  assumes "server_step env st req = Some (out, st')" and "server_inv st"
  shows "server_inv st'"
  using server_step_cases [OF assms(1)]
proof (elim disjE exE conjE)
  assume "st' = st" then show ?thesis using assms(2) by simp
next
  fix b r assume "alert_init (sv_init env) (sv_app st) b = Some (r, sv_app st')" "sv_et st' = sv_et st"
  then show ?thesis using alert_init_inv assms(2) by (simp add: server_inv_def)
next
  fix a assume "st' = st\<lparr>sv_app := (sv_app st)\<lparr>as_assets := a\<rparr>\<rparr>"
  then show ?thesis using assms(2) by (simp add: server_inv_def)
next
  fix etr x assume "easy_trigger_call (sv_trigger env) (sv_et st) etr = Inr (x, sv_et st')" "sv_app st' = sv_app st"
  then show ?thesis using easy_trigger_call_wf assms(2) by (simp add: server_inv_def)
qed

lemma server_reach_inv: "server_reach st \<Longrightarrow> server_inv st"
proof (induction rule: server_reach.induct)
  case (start ts)
  then show ?case
    by (simp add: server_inv_def store_wf_def alert_store_typed_but_name_def notifications_wf_def calls_wf_def)
next
  case (step st env req out st')
  then show ?case using server_step_inv by blast
qed

lemma dispatch_easy_trigger:
  "dispatch m p = Some (EasyTriggerCall t) \<Longrightarrow> m = ''POST'' \<and> t \<noteq> [] \<and> CHR ''/'' \<notin> set t"
  by (auto simp: dispatch_def init_routes_def easy_trigger_router_def alchemy_router_def alert_router_def
      route_param_def Let_def split: option.splits if_splits)

lemma easy_trigger_call_missing_id:
  "easy_trigger_call env s r = Inr (Response 500 ''Missing triggerId'', s') \<Longrightarrow> er_triggerId r = []"
  by (auto simp: easy_trigger_call_def Let_def split: if_splits option.splits sum.splits bool.splits)

lemma ex_dispatch [simp]:
  "dispatch ''POST'' ''/alert/init'' = Some AlertInit"
  "dispatch ''POST'' ''/easy-trigger/t1'' = Some (EasyTriggerCall ''t1'')"
  by (simp_all add: dispatch_def init_routes_def mount_prefix_def easy_trigger_router_def alchemy_router_def
      alert_router_def route_literal_def route_param_def js_lower_def)

lemma ex_srv_init: "\<exists>r. server_step ex_srv_env ex_srv0 ex_init_req = Some (Answered (Response 200 ''ok''), ex_srv0\<lparr>sv_app := r\<rparr>)"
proof -
  obtain r where r: "alert_init (ex_env ex_live) ex_app ex_body = Some (Response 200 ''ok'', r)"
    using ex_init_ok by blast
  show ?thesis using r by (simp add: server_step_def handle_def init_body_of_def json_limit_def)
qed

lemma ex_srv0_reach: "server_reach ex_srv0"
  using server_reach.start [of "es_triggers ex_et_state"] by simp

text \<open>The route does not check \<open>name\<close>: a watch request with \<open>"name": 42\<close> stores an
  alert definition that is not a \<open>ThresholdAlert\<close>.\<close>

lemma server_alert_name_unchecked:
  "\<exists>st. server_reach st \<and> \<not> alert_store_typed (as_alerts (sv_app st))"
proof -
  let ?b = "ex_body\<lparr>ib_name := Some (JNum 42)\<rparr>"
  let ?req = "ex_init_req\<lparr>hq_body := InitRequest ?b\<rparr>"
  obtain te where te: "get_transfer_events ex_live ''0xc'' ''5m'' 1201000 1201000 = Some (Inr te)"
    using ex_live_events by blast
  obtain r where r: "alert_init (ex_env ex_live) ex_app ?b = Some (Response 200 ''ok'', r)"
    and al: "as_alerts r = init_alert_definitions []
       \<lparr>ap_userId = ''u1'', ap_contractAddress = ''0xc'', ap_name = Some (JNum 42)\<rparr> ''t1'' [''id1'']"
    by (simp add: alert_init_valid init_registration_def ex_lower te add_monitored_contract_def
        add_address_activity_webhook_def Let_def)
  have s: "server_step ex_srv_env ex_srv0 ?req = Some (Answered (Response 200 ''ok''), ex_srv0\<lparr>sv_app := r\<rparr>)"
    using r by (simp add: server_step_def handle_def init_body_of_def json_limit_def)
  have "server_reach (ex_srv0\<lparr>sv_app := r\<rparr>)" by (rule server_reach.step [OF ex_srv0_reach s])
  moreover have "\<not> alert_store_typed (as_alerts r)"
    by (simp add: al init_alert_definitions_def init_plan_eq init_write_def alert_store_typed_def
        th_alert_type_defs filter_duplicates_def user_alerts_def alert_search_def lodash_find_def)
  ultimately show ?thesis by auto
qed

lemma ex_srv_trigger:
  "\<exists>out st'. server_step ex_srv_env ex_srv0 ex_trigger_req = Some (out, st') \<and> es_calls (sv_et st') \<noteq> []"
  using check_example
  by (simp add: server_step_def handle_def et_request_of_def json_limit_def easy_trigger_call_def
      caller_domain_def js_truthy_def get_easy_trigger_def execute_trigger_eq Let_def)

section \<open>Properties\<close>

text \<open>
  C14.  The easy-trigger handler's \<open>Missing triggerId\<close> branch (line 51) is dead code:
  Express's route \<open>/:triggerId\<close> never matches an empty segment, so no request the app
  receives is answered \<open>500 Missing triggerId\<close>.
\<close>

theorem server_never_missing_trigger_id:
  "server_step env st req \<noteq> Some (Answered (Response 500 ''Missing triggerId''), st')"
proof
  assume a: "server_step env st req = Some (Answered (Response 500 ''Missing triggerId''), st')"
  then obtain h where h: "dispatch (hq_method req) (hq_path req) = Some h"
    by (auto simp: server_step_def split: if_splits option.splits)
  show False
  proof (cases h)
    case (EasyTriggerCall t)
    then have "t \<noteq> []" using dispatch_easy_trigger h by blast
    moreover have "easy_trigger_call (sv_trigger env) (sv_et st) (et_request_of req t) =
        Inr (Response 500 ''Missing triggerId'', sv_et st')"
      using a h EasyTriggerCall
      by (auto simp: server_step_def handle_def split: if_splits sum.splits prod.splits)
    ultimately show False using easy_trigger_call_missing_id by (force simp: et_request_of_def)
  next
    case AlertInit
    then show False using a h
      by (auto simp: server_step_def handle_def alert_init_def init_registration_def Let_def
          split: if_splits option.splits sum.splits)
  qed (use a h in \<open>auto simp: server_step_def handle_def create_address_activity_def Let_def
          split: if_splits option.splits sum.splits req_body.splits\<close>)
qed


text \<open>
  C13.  Every on-chain call the app ever makes is \<open>executeTriggerOf\<close> on the TriggerManager
  contract, with gas limit 200000, for the contract of a stored active trigger: whatever
  sequence of requests the app has served, every sent transaction satisfies this.
\<close>

theorem server_calls_safe:
  assumes "server_reach st"
  shows "\<forall>tx \<in> set (es_calls (sv_et st)). cn_target (tx_contract tx) = trigger_manager_addr \<and>
           tx_method tx = ''executeTriggerOf'' \<and> tx_gasLimit tx = 200000 \<and>
           (\<exists>k trig. (k, trig) \<in> set (es_triggers (sv_et st)) \<and> et_isActive trig \<and>
              tx_args tx = [et_contractAddress trig])"
  using server_reach_inv [OF assms] by (simp add: server_inv_def calls_wf_def trigger_max_gas_def)

theorem server_calls_safe_witness:
  "cn_target (tx_contract (hd (es_calls (sv_et (snd (the (server_step ex_srv_env ex_srv0 ex_trigger_req))))))) =
     trigger_manager_addr \<and>
   tx_method (hd (es_calls (sv_et (snd (the (server_step ex_srv_env ex_srv0 ex_trigger_req)))))) = ''executeTriggerOf'' \<and>
   tx_gasLimit (hd (es_calls (sv_et (snd (the (server_step ex_srv_env ex_srv0 ex_trigger_req)))))) = 200000 \<and>
   (\<exists>k trig. (k, trig) \<in> set (es_triggers (sv_et (snd (the (server_step ex_srv_env ex_srv0 ex_trigger_req))))) \<and>
      et_isActive trig \<and>
      tx_args (hd (es_calls (sv_et (snd (the (server_step ex_srv_env ex_srv0 ex_trigger_req)))))) = [et_contractAddress trig])"
proof -
  obtain out st' where s: "server_step ex_srv_env ex_srv0 ex_trigger_req = Some (out, st')"
    and c: "es_calls (sv_et st') \<noteq> []"
    using ex_srv_trigger by blast
  have "server_reach st'" by (rule server_reach.step [OF ex_srv0_reach s])
  moreover have "hd (es_calls (sv_et st')) \<in> set (es_calls (sv_et st'))" using c by simp
  ultimately show ?thesis using server_calls_safe s by fastforce
qed

text \<open>
  C17.  Type safety of the alert store, up to the name: whatever sequence of requests the
  app has served, every stored alert definition, with its \<open>name\<close> set aside, is a JSON
  object of the TypeScript type \<open>ThresholdAlert\<close> (src/plugins/db/alert-definition.ts,
  lines 6-31): each key once, string fields where the type has strings, an enum member as
  \<open>target\<close> and \<open>valueType\<close>, and a number as \<open>value\<close>.  The \<open>name\<close> is whatever JSON
  value the request sent (\<open>server_alert_name_unchecked\<close>).
\<close>

theorem server_alerts_typed:
  assumes "server_reach st"
  shows "alert_store_typed_but_name (as_alerts (sv_app st))"
  using server_reach_inv [OF assms] by (simp add: server_inv_def)

theorem server_alerts_typed_witness:
  "alert_store_typed_but_name (as_alerts (sv_app (snd (the (server_step ex_srv_env ex_srv0 ex_init_req)))))"
proof -
  obtain r where s: "server_step ex_srv_env ex_srv0 ex_init_req = Some (Answered (Response 200 ''ok''), ex_srv0\<lparr>sv_app := r\<rparr>)"
    using ex_srv_init by blast
  have "server_reach (ex_srv0\<lparr>sv_app := r\<rparr>)" by (rule server_reach.step [OF ex_srv0_reach s])
  from server_alerts_typed [OF this] s show ?thesis by simp
qed

text \<open>
  C18.  The app keeps its registry and its notifications well formed: whatever sequence of
  requests it has served, every monitored contract has a non-empty duplicate-free user
  list and its timestamps under a unique key, and every notification is stored under its
  own id, unseen, with a transaction hash and a network exactly when it records a
  contract call.
\<close>

theorem server_registry_wf:
  assumes "server_reach st"
  shows "store_wf (as_registry (sv_app st)) \<and> notifications_wf (es_notifications (sv_et st))"
  using server_reach_inv [OF assms] by (simp add: server_inv_def)

theorem server_registry_wf_witness:
  "store_wf (as_registry (sv_app (snd (the (server_step ex_srv_env ex_srv0 ex_init_req))))) \<and>
   notifications_wf (es_notifications (sv_et (snd (the (server_step ex_srv_env ex_srv0 ex_init_req)))))"
proof -
  obtain r where s: "server_step ex_srv_env ex_srv0 ex_init_req = Some (Answered (Response 200 ''ok''), ex_srv0\<lparr>sv_app := r\<rparr>)"
    using ex_srv_init by blast
  have "server_reach (ex_srv0\<lparr>sv_app := r\<rparr>)" by (rule server_reach.step [OF ex_srv0_reach s])
  from server_registry_wf [OF this] s show ?thesis by simp
qed

text \<open>
  C15.  Every request completes: when the provider's pagination ends for every transfer
  query (each chain of continuation tokens reaches a last page or a failing query),
  every request the app receives, in any state, is answered or fails with a throw.  The
  only way a request can hang is a pagination that never ends.
\<close>

theorem server_step_completes:
  assumes "\<forall>params fb cb. pages_end (ie_provider (sv_init env)) params fb cb None"
  shows "\<exists>r. server_step env st req = Some r"
proof -
  have "\<exists>r. handle env st req h = Some r" for h
  proof (cases h)
    case AlertInit
    then show ?thesis using alert_init_ends [OF assms] by (auto simp: handle_def)
  next
    case AddressActivity
    then show ?thesis by (simp add: handle_def Let_def split: req_body.splits sum.splits)
  qed (simp_all add: handle_def split: sum.splits prod.splits)
  then show ?thesis by (simp add: server_step_def split: option.splits)
qed

theorem server_step_completes_witness:
  "(\<forall>params fb cb. pages_end ex_live params fb cb None) \<and>
   (\<exists>r. server_step ex_srv_env ex_srv0 ex_init_req = Some r)"
proof -
  have "pages_end ex_live params fb cb None" for params fb cb
  proof (cases "params = FromAddress ''0xc''")
    case True
    then show ?thesis by (intro pages_end.last [where ts = "[ex_rt ''0xc'' ''0xa'' ''o'']" and nxt = None]) (simp_all add: transfers_request_def)
  next
    case False
    then show ?thesis by (intro pages_end.last [where ts = "[ex_rt ''0xa'' ''0xc'' ''i'']" and nxt = None]) (simp_all add: transfers_request_def)
  qed
  then have h: "\<forall>params fb cb. pages_end ex_live params fb cb None" by blast
  then show ?thesis using server_step_completes [of ex_srv_env] by simp
qed

end
