(* ===== verification/Spec2Isabelle.thy ===== *)
theory Spec2Isabelle
  imports Prelude JsStrings JsNumber Url Web3 Provider BlockTiming TransferFetcher Scaling Tvl Registry Webhook
    TransferEvents RegistryRace AlertDefinitions InitRoute EasyTrigger Subscription Routing Server
begin

text \<open>
  A shallow embedding of alert-hub (the TypeScript sources under src/): the
  transfer-ingestion and TVL-reconstruction core, the routes that drive it, and the
  easy-trigger feature, with the theorems that say what the code does.

  \<^bold>\<open>The parts and how they interact.\<close>
  \<open>POST /alert/init\<close> (src/routes/alert/index.ts) registers a watch.  It writes the
  default alert definitions (src/plugins/db/alert-definition.ts) and seeds five minutes of
  history with \<open>getTransferEvents\<close> (src/plugins/eth-data/transfer-events.ts).  That
  query takes the block the chain is about to produce (\<open>getCurrentBlock\<close>), fetches both
  directions of transfers with the paginated \<open>getAllAssetTransfers\<close>, normalises the rows
  (\<open>cleanTransfers\<close>), and reconstructs the running balance on every transfer, walking
  back from the balances read at the anchor block (\<open>addCurrentTokenBalances\<close>).  The
  route then creates a provider webhook (\<open>addAddressActivityWebhook\<close>,
  src/plugins/alchemy/index.ts), whose callback is \<open>${BASE_URL}/alchemy/address-activity\<close>,
  and binds it in the registry of monitored contracts (src/plugins/db/monitored-contracts.ts).  The webhook
  handler \<open>POST /address-activity\<close> (src/routes/alchemy/index.ts) resolves each delivery
  to a contract through that binding and stores the normalised records keyed by a unique
  id.  \<open>POST /easy-trigger/:triggerId\<close> (src/routes/easy-trigger/index.ts) checks the
  caller's domain against a trigger's allowlist, calls the trigger's contract on chain
  (src/plugins/web3-interactions/index.ts), and stores a notification
  (src/plugins/db/easy-trigger.ts).  src/app.ts mounts the three routers
  (src/routes/index.ts) behind a JSON body parser; the theory \<open>Server\<close> runs every
  request through that routing to its handler over the joined stores, so that invariants
  of the whole app are proved over every sequence of requests.  Every call to the data provider goes through one
  record, \<open>provider\<close>, of query functions.  Each component is proved for an arbitrary
  provider; the witnesses use concrete tables.

  \<^bold>\<open>Theories.\<close>
  \<^item> \<open>Prelude\<close>: the error type (one constructor per \<open>throw\<close>) with its messages,
    \<open>'a result = error + 'a\<close> with \<open>bind_r\<close>, HTTP responses, and JavaScript's
    \<open>undefined\<close>/\<open>NaN\<close> numbers.  It also holds truthiness, \<open>||\<close>, and lodash
    \<open>uniqBy\<close>/\<open>groupBy\<close>.
  \<^item> \<open>JsStrings\<close>: decimal and hex printing and parsing, \<open>padStart\<close>, \<open>split\<close>,
    \<open>includes\<close> and \<open>toLowerCase\<close>, with round-trip lemmas.
  \<^item> \<open>JsNumber\<close>: doubles as rationals, \<open>round_frac p q\<close> the double nearest to
    \<open>p / q\<close> (ties to even), with its error bound and the cases where it is exact.
  \<^item> \<open>Url\<close>: the part of the WHATWG URL parser the code relies on (host, port, path),
    with the standard's host parser: lower-casing, forbidden domain code points, and the
    IPv4 parser and serializer for hosts whose last label is a number.
  \<^item> \<open>Web3\<close>: \<open>executeTrigger\<close> and the transaction it builds
    (src/plugins/web3-interactions/index.ts).
  \<^item> \<open>Subscription\<close>: \<open>addAddressActivityWebhook\<close> and the unused
    \<open>/alchemy/create-address-activity\<close> route.
  \<^item> \<open>Routing\<close>: \<open>initRoutes\<close>, each router's routes, Express 4 path matching, the
    port and the body limit of src/app.ts.
  \<^item> \<open>Provider\<close>: the SDK's data, the \<open>CleanTransfers\<close> record, and the provider interface.
  \<^item> \<open>BlockTiming\<close>: \<open>getCurrentBlock\<close> (lines 21-38), with Node's timer clamping.
  \<^item> \<open>TransferFetcher\<close>: \<open>getNumOfBlocks\<close>, \<open>timeRangeToMinutes\<close>,
    \<open>getAllAssetTransfers\<close> with its \<open>do \<dots> while (pageKey)\<close> loop, \<open>cleanTransfers\<close>
    and \<open>getInflowAndOutflow\<close> (lines 40-264).
  \<^item> \<open>Scaling\<close>: \<open>bigintHexToNumber\<close> (lines 80-89): the scale factor
    \<open>BigInt(10 ** decimals)\<close>, the string \<open>intPart.fraction\<close>, and \<open>Number\<close> of it.
  \<^item> \<open>Tvl\<close>: \<open>addCurrentTokenBalances\<close> and \<open>addTvlToTransfers\<close> (lines 91-165 and
    317-329).  The in-place mutation of shared transfer objects is modelled by tagging
    each transfer with its index, walking the tagged list, and writing back by index.
  \<^item> \<open>TransferEvents\<close>: \<open>getTransferEvents\<close> (lines 266-315), its guard and its catch.
  \<^item> \<open>Registry\<close>: \<open>addMonitoredContract\<close>, \<open>updateMonitoredContract\<close> and
    \<open>getMonitoredContractByAlchemyWebhookId\<close> over an association-list store.
  \<^item> \<open>RegistryRace\<close>: concurrent \<open>addMonitoredContract\<close> calls.  An \<open>inductive\<close> step
    relation interleaves their reads and writes, one program counter per call.  A
    scheduler function \<open>amc_run\<close> executes a given interleaving.
  \<^item> \<open>Webhook\<close>: the whole \<open>/address-activity\<close> handler.
  \<^item> \<open>AlertDefinitions\<close>: \<open>getDefaultAlerts\<close>, \<open>filterDuplicates\<close>,
    \<open>initAlertDefinitions\<close>.  Documents are JSON objects as association lists.
  \<^item> \<open>InitRoute\<close>: the \<open>/alert/init\<close> handler over the three stores it writes.
  \<^item> \<open>EasyTrigger\<close>: the easy-trigger handler, its store plugin and the allowlist check,
    with the invariants of its store.
  \<^item> \<open>Server\<close>: the whole app as a step function \<open>server_step\<close> from a request and the
    joined stores, and the states it reaches (\<open>server_reach\<close>, an inductive
    predicate).
  \<^item> This theory: properties that span the registration route, the registry, the webhook
    handler, the subscription and the routing.

  \<^bold>\<open>What the theorems show.\<close>
  \<^item> Tvl:
    \<^item> a closed form of the value the code writes on every transfer: only the globally
      first transfer gets the snapshot, and the code adds the visited transfer's own signed
      amount;
    \<^item> the walk visits the transfers most recent first, ties in reverse list order;
    \<^item> the anchor theorem pins the native balance read at the anchor block;
    \<^item> the lemma \<open>tvl_walk_diverges_from_ledger\<close> exhibits the divergence from the
      balance ledger of spec section 4.3.
  \<^item> Webhook: the registration race with its one retry, resolved and unresolved.  Unique
    ids are injective for token, internal and external entries.  Any two entries of one
    transaction in the other categories (NFT transfers) get the same id.
  \<^item> Registry and RegistryRace:
    \<^item> well-formedness is preserved by one call and by every interleaving of many;
    \<^item> refinement: on well-formed stores one call implements the spec's \<open>upsert\<close> on an
      abstract registry (contract to set of users and webhook id, \<open>registry_abs\<close>,
      \<open>reg_upsert\<close>);
    \<^item> two concurrent registrations can lose a user (spec section 5 asks for atomicity).
  \<^item> Across components: after a successful \<open>/alert/init\<close> the created webhook resolves
    to the contract.  A second successful \<open>/alert/init\<close> for the same contract orphans
    the first webhook, whose deliveries then fail with \<open>UnmatchedWebhook\<close>.  The
    callback of an http(s) origin \<open>BASE_URL\<close> is routed to the webhook handler, but
    not when \<open>BASE_URL\<close> ends with a slash.  The default \<open>BASE_URL\<close> names port 80
    while the app listens on 7010.
  \<^item> TransferEvents and InitRoute: the catch masks invalid ranges and provider faults.
    The insufficient-history error passes it, but \<open>/alert/init\<close> still answers
    \<open>500 Unknown error\<close> and keeps the alerts it already wrote.
  \<^item> AlertDefinitions: initialisation is idempotent and stores the 30 percent / 3 hour TVL
    alert.  Two concurrent initialisations store a duplicate.  On typed stores,
    \<open>filterDuplicates\<close> equals a reference definition by field inclusion.
  \<^item> Server, over every sequence of requests:
    \<^item> every stored alert definition has the TypeScript type \<open>ThresholdAlert\<close> in every
      field but \<open>name\<close>.  The route stores the request's \<open>name\<close> unchecked, so one request
      with \<open>"name": 42\<close> stores an alert that is not a \<open>ThresholdAlert\<close>
      (\<open>server_alert_name_unchecked\<close>);
    \<^item> the registry and the notifications stay well formed;
    \<^item> every on-chain call is \<open>executeTriggerOf\<close> on the TriggerManager for a stored active
      trigger;
    \<^item> no request is answered \<open>Missing triggerId\<close> (that branch is dead);
    \<^item> liveness: when the provider's pagination ends for every query (\<open>pages_end\<close>),
      every request completes, answered or with a throw.
  \<^item> Web3: the transaction \<open>executeTrigger\<close> sends, with its contract, gas limit, key
    and RPC URL.
  \<^item> EasyTrigger:
    \<^item> a contract is called only through the checks;
    \<^item> the allowlist trusts the caller-written \<open>X-Forwarded-Host\<close> header;
    \<^item> the answer agrees with the stored notification;
    \<^item> a bad network leaves the request unanswered;
    \<^item> how an allowlist entry reads.
  \<^item> Fetcher, Scaling, BlockTiming: see below.
    \<^item> The pagination loop returns the concatenation of all pages exactly when the
      continuation tokens form a finite chain.
    \<^item> The window arithmetic and the timestamp estimate are shown.
    \<^item> Up to 22 decimals, a balance's value is the double nearest to the balance over
      \<open>10^decimals\<close>.  A lemma derives the relative error \<open>2^-53\<close> from it, and
      exactness below \<open>2^53\<close> with no decimals.
    \<^item> The wait is none or 1 ms to 8 s.

  \<^bold>\<open>Modelling choices.\<close>
  \<^item> A JavaScript number is the rational its double denotes.  A conversion to a
    double rounds to 53 significant bits, to nearest with ties to even, and has an
    unbounded exponent (\<open>JsNumber\<close>).  Decimal scaling only produces values far
    from overflow and from subnormals: balances are below \<open>2^256\<close>, and the number of
    decimals is a \<open>uint8\<close>.  So this model is the double arithmetic of those values.
    \<open>10 ** d\<close> and \<open>Number(s)\<close> are taken correctly rounded.  ECMAScript leaves the
    first implementation-approximated, and lets the second round after the 20th
    significant digit.
  \<^item> Sums of amounts (the TVL walk, the flows) are exact rational sums; see below.
  \<^item> The provider is a fixed snapshot for the duration of a call.  The registry is read
    twice by the webhook handler: the model takes the store as each read sees it.
  \<^item> The pagination loop is a \<open>partial_function (option)\<close>; no fuel is used.  A request
    that never completes is \<open>None\<close>.  The inductive \<open>pages_end\<close> says that the provider's
    continuation tokens from a key end, and under it every request completes.
  \<^item> Concurrency is modelled where a claim depends on it: \<open>addMonitoredContract\<close> as an
    interleaving step relation, \<open>initAlertDefinitions\<close> as a read and a write that two
    calls can order either way.
  \<^item> Stores do not fail.  Clock readings, \<open>randomUUID\<close> values and the process
    environment are inputs of the handlers.  The two SDK calls that change the world
    (\<open>createWebhook\<close>, \<open>executeTriggerOf.send\<close>) are parameters: functions from the
    request the code builds to its result.
  \<^item> The app serves one request at a time in \<open>Server\<close>; the interleavings that claims
    depend on are modelled in \<open>RegistryRace\<close> and \<open>AlertDefinitions\<close>.  A throw outside
    any \<open>catch\<close> is an unanswered request, as in Express 4.
  \<^item> plugins/db/asset-transfers is not in the repository.  Its \<open>addAssetTransfers\<close> and
    \<open>addAssetTransfersWithLastTvl\<close> are modelled from the spec as keyed maps.  The last-TVL
    bookkeeping the second one's name suggests is not modelled, and no claim rests on the
    store beyond its keying by \<open>uniqueId\<close>.
  \<^item> The RediSearch index schemas are not in the repository.  A tag query
    (\<open>getMonitoredContractByAlchemyWebhookId\<close>, the alert search) is modelled as exact
    equality in store order.  A TAG field folds case unless it is created
    \<open>CASESENSITIVE\<close>; the values queried here are lower-cased contract addresses and
    provider webhook ids.
  \<^item> JSON values are strings, integers, booleans, null, arrays and objects.  A non-integer
    number in a request is not distinguished; no claim reads the value of one.
  \<^item> \<open>timeRangeToMinutes\<close> looks the range up in an object literal.  The inherited keys
    (\<open>constructor\<close>, \<open>__proto__\<close>) pass that lookup and fail later, in \<open>toHex\<close>, inside
    the same catch.  The model refuses them at the lookup, so the caller sees the same
    masked error.  \<open>addCurrentTokenBalances\<close> resolves two tokens with the same symbol in
    list order, not in promise order.
  \<^item> The WHATWG URL parser is modelled for scheme, authority, user info, host (with the
    standard's host parser and its IPv4 reading), port and path.  Not modelled: IPv6
    literals, internationalised names (domain to ASCII is ASCII lower-casing),
    percent-decoding, dot segments, and the removal of tabs, newlines and surrounding
    spaces from the input.  \<open>toLowerCase\<close> is ASCII lower-casing.
  \<^item> Express's router is modelled as path-to-regexp 0.1 matches in its default options.
    Parameter decoding, content types other than JSON, and methods other than POST are
    not modelled (the app has POST routes only).

  \<^bold>\<open>Not modelled.\<close>
  \<^item> The SDK and ethers calls themselves (\<open>createWebhook\<close>, \<open>executeTriggerOf.send\<close>):
    pure I/O, parameters of the model.
  \<^item> src/plugins/discord/index.ts: the whole file is commented out, so there is no code
    to model.
  \<^item> The logger plugin and \<open>app.listen\<close>: output only.
  \<^item> Logging, and the commented-out resync branch of the webhook handler.
  \<^item> The rounding of each addition and subtraction in the TVL walk: amounts enter as
    doubles, but the sums are exact.  A double sum rounds once per step, which the
    model leaves out.  The claims about the walk (order, anchoring, the ledger) are
    claims about the exact sums.
  \<^item> The NFT pass-through fields of \<open>CleanTransfers\<close>.
\<close>

section \<open>Properties across components\<close>

text \<open>A second watch request for the example contract, by user \<open>u2\<close>, for which the
  provider creates the webhook \<open>wh2\<close>.\<close>

lemma ex_second_init_ok:
  "\<exists>r. alert_init ((ex_env ex_live)\<lparr>ie_createWebhook := (\<lambda>_. Some ''wh2''), ie_uuids := [''id2'']\<rparr>)
         (snd (the (alert_init (ex_env ex_live) ex_app ex_body)))
         (ex_body\<lparr>ib_userId := Some (JStr ''u2'')\<rparr>) = Some (Response 200 ''ok'', r)"
proof -
  obtain te where te: "get_transfer_events ex_live ''0xc'' ''5m'' 1201000 1201000 = Some (Inr te)"
    using ex_live_events by blast
  show ?thesis
    by (simp add: alert_init_valid init_registration_def ex_lower te add_monitored_contract_def
        add_address_activity_webhook_def Let_def)
qed

text \<open>The window of the default alert is one \<open>timeRangeToMinutes\<close> accepts; \<open>1d\<close>, which
  the comment on \<open>ThresholdAlert.timeRange\<close> lists, is not.\<close>

lemma time_range_1d_rejected:
  "map_of (th_alert props now) ''timeRange'' = Some (JStr ''3h'') \<and> time_range_to_minutes ''3h'' = Inr 180 \<and>
   time_range_to_minutes ''1d'' = Inl (InvalidTimeRange ''1d'')"
  by (simp add: time_range_to_minutes_def time_ranges_def)

lemma default_callback_port:
  "penv ''BASE_URL'' = None \<Longrightarrow>
   url_host_port (wc_url (address_activity_request (base_url penv) c)) = Inr (''localhost'', [])"
  using url_host_port_http [of "''localhost''" "''/alchemy/address-activity''" "''http://''"]
  by (simp add: base_url_def address_activity_request_def host_chars_def host_parse_eval)

text \<open>
  C7.  Registration and ingestion agree: after a successful \<open>POST /alert/init\<close>, the
  webhook the provider created resolves, at the first lookup of the ingestion handler, to
  the lower-cased contract with the registering user among its users, and the user has an
  alert definition on that contract.
\<close>

theorem init_then_webhook_resolves:
  assumes ok: "alert_init env st body = Some (Response 200 ''ok'', st')"
    and u: "ib_userId body = Some (JStr u)" and c: "ib_contractAddress body = Some (JStr c)"
    and colon: "CHR '':'' \<notin> set c" and wf: "store_wf (as_registry st)"
    and w: "add_address_activity_webhook (ie_createWebhook env) (ie_baseUrl env) (js_lower c) = Inr w" "w \<noteq> []"
    and fresh: "\<forall>(k, d) \<in> set (as_registry st). mc_alchemyWebhookId d = Some w \<longrightarrow> k = mc_key (js_lower c)"
    and ids: "ie_uuids env \<noteq> []"
  shows "(\<exists>d. resolve_webhook (as_registry st') db2 w = Inr (js_lower c, d) \<and>
              (\<exists>us. mc_userIds d = Some us \<and> u \<in> set us)) \<and>
         user_alerts (as_alerts st') \<lparr>ap_userId = u, ap_contractAddress = js_lower c, ap_name = ib_name body\<rparr> \<noteq> []"
proof -
  obtain w' where w': "add_address_activity_webhook (ie_createWebhook env) (ie_baseUrl env) (js_lower c) = Inr w'"
    and reg: "add_monitored_contract (as_registry st) (js_lower c) u (Some w') (ie_registry_iso env) = Inr (as_registry st')"
    and al: "as_alerts st' = init_alert_definitions (as_alerts st)
        \<lparr>ap_userId = u, ap_contractAddress = js_lower c, ap_name = ib_name body\<rparr> (ie_alerts_iso env) (ie_uuids env)"
    using alert_init_ok [OF ok u c] by blast
  have "w' = w" using w w' by simp
  then obtain d where "get_by_webhook_id (as_registry st') w = Some (js_lower c, d)"
      and "\<exists>us. mc_userIds d = Some us \<and> u \<in> set us"
    using lookup_after_register [OF wf _ fresh js_lower_no_colon [OF colon] w(2)] reg by blast
  moreover obtain i0 is0 where "ie_uuids env = i0 # is0" using ids by (cases "ie_uuids env") auto
  ultimately show ?thesis
    using al init_alert_definitions_user_alerts by (auto simp: resolve_webhook_def)
qed

theorem init_then_webhook_resolves_witness:
  "(\<exists>d. resolve_webhook (as_registry (snd (the (alert_init (ex_env ex_live) ex_app ex_body)))) [] ''wh1'' =
          Inr (''0xc'', d) \<and> (\<exists>us. mc_userIds d = Some us \<and> ''u1'' \<in> set us)) \<and>
   user_alerts (as_alerts (snd (the (alert_init (ex_env ex_live) ex_app ex_body))))
     \<lparr>ap_userId = ''u1'', ap_contractAddress = ''0xc'', ap_name = None\<rparr> \<noteq> []"
proof -
  obtain r where r: "alert_init (ex_env ex_live) ex_app ex_body = Some (Response 200 ''ok'', r)"
    using ex_init_ok by blast
  have wf: "store_wf (as_registry ex_app)" by (simp add: store_wf_def)
  show ?thesis
    using init_then_webhook_resolves [OF r _ _ _ wf, of "''u1''" "''0xC''" "''wh1''"] r
    by (simp add: ex_lower add_address_activity_webhook_def)
qed

text \<open>
  C8.  A second watch request orphans the first webhook: each successful
  \<open>POST /alert/init\<close> creates a new provider webhook and rebinds the contract to it, so
  after a second request for the same contract (another user, or the same user again) no
  contract is bound to the first webhook any more, and every delivery of that webhook
  with a non-zero entry fails with \<open>UnmatchedWebhook\<close>, although the provider keeps
  sending them.
\<close>

theorem second_init_orphans_webhook:
  assumes ok1: "alert_init env1 st0 body1 = Some (Response 200 ''ok'', st1)"
    and ok2: "alert_init env2 st1 body2 = Some (Response 200 ''ok'', st2)"
    and u: "ib_userId body1 = Some (JStr u1)" "ib_userId body2 = Some (JStr u2)"
    and c: "ib_contractAddress body1 = Some (JStr c)" "ib_contractAddress body2 = Some (JStr c)"
    and w: "add_address_activity_webhook (ie_createWebhook env1) (ie_baseUrl env1) (js_lower c) = Inr w1"
      "add_address_activity_webhook (ie_createWebhook env2) (ie_baseUrl env2) (js_lower c) = Inr w2" "w1 \<noteq> w2" "w1 \<noteq> []" "w2 \<noteq> []"
    and wf: "store_wf (as_registry st0)"
    and fresh: "\<forall>(k, d) \<in> set (as_registry st0). mc_alchemyWebhookId d = Some w1 \<longrightarrow> k = mc_key (js_lower c)"
    and data: "au_webhookId data = w1" "filter (\<lambda>e. ac_value e \<noteq> 0) (au_activity data) \<noteq> []"
  shows "get_by_webhook_id (as_registry st2) w1 = None \<and>
         address_activity (as_registry st2) (as_registry st2) assets data = Inl UnmatchedWebhook"
proof -
  let ?k = "mc_key (js_lower c)"
  have r1: "add_monitored_contract (as_registry st0) (js_lower c) u1 (Some w1) (ie_registry_iso env1) = Inr (as_registry st1)"
    using alert_init_ok [OF ok1 u(1) c(1)] w(1) by (metis sum.inject(2))
  have r2: "add_monitored_contract (as_registry st1) (js_lower c) u2 (Some w2) (ie_registry_iso env2) = Inr (as_registry st2)"
    using alert_init_ok [OF ok2 u(2) c(2)] w(2) by (metis sum.inject(2))
  obtain v1 where db1: "as_registry st1 = AList.update ?k v1 (as_registry st0)"
    using add_monitored_contract_binds [OF wf r1 w(4)] by blast
  have wf1: "store_wf (as_registry st1)"
    using add_monitored_contract_store_wf [OF wf r1] .
  obtain v2 where db2: "as_registry st2 = AList.update ?k v2 (as_registry st1)" and v2: "mc_alchemyWebhookId v2 = Some w2"
    using add_monitored_contract_binds [OF wf1 r2 w(5)] by blast
  have none: "\<forall>x \<in> set (as_registry st2). mc_alchemyWebhookId (snd x) \<noteq> Some w1"
  proof
    fix x assume "x \<in> set (as_registry st2)"
    then have "x = (?k, v2) \<or> (x \<in> set (as_registry st1) \<and> fst x \<noteq> ?k)"
      using set_update_other [of "as_registry st1" ?k v2] wf1 db2 by (auto simp: store_wf_def)
    then have "x = (?k, v2) \<or> (x \<in> set (as_registry st0) \<and> fst x \<noteq> ?k)"
      using set_update_other [of "as_registry st0" ?k v1] wf db1 by (auto simp: store_wf_def)
    then show "mc_alchemyWebhookId (snd x) \<noteq> Some w1"
      using v2 w(3) fresh by auto
  qed
  then have "filter (\<lambda>(k, d). mc_alchemyWebhookId d = Some w1) (as_registry st2) = []"
    by (auto simp: filter_empty_conv)
  then have "get_by_webhook_id (as_registry st2) w1 = None"
    by (simp add: get_by_webhook_id_def)
  with data show ?thesis
    by (simp add: address_activity_def resolve_webhook_def)
qed

theorem second_init_orphans_webhook_witness:
  "get_by_webhook_id (as_registry (snd (the (alert_init ((ex_env ex_live)\<lparr>ie_createWebhook := (\<lambda>_. Some ''wh2''), ie_uuids := [''id2'']\<rparr>)
       (snd (the (alert_init (ex_env ex_live) ex_app ex_body))) (ex_body\<lparr>ib_userId := Some (JStr ''u2'')\<rparr>))))) ''wh1'' = None \<and>
   address_activity
     (as_registry (snd (the (alert_init ((ex_env ex_live)\<lparr>ie_createWebhook := (\<lambda>_. Some ''wh2''), ie_uuids := [''id2'']\<rparr>)
       (snd (the (alert_init (ex_env ex_live) ex_app ex_body))) (ex_body\<lparr>ib_userId := Some (JStr ''u2'')\<rparr>)))))
     (as_registry (snd (the (alert_init ((ex_env ex_live)\<lparr>ie_createWebhook := (\<lambda>_. Some ''wh2''), ie_uuids := [''id2'']\<rparr>)
       (snd (the (alert_init (ex_env ex_live) ex_app ex_body))) (ex_body\<lparr>ib_userId := Some (JStr ''u2'')\<rparr>)))))
     (\<lambda>_. Map.empty) (ex_update [ex_act]) = Inl UnmatchedWebhook"
proof -
  obtain r1 where r1: "alert_init (ex_env ex_live) ex_app ex_body = Some (Response 200 ''ok'', r1)"
    using ex_init_ok by blast
  obtain r2 where r2: "alert_init ((ex_env ex_live)\<lparr>ie_createWebhook := (\<lambda>_. Some ''wh2''), ie_uuids := [''id2'']\<rparr>)
         (snd (the (alert_init (ex_env ex_live) ex_app ex_body)))
         (ex_body\<lparr>ib_userId := Some (JStr ''u2'')\<rparr>) = Some (Response 200 ''ok'', r2)"
    using ex_second_init_ok by blast
  have wf: "store_wf (as_registry ex_app)" by (simp add: store_wf_def)
  show ?thesis
    using second_init_orphans_webhook [OF r1 r2[unfolded r1, simplified] _ _ _ _ _ _ _ _ _ wf,
        of "''u1''" "''u2''" "''0xC''" "''wh1''" "''wh2''" "ex_update [ex_act]" "\<lambda>_. Map.empty"] r1 r2
    by (simp add: add_address_activity_webhook_def)
qed

text \<open>
  C16.  The webhook callback reaches its handler: for a \<open>BASE_URL\<close> that is an http(s)
  origin, the callback URL \<open>addAddressActivityWebhook\<close> registers names the host and port
  \<open>BASE_URL\<close> names (for a domain name, that name on the scheme's default port), and its
  path \<open>/alchemy/address-activity\<close> is routed by the app to the address-activity
  handler.  A \<open>BASE_URL\<close> with a trailing slash gives the path
  \<open>//alchemy/address-activity\<close>, which no route matches, so every delivery is answered
  404.
\<close>

theorem webhook_callback_routing:
  assumes "h \<noteq> []" and "set h \<subseteq> set host_chars" and "pre = ''http://'' \<or> pre = ''https://''"
  shows "url_host_port (wc_url (address_activity_request (pre @ h) c)) =
           (case host_parse h of None \<Rightarrow> Inl (InvalidUrl (wc_url (address_activity_request (pre @ h) c)))
            | Some h' \<Rightarrow> Inr (h', [])) \<and>
         (\<not> ends_in_number h \<longrightarrow> url_host_port (wc_url (address_activity_request (pre @ h) c)) = Inr (h, [])) \<and>
         dispatch ''POST'' (url_path (wc_url (address_activity_request (pre @ h) c))) = Some AddressActivity \<and>
         dispatch ''POST'' (url_path (wc_url (address_activity_request (pre @ h @ ''/'') c))) = None"
proof -
  have u: "wc_url (address_activity_request (pre @ h) c) = pre @ h @ ''/alchemy/address-activity''"
    by (simp add: address_activity_request_def)
  have u2: "wc_url (address_activity_request (pre @ h @ ''/'') c) = pre @ h @ ''//alchemy/address-activity''"
    by (simp add: address_activity_request_def)
  have hp: "url_host_port (pre @ h @ ''/alchemy/address-activity'') =
      (case host_parse h of None \<Rightarrow> Inl (InvalidUrl (pre @ h @ ''/alchemy/address-activity''))
       | Some h' \<Rightarrow> Inr (h', []))"
    using url_host_port_http [OF assms(1,2) _ assms(3)] by simp
  moreover have "\<not> ends_in_number h \<longrightarrow> url_host_port (pre @ h @ ''/alchemy/address-activity'') = Inr (h, [])"
    using hp host_parse_domain [OF assms(2)] by simp
  moreover have "url_path (pre @ h @ ''/alchemy/address-activity'') = ''/alchemy/address-activity''"
    using url_path_http [OF assms(1,2) _ _ assms(3)] by simp
  moreover have "url_path (pre @ h @ ''//alchemy/address-activity'') = ''//alchemy/address-activity''"
    using url_path_http [OF assms(1,2) _ _ assms(3)] by simp
  moreover have "dispatch ''POST'' ''/alchemy/address-activity'' = Some AddressActivity"
    by (simp add: dispatch_def init_routes_def mount_prefix_def easy_trigger_router_def alchemy_router_def
        route_literal_def route_param_def js_lower_def)
  moreover have "dispatch ''POST'' ''//alchemy/address-activity'' = None"
    by (simp add: dispatch_def init_routes_def mount_prefix_def easy_trigger_router_def alchemy_router_def
        alert_router_def route_literal_def route_param_def js_lower_def)
  ultimately show ?thesis unfolding u u2 by simp
qed

theorem webhook_callback_routing_witness:
  "url_host_port (wc_url (address_activity_request (''https://'' @ ''hub.example'') ''0xc'')) =
     Inr (''hub.example'', []) \<and>
   dispatch ''POST'' (url_path (wc_url (address_activity_request (''https://'' @ ''hub.example'') ''0xc''))) = Some AddressActivity \<and>
   dispatch ''POST'' (url_path (wc_url (address_activity_request (''https://'' @ ''hub.example'' @ ''/'') ''0xc''))) = None"
  using webhook_callback_routing [of "''hub.example''" "''https://''" "''0xc''"]
  by (simp add: host_chars_def host_parse_eval)

end
